theory Spec2Isabelle
  imports Complex_Main "HOL-Library.AList" "HOL-Library.Sublist"
begin

section \<open>Outcomes of Go code\<close>

text \<open>
  A Go function of the importer either produces a value, returns an error to its caller
  (\<open>return nil, err\<close>), or panics (an index out of range, a nil dereference, a failed
  type assertion, an explicit \<open>panic(...)\<close>). A loop whose exit depends on the shape of
  the node graph may also fail to return. All four are values of \<open>res\<close>.

  Floating point numbers (\<open>float32\<close>, \<open>float64\<close>) are modelled by the real numbers they
  denote; NaN and the infinities are outside the model, and the rounding of a
  \<open>float64\<close> to a \<open>float32\<close> is the identity.
\<close>

datatype error = Error string

datatype panic =
    IndexOutOfRange
  | NilDereference
  | TypeAssertion
  | ExplicitPanic string

datatype 'a res = Ok 'a | Err error | Panic panic | Diverge

fun rbind :: "'a res \<Rightarrow> ('a \<Rightarrow> 'b res) \<Rightarrow> 'b res" where
  "rbind (Ok x) f = f x"
| "rbind (Err e) f = Err e"
| "rbind (Panic p) f = Panic p"
| "rbind Diverge f = Diverge"

text \<open>A \<open>for ... range\<close> loop over a list whose body may return an error or panic.\<close>

fun foldR :: "('a \<Rightarrow> 's \<Rightarrow> 's res) \<Rightarrow> 'a list \<Rightarrow> 's \<Rightarrow> 's res" where
  "foldR f [] s = Ok s"
| "foldR f (x # xs) s = rbind (f x s) (foldR f xs)"

text \<open>\<open>xs[i]\<close> on a slice, and \<open>*p\<close> on a pointer.\<close>

definition index :: "'a list \<Rightarrow> nat \<Rightarrow> 'a res" where
  "index xs i = (if i < length xs then Ok (xs ! i) else Panic IndexOutOfRange)"

definition deref :: "'a option \<Rightarrow> 'a res" where
  "deref p = (case p of None \<Rightarrow> Panic NilDereference | Some x \<Rightarrow> Ok x)"

text \<open>The result of a reader of the glTF library: \<open>if err != nil { return nil, err }\<close>.\<close>

definition orReturn :: "error + 'a \<Rightarrow> 'a res" where
  "orReturn r = (case r of Inl e \<Rightarrow> Err e | Inr x \<Rightarrow> Ok x)"

section \<open>Values of type \<open>interface{}\<close>\<close>

text \<open>
  The free-form \<open>Extras\<close> of the document are what the JSON decoder produces: \<open>nil\<close>,
  \<open>bool\<close>, \<open>float64\<close>, \<open>string\<close>, \<open>[]interface{}\<close> and \<open>map[string]interface{}\<close>. The
  importer also stores Go \<open>int\<close>s in tag maps. A Go map is an association list whose
  keys are distinct; \<open>m[k]\<close> is \<open>map_of m k\<close>.
\<close>

datatype iface =
    INil
  | IBool bool
  | IFloat real
  | IInt int
  | IString string
  | ISlice "iface list"
  | IMap "(string \<times> iface) list"

text \<open>The type assertions \<open>v.(float64)\<close>, \<open>v.(string)\<close>, \<open>v.([]interface{})\<close>,
  \<open>v.(map[string]interface{})\<close>: each panics on a value of another type.\<close>

fun asFloat :: "iface \<Rightarrow> real res" where
  "asFloat (IFloat x) = Ok x"
| "asFloat _ = Panic TypeAssertion"

fun asString :: "iface \<Rightarrow> string res" where
  "asString (IString s) = Ok s"
| "asString _ = Panic TypeAssertion"

fun asSlice :: "iface \<Rightarrow> iface list res" where
  "asSlice (ISlice xs) = Ok xs"
| "asSlice _ = Panic TypeAssertion"

fun asMap :: "iface \<Rightarrow> (string \<times> iface) list res" where
  "asMap (IMap m) = Ok m"
| "asMap _ = Panic TypeAssertion"

text \<open>\<open>dataMap, isMap := v.(map[string]interface{})\<close> does not panic.\<close>

fun isMap :: "iface \<Rightarrow> (string \<times> iface) list option" where
  "isMap (IMap m) = Some m"
| "isMap _ = None"

text \<open>\<open>int(x)\<close> of a \<open>float64\<close> truncates towards zero.\<close>

definition toInt :: "real \<Rightarrow> int" where
  "toInt x = (if 0 \<le> x then \<lfloor>x\<rfloor> else \<lceil>x\<rceil>)"

definition HasPrefix :: "string \<Rightarrow> string \<Rightarrow> bool" where
  "HasPrefix s p = prefix p s"

definition HasSuffix :: "string \<Rightarrow> string \<Rightarrow> bool" where
  "HasSuffix s p = suffix p s"

section \<open>Tags\<close>

text \<open>Modelled from the spec: the type \<open>Tags\<close> is not in the sources; the spec calls it a
  key/value tag map. \<open>Set\<close> stores a value under a key, replacing an earlier one.\<close>

type_synonym tags = "(string \<times> iface) list"

definition Set :: "string \<Rightarrow> iface \<Rightarrow> tags \<Rightarrow> tags" where
  "Set k v t = AList.update k v t"

text \<open>
  The loop that copies extras into a tag map; the importer writes it out three times, for
  materials, meshes and nodes:
  \<^verbatim>\<open>
  for tagName, data := range dataMap {
      if !strings.HasPrefix(tagName, "t3d") || !strings.HasSuffix(tagName, "__") {
          x.Tags.Set(tagName, data)
      }
  }\<close>
\<close>

definition setTag :: "string \<times> iface \<Rightarrow> tags \<Rightarrow> tags" where
  "setTag kv t =
     (if \<not> HasPrefix (fst kv) ''t3d'' \<or> \<not> HasSuffix (fst kv) ''__''
      then Set (fst kv) (snd kv) t else t)"

definition setTags :: "(string \<times> iface) list \<Rightarrow> tags \<Rightarrow> tags" where
  "setTags dataMap t = fold setTag dataMap t"

section \<open>The decoded document\<close>

text \<open>
  The fields of the glTF document that the importer reads. An index into a slice of the
  document is a \<open>nat\<close>; a field the importer dereferences (\<open>*x\<close>) or compares with
  \<open>nil\<close> is an \<open>option\<close>. The numeric blocks that only feed transforms, colours, camera
  and light parameters (node matrices and TRS fields, base colour factors, field of view,
  light colour and intensity) are left out, together with the fields of the built objects
  they are copied to; the control flow around them is kept.

  An accessor is represented by what the glTF library's readers (\<open>modeler.Read...\<close>, which
  are not part of this repository) return for it: an error, or the decoded elements. The
  typed readers check the accessor's type and return an error on elements of another
  shape; the generic \<open>ReadAccessor\<close> returns the elements as they are.
\<close>

type_synonym vec2 = "real \<times> real"
type_synonym vec3 = "real \<times> real \<times> real"
type_synonym 'a vec4 = "'a \<times> 'a \<times> 'a \<times> 'a"

datatype accessor_data =
    Scalars "real list"
  | Vec2s "vec2 list"
  | Vec3s "vec3 list"
  | Vec4s "real vec4 list"
  | UShort4s "nat vec4 list"
  | UInts "nat list"
  | Mat4s "real list list"

type_synonym accessor = "error + accessor_data"

definition wrongType :: error where
  "wrongType = Error ''accessor type''"

fun ReadPosition :: "accessor \<Rightarrow> error + vec3 list" where
  "ReadPosition (Inl e) = Inl e"
| "ReadPosition (Inr (Vec3s v)) = Inr v"
| "ReadPosition (Inr _) = Inl wrongType"

fun ReadNormal :: "accessor \<Rightarrow> error + vec3 list" where
  "ReadNormal (Inl e) = Inl e"
| "ReadNormal (Inr (Vec3s v)) = Inr v"
| "ReadNormal (Inr _) = Inl wrongType"

fun ReadTextureCoord :: "accessor \<Rightarrow> error + vec2 list" where
  "ReadTextureCoord (Inl e) = Inl e"
| "ReadTextureCoord (Inr (Vec2s v)) = Inr v"
| "ReadTextureCoord (Inr _) = Inl wrongType"

fun ReadColor64 :: "accessor \<Rightarrow> error + nat vec4 list" where
  "ReadColor64 (Inl e) = Inl e"
| "ReadColor64 (Inr (UShort4s v)) = Inr v"
| "ReadColor64 (Inr _) = Inl wrongType"

fun ReadWeights :: "accessor \<Rightarrow> error + real vec4 list" where
  "ReadWeights (Inl e) = Inl e"
| "ReadWeights (Inr (Vec4s v)) = Inr v"
| "ReadWeights (Inr _) = Inl wrongType"

fun ReadJoints :: "accessor \<Rightarrow> error + nat vec4 list" where
  "ReadJoints (Inl e) = Inl e"
| "ReadJoints (Inr (UShort4s v)) = Inr v"
| "ReadJoints (Inr _) = Inl wrongType"

fun ReadIndices :: "accessor \<Rightarrow> error + nat list" where
  "ReadIndices (Inl e) = Inl e"
| "ReadIndices (Inr (UInts v)) = Inr v"
| "ReadIndices (Inr _) = Inl wrongType"

definition ReadAccessor :: "accessor \<Rightarrow> error + accessor_data" where
  "ReadAccessor a = a"

text \<open>The assertions on what \<open>ReadAccessor\<close> returned: \<open>id.([]float32)\<close>,
  \<open>od.([][3]float32)\<close>, \<open>od.([][4]float32)\<close>, \<open>matrices.([][4][4]float32)\<close>.\<close>

fun asScalars :: "accessor_data \<Rightarrow> real list res" where
  "asScalars (Scalars v) = Ok v"
| "asScalars _ = Panic TypeAssertion"

fun asVec3s :: "accessor_data \<Rightarrow> real list list res" where
  "asVec3s (Vec3s v) = Ok (map (\<lambda>(x, y, z). [x, y, z]) v)"
| "asVec3s _ = Panic TypeAssertion"

fun asVec4s :: "accessor_data \<Rightarrow> real list list res" where
  "asVec4s (Vec4s v) = Ok (map (\<lambda>(x, y, z, w). [x, y, z, w]) v)"
| "asVec4s _ = Panic TypeAssertion"

fun asMat4s :: "accessor_data \<Rightarrow> real list list res" where
  "asMat4s (Mat4s v) = Ok v"
| "asMat4s _ = Panic TypeAssertion"

text \<open>The bytes of a buffer view are represented by what \<open>image.Decode\<close> makes of them:
  an error, or an image (named by a number).\<close>

type_synonym image = nat
type_synonym bytes = "error + image"

record gltf_image =
  img_BufferView :: "nat option"
  img_URI :: string

datatype alpha_mode = AlphaOpaque | AlphaMask | AlphaBlend

record gltf_material =
  gmat_Name :: string
  gmat_DoubleSided :: bool
  gmat_BaseColorTexture :: "nat option"
  gmat_AlphaMode :: alpha_mode
  gmat_Extras :: iface

record gltf_primitive =
  prim_Attributes :: "(string \<times> nat) list"
  prim_Indices :: "nat option"
  prim_Material :: "nat option"

record gltf_mesh =
  gmesh_Name :: string
  gmesh_Extras :: iface
  gmesh_Primitives :: "gltf_primitive list"

datatype trs_property = TRSTranslation | TRSRotation | TRSScale | TRSWeights

record gltf_sampler =
  smp_Input :: "nat option"
  smp_Output :: "nat option"
  smp_Interpolation :: nat

record gltf_channel =
  chan_Sampler :: "nat option"
  chan_TargetNode :: "nat option"
  chan_TargetPath :: trs_property

record gltf_animation =
  ganim_Name :: string
  ganim_Channels :: "gltf_channel list"
  ganim_Samplers :: "gltf_sampler list"
  ganim_Extras :: iface

record gltf_camera =
  cam_Perspective :: "real option option"
  cam_Orthographic :: bool

datatype light_type = TypeDirectional | TypePoint | TypeSpot

record gltf_light =
  light_Type :: light_type
  light_Intensity :: "real option"
  light_Range :: "real option"

record gltf_skin =
  skin_Joints :: "nat list"
  skin_InverseBindMatrices :: "nat option"

record gltf_node =
  gnode_Name :: string
  gnode_Mesh :: "nat option"
  gnode_Camera :: "nat option"
  gnode_Light :: "nat option"
  gnode_Skin :: "nat option"
  gnode_Children :: "nat list"
  gnode_Extras :: iface

record gltf_scene =
  gscene_Name :: string
  gscene_Nodes :: "nat list"
  gscene_Extras :: iface

record document =
  doc_Scene :: "nat option"
  doc_Scenes :: "gltf_scene list"
  doc_Images :: "gltf_image list"
  doc_BufferViews :: "(error + bytes) list"
  doc_Textures :: "nat option list"
  doc_Materials :: "gltf_material list"
  doc_Meshes :: "gltf_mesh list"
  doc_Accessors :: "accessor list"
  doc_Animations :: "gltf_animation list"
  doc_Cameras :: "gltf_camera list"
  doc_Lights :: "gltf_light list option"
  doc_Skins :: "gltf_skin list"
  doc_Nodes :: "gltf_node list"

section \<open>The built objects\<close>

subsection \<open>Colours\<close>

record Color =
  R :: real
  G :: real
  B :: real
  A :: real

definition NewColor :: "real \<Rightarrow> real \<Rightarrow> real \<Rightarrow> real \<Rightarrow> Color" where
  "NewColor r g b a = \<lparr>R = r, G = g, B = b, A = a\<rparr>"

definition Color_Clone :: "Color \<Rightarrow> Color" where
  "Color_Clone color = NewColor (R color) (G color) (B color) (A color)"

definition SetRGB :: "Color \<Rightarrow> real \<Rightarrow> real \<Rightarrow> real \<Rightarrow> Color" where
  "SetRGB color r g b = color\<lparr>R := r, G := g, B := b\<rparr>"

subsection \<open>Materials, meshes, animations\<close>

datatype transparency_mode =
    TransparencyModeAuto
  | TransparencyModeOpaque
  | TransparencyModeAlphaClip
  | TransparencyModeTransparent

record material =
  mat_Name :: string
  mat_BackfaceCulling :: bool
  mat_Texture :: "image option"
  mat_TexturePath :: string
  mat_TransparencyMode :: transparency_mode
  mat_Tags :: tags

text \<open>Modelled from the spec: \<open>NewMaterial\<close> is not in the sources. A new material has the
  given name, no texture and an empty tag map; the importer assigns the other fields
  kept here before it stores the material.\<close>

definition NewMaterial :: "string \<Rightarrow> material" where
  "NewMaterial name =
     \<lparr>mat_Name = name, mat_BackfaceCulling = True, mat_Texture = None,
      mat_TexturePath = [], mat_TransparencyMode = TransparencyModeOpaque, mat_Tags = []\<rparr>"

record VertexInfo =
  vx_X :: real
  vx_Y :: real
  vx_Z :: real
  vx_U :: real
  vx_V :: real
  vx_NormalX :: real
  vx_NormalY :: real
  vx_NormalZ :: real
  vx_Colors :: "nat vec4 list"
  vx_Weights :: "real list"
  vx_Bones :: "nat list"

text \<open>Modelled from the spec: \<open>NewVertex\<close> is not in the sources. A vertex carries
  position, uv, normal, zero or more colour channels and zero or more (bone, weight)
  pairs; a new vertex has the given position and uv and none of the rest. Colours are
  kept as the 16-bit channel values read; their conversion to sRGB floats is left out.\<close>

definition NewVertex :: "real \<Rightarrow> real \<Rightarrow> real \<Rightarrow> real \<Rightarrow> real \<Rightarrow> VertexInfo" where
  "NewVertex x y z u v =
     \<lparr>vx_X = x, vx_Y = y, vx_Z = z, vx_U = u, vx_V = v,
      vx_NormalX = 0, vx_NormalY = 0, vx_NormalZ = 0,
      vx_Colors = [], vx_Weights = [], vx_Bones = []\<rparr>"

text \<open>Modelled from the spec: \<open>Mesh\<close>, \<open>NewMesh\<close>, \<open>AddMeshPart\<close> and \<open>AddTriangles\<close> are not
  in the sources. A mesh has named mesh-parts, each bound to one material (held by the
  name under which the library stores it, or none) and holding a flat triangle list of
  vertices. \<open>VertexBones\<close> lists the bone indices of every vertex of the mesh, part by
  part.\<close>

record MeshPart =
  mp_Material :: "string option"
  mp_Vertices :: "VertexInfo list"

record Mesh =
  mesh_Name :: string
  mesh_Tags :: tags
  mesh_VertexColorChannelNames :: "(string \<times> nat) list"
  mesh_MeshParts :: "MeshPart list"

definition NewMesh :: "string \<Rightarrow> Mesh" where
  "NewMesh name =
     \<lparr>mesh_Name = name, mesh_Tags = [], mesh_VertexColorChannelNames = [],
      mesh_MeshParts = []\<rparr>"

definition AddTriangles :: "string option \<Rightarrow> VertexInfo list \<Rightarrow> Mesh \<Rightarrow> Mesh" where
  "AddTriangles mat verts m =
     m\<lparr>mesh_MeshParts := mesh_MeshParts m @ [\<lparr>mp_Material = mat, mp_Vertices = verts\<rparr>]\<rparr>"

definition VertexBones :: "Mesh \<Rightarrow> nat list list" where
  "VertexBones m = map vx_Bones (concat (map mp_Vertices (mesh_MeshParts m)))"

text \<open>Modelled from the spec: \<open>Animation\<close>, \<open>AddChannel\<close>, \<open>AddTrack\<close> and \<open>AddKeyframe\<close>
  are not in the sources. An animation is a named container of channels; a channel is
  bound to a target node by name and holds up to one track per property kind; a track is
  a sequence of keyframes, and \<open>AddKeyframe\<close> appends.\<close>

datatype track_type = TrackTypePosition | TrackTypeScale | TrackTypeRotation

record Keyframe =
  kf_Time :: real
  kf_Data :: "real list"

record AnimationTrack =
  track_Type :: track_type
  track_Interpolation :: nat
  track_Keyframes :: "Keyframe list"

record AnimationChannel =
  channel_Name :: string
  channel_Tracks :: "(track_type \<times> AnimationTrack) list"

record Marker =
  marker_Name :: string
  marker_Time :: real

record Animation =
  anim_Name :: string
  anim_Channels :: "(string \<times> AnimationChannel) list"
  anim_Length :: real
  anim_Markers :: "Marker list"

definition NewAnimation :: "string \<Rightarrow> Animation" where
  "NewAnimation name =
     \<lparr>anim_Name = name, anim_Channels = [], anim_Length = 0, anim_Markers = []\<rparr>"

definition AddKeyframe :: "real \<Rightarrow> real list \<Rightarrow> AnimationTrack \<Rightarrow> AnimationTrack" where
  "AddKeyframe t d track =
     track\<lparr>track_Keyframes := track_Keyframes track @ [\<lparr>kf_Time = t, kf_Data = d\<rparr>]\<rparr>"

subsection \<open>Nodes, scenes and the heap\<close>

text \<open>
  Nodes and scenes are objects that the importer shares by pointer and mutates in place,
  and a scene's \<open>FogRange\<close> is a slice. The model keeps them in a heap: a pointer is an
  index into the list of all objects of its kind, and a new object is put at the end.
  A \<open>Model\<close> holds its mesh by the name under which the library stores it.

  Modelled from the spec: the node types are not in the sources. A node has a name, a
  parent back-reference, an ordered list of children, a visibility flag, a tag map and the
  \<open>isBone\<close> flag; a Model also has a mesh, the \<open>Skinned\<close> flag, the \<open>SkinRoot\<close>
  back-reference and the bones of each vertex.
\<close>

datatype node_type =
    NodeTypeNode
  | NodeTypeModel
  | NodeTypeCamera
  | NodeTypeDirectionalLight
  | NodeTypePointLight
  | NodeTypeAmbientLight
  | NodeTypePath
  | NodeTypeBoundingAABB
  | NodeTypeBoundingCapsule
  | NodeTypeBoundingSphere
  | NodeTypeBoundingTriangles

record node =
  node_name :: string
  node_type :: node_type
  node_parent :: "nat option"
  node_children :: "nat list"
  node_tags :: tags
  node_visible :: bool
  node_isBone :: bool
  node_Mesh :: "string option"
  node_Skinned :: bool
  node_SkinRoot :: "nat option"
  node_bones :: "nat list list"

definition newNode :: "node_type \<Rightarrow> string \<Rightarrow> node" where
  "newNode ty name =
     \<lparr>node_name = name, node_type = ty, node_parent = None, node_children = [],
      node_tags = [], node_visible = True, node_isBone = False, node_Mesh = None,
      node_Skinned = False, node_SkinRoot = None, node_bones = []\<rparr>"

definition NewModel :: "string \<Rightarrow> string \<Rightarrow> node" where
  "NewModel mesh name = (newNode NodeTypeModel name)\<lparr>node_Mesh := Some mesh\<rparr>"

type_synonym FogMode = nat

definition FogOff :: FogMode where "FogOff = 0"
definition FogAdd :: FogMode where "FogAdd = 1"
definition FogMultiply :: FogMode where "FogMultiply = 2"
definition FogOverwrite :: FogMode where "FogOverwrite = 3"

record Scene =
  scene_Name :: string
  scene_Root :: "nat option"
  scene_Meshes :: "(string \<times> nat) list"
  scene_FogColor :: Color
  scene_FogMode :: FogMode
  scene_FogRange :: nat

record world =
  w_nodes :: "node list"
  w_scenes :: "Scene list"
  w_slices :: "real list list"

definition emptyWorld :: world where
  "emptyWorld = \<lparr>w_nodes = [], w_scenes = [], w_slices = []\<rparr>"

definition allocNode :: "node \<Rightarrow> world \<Rightarrow> nat \<times> world" where
  "allocNode n w = (length (w_nodes w), w\<lparr>w_nodes := w_nodes w @ [n]\<rparr>)"

definition allocSlice :: "real list \<Rightarrow> world \<Rightarrow> nat \<times> world" where
  "allocSlice xs w = (length (w_slices w), w\<lparr>w_slices := w_slices w @ [xs]\<rparr>)"

definition allocScene :: "Scene \<Rightarrow> world \<Rightarrow> nat \<times> world" where
  "allocScene sc w = (length (w_scenes w), w\<lparr>w_scenes := w_scenes w @ [sc]\<rparr>)"

definition updNode :: "nat \<Rightarrow> (node \<Rightarrow> node) \<Rightarrow> world \<Rightarrow> world" where
  "updNode a f w = w\<lparr>w_nodes := (w_nodes w)[a := f (w_nodes w ! a)]\<rparr>"

definition updScene :: "nat \<Rightarrow> (Scene \<Rightarrow> Scene) \<Rightarrow> world \<Rightarrow> world" where
  "updScene a f w = w\<lparr>w_scenes := (w_scenes w)[a := f (w_scenes w ! a)]\<rparr>"

record Library =
  lib_Scenes :: "nat list"
  lib_ExportedScene :: nat
  lib_Meshes :: "(string \<times> Mesh) list"
  lib_Animations :: "(string \<times> Animation) list"
  lib_Materials :: "(string \<times> material) list"
  lib_world :: world

subsection \<open>Parenting and cloning\<close>

definition loadNode :: "world \<Rightarrow> nat \<Rightarrow> node res" where
  "loadNode w a =
     (if a < length (w_nodes w) then Ok (w_nodes w ! a) else Panic NilDereference)"

text \<open>\<open>isAncestor h a x\<close>: is \<open>a\<close> the node \<open>x\<close> or one of its ancestors? The walk up the
  parent references does not return on a cyclic chain.\<close>

partial_function (option) isAncestor :: "node list \<Rightarrow> nat \<Rightarrow> nat \<Rightarrow> bool option" where
  "isAncestor h a x =
     (if x = a then Some True
      else if length h \<le> x then Some False
      else case node_parent (h ! x) of
             None \<Rightarrow> Some False
           | Some p \<Rightarrow> isAncestor h a p)"

declare isAncestor.simps [code]

text \<open>Modelled from the spec: \<open>AddChildren\<close> is not in the sources. It mutates the
  children list of the receiver; a child that already has a parent is removed from that
  parent's children first; a call that would introduce a cycle (the receiver is the child
  or one of its descendants) fails silently. The importer always passes one child.\<close>

definition removeChild :: "nat \<Rightarrow> world \<Rightarrow> world" where
  "removeChild c w =
     (case node_parent (w_nodes w ! c) of
        None \<Rightarrow> w
      | Some q \<Rightarrow> updNode q (\<lambda>n. n\<lparr>node_children := removeAll c (node_children n)\<rparr>) w)"

definition setParent :: "nat \<Rightarrow> nat \<Rightarrow> world \<Rightarrow> world" where
  "setParent p c w =
     updNode p (\<lambda>n. n\<lparr>node_children := node_children n @ [c]\<rparr>)
       (updNode c (\<lambda>n. n\<lparr>node_parent := Some p\<rparr>) w)"

definition AddChildren :: "nat \<Rightarrow> nat \<Rightarrow> world \<Rightarrow> world res" where
  "AddChildren p c w =
     (case isAncestor (w_nodes w) c p of
        None \<Rightarrow> Diverge
      | Some True \<Rightarrow> Ok w
      | Some False \<Rightarrow> Ok (setParent p c (removeChild c w)))"

text \<open>Modelled from the spec: \<open>Clone\<close> is not in the sources. It deep-copies the subtree:
  new nodes with copied scalar state and independently owned children; a reference to
  another node of the same subtree (bones, \<open>SkinRoot\<close>) is remapped to the corresponding
  clone in a second pass, through the map from old to new nodes that the first pass
  builds. The source subtree is read from \<open>src\<close>, the heap of the library that owns it.
  The recursion over children carries fuel, the number of nodes of \<open>src\<close>, which a tree
  cannot exhaust.\<close>

fun copyTree :: "nat \<Rightarrow> node list \<Rightarrow> nat \<Rightarrow> world \<times> (nat \<times> nat) list
    \<Rightarrow> (nat \<times> world \<times> (nat \<times> nat) list) res" where
  "copyTree 0 src a (w, m) = Diverge"
| "copyTree (Suc k) src a (w, m) =
     (if length src \<le> a then Panic NilDereference
      else
        let new = allocNode ((src ! a)\<lparr>node_parent := None, node_children := []\<rparr>) w
        in rbind
             (foldR
                (\<lambda>c (w1, m1).
                   rbind (copyTree k src c (w1, m1)) (\<lambda>(c', w2, m2).
                   rbind (AddChildren (fst new) c' w2) (\<lambda>w3. Ok (w3, m2))))
                (node_children (src ! a)) (snd new, m @ [(a, fst new)]))
             (\<lambda>(w4, m4). Ok (fst new, w4, m4)))"

definition remap :: "(nat \<times> nat) list \<Rightarrow> nat \<Rightarrow> nat" where
  "remap m a = (case map_of m a of None \<Rightarrow> a | Some b \<Rightarrow> b)"

definition remapNode :: "(nat \<times> nat) list \<Rightarrow> node \<Rightarrow> node" where
  "remapNode m n =
     n\<lparr>node_SkinRoot := map_option (remap m) (node_SkinRoot n),
       node_bones := map (map (remap m)) (node_bones n)\<rparr>"

definition Clone :: "node list \<Rightarrow> nat \<Rightarrow> world \<Rightarrow> (nat \<times> world) res" where
  "Clone src a w =
     rbind (copyTree (length src) src a (w, [])) (\<lambda>(a', w1, m).
     Ok (a', fold (\<lambda>b. updNode b (remapNode m)) (map snd m) w1))"

section \<open>The importer\<close>

record GLTFLoadOptions =
  CameraWidth :: int
  CameraHeight :: int
  CameraDepth :: bool
  DefaultToAutoTransparency :: bool
  DependentLibraryResolver :: "(string \<Rightarrow> Library option) option"

definition DefaultGLTFLoadOptions :: GLTFLoadOptions where
  "DefaultGLTFLoadOptions =
     \<lparr>CameraWidth = 1920, CameraHeight = 1080, CameraDepth = True,
      DefaultToAutoTransparency = True, DependentLibraryResolver = None\<rparr>"

record Collection =
  col_Objects :: "string list"
  col_Offset :: "real list"
  col_Path :: string

text \<open>
  What the importer calls and this development does not define: the glTF decoder and the
  JSON unmarshaller of the standard library, the colour conversion \<open>ConvertTosRGB\<close>
  (of this repository, not in the sources), and the order in which the Go runtime ranges
  over the map \<open>objToNode\<close>, which the language leaves open: the two loops over that map
  visit its entries by increasing \<open>env_order1\<close> and \<open>env_order2\<close>, so that every order is
  the order of some environment.
\<close>

record environment =
  env_Decode :: "nat list \<Rightarrow> error + document"
  env_Unmarshal :: "(string \<times> iface) list \<Rightarrow> error + (string \<times> Collection) list"
  env_ConvertTosRGB :: "Color \<Rightarrow> Color"
  env_order1 :: "nat \<Rightarrow> nat"
  env_order2 :: "nat \<Rightarrow> nat"

definition rangeOrder :: "(nat \<Rightarrow> nat) \<Rightarrow> nat \<Rightarrow> nat list" where
  "rangeOrder prio n = sort_key prio [0..<n]"

subsection \<open>Exporter settings, images and materials\<close>

text \<open>Lines 99-129. The flag \<open>t3dExport\<close> only selects where a material's colour comes
  from and is left out with the colours.\<close>

definition panicErr :: "error \<Rightarrow> 'a res" where
  "panicErr e = (case e of Error msg \<Rightarrow> Panic (ExplicitPanic msg))"

definition exporterSettings ::
    "environment \<Rightarrow> document \<Rightarrow> (bool \<times> (string \<times> Collection) list) res" where
  "exporterSettings env doc =
     (case doc_Scenes doc of
        [] \<Rightarrow> Ok (True, [])
      | s0 # _ \<Rightarrow>
          if gscene_Extras s0 = INil then Ok (True, [])
          else
            rbind (asMap (gscene_Extras s0)) (\<lambda>globalExporterSettings.
            rbind (case map_of globalExporterSettings ''t3dPackTextures__'' of
                     None \<Rightarrow> Ok True
                   | Some et \<Rightarrow> rbind (asFloat et) (\<lambda>x. Ok (0 < x))) (\<lambda>exportedTextures.
            rbind (case map_of globalExporterSettings ''t3dCollections__'' of
                     None \<Rightarrow> Ok []
                   | Some col \<Rightarrow>
                       rbind (asMap col) (\<lambda>data.
                       case env_Unmarshal env data of
                         Inl e \<Rightarrow> panicErr e
                       | Inr collections \<Rightarrow> Ok collections)) (\<lambda>collections.
            Ok (exportedTextures, collections)))))"

text \<open>Lines 131-151.\<close>

definition loadImage :: "document \<Rightarrow> gltf_image \<Rightarrow> image list \<Rightarrow> image list res" where
  "loadImage doc gltfImage images =
     rbind (deref (img_BufferView gltfImage)) (\<lambda>bv.
     rbind (index (doc_BufferViews doc) bv) (\<lambda>view.
     rbind (orReturn view) (\<lambda>imageData.
     rbind (orReturn imageData) (\<lambda>img.
     Ok (images @ [img])))))"

definition loadImages :: "document \<Rightarrow> bool \<Rightarrow> image list res" where
  "loadImages doc exportedTextures =
     (if exportedTextures then foldR (loadImage doc) (doc_Images doc) [] else Ok [])"

text \<open>Lines 153-243.\<close>

definition elemFloat :: "iface list \<Rightarrow> nat \<Rightarrow> real res" where
  "elemFloat xs i = rbind (index xs i) asFloat"

definition floatAt :: "(string \<times> iface) list \<Rightarrow> string \<Rightarrow> unit res" where
  "floatAt dataMap k =
     (case map_of dataMap k of
        None \<Rightarrow> Ok ()
      | Some s \<Rightarrow> rbind (asFloat s) (\<lambda>_. Ok ()))"

definition color4At :: "(string \<times> iface) list \<Rightarrow> string \<Rightarrow> unit res" where
  "color4At dataMap k =
     (case map_of dataMap k of
        None \<Rightarrow> Ok ()
      | Some c \<Rightarrow>
          rbind (asSlice c) (\<lambda>color.
          rbind (elemFloat color 0) (\<lambda>_.
          rbind (elemFloat color 1) (\<lambda>_.
          rbind (elemFloat color 2) (\<lambda>_.
          rbind (elemFloat color 3) (\<lambda>_. Ok ()))))))"

definition materialExtras :: "(string \<times> iface) list \<Rightarrow> material \<Rightarrow> material res" where
  "materialExtras dataMap newMat =
     rbind (color4At dataMap ''t3dMaterialColor__'') (\<lambda>_.
     rbind (floatAt dataMap ''t3dMaterialShadeless__'') (\<lambda>_.
     rbind (floatAt dataMap ''t3dCompositeMode__'') (\<lambda>_.
     rbind (floatAt dataMap ''t3dBillboardMode__'') (\<lambda>_.
     Ok (newMat\<lparr>mat_Tags := setTags dataMap (mat_Tags newMat)\<rparr>)))))"

definition materialTexture ::
    "document \<Rightarrow> bool \<Rightarrow> image list \<Rightarrow> gltf_material \<Rightarrow> material \<Rightarrow> material res" where
  "materialTexture doc exportedTextures images gltfMat newMat =
     (case gmat_BaseColorTexture gltfMat of
        None \<Rightarrow> Ok newMat
      | Some texture \<Rightarrow>
          rbind (index (doc_Textures doc) texture) (\<lambda>tex.
          rbind (deref tex) (\<lambda>source.
          if exportedTextures
          then rbind (index images source) (\<lambda>img. Ok (newMat\<lparr>mat_Texture := Some img\<rparr>))
          else rbind (index (doc_Images doc) source) (\<lambda>gi.
                 Ok (newMat\<lparr>mat_TexturePath := img_URI gi\<rparr>)))))"

definition transparencyMode :: "GLTFLoadOptions \<Rightarrow> alpha_mode \<Rightarrow> transparency_mode" where
  "transparencyMode opts am =
     (if am = AlphaOpaque
      then (if DefaultToAutoTransparency opts then TransparencyModeAuto
            else TransparencyModeOpaque)
      else if am = AlphaBlend then TransparencyModeTransparent
      else TransparencyModeAlphaClip)"

definition loadMaterial ::
    "document \<Rightarrow> GLTFLoadOptions \<Rightarrow> bool \<Rightarrow> image list \<Rightarrow> gltf_material
      \<Rightarrow> (string \<times> material) list \<Rightarrow> (string \<times> material) list res" where
  "loadMaterial doc opts exportedTextures images gltfMat materials =
     rbind (materialTexture doc exportedTextures images gltfMat
              ((NewMaterial (gmat_Name gltfMat))
                 \<lparr>mat_BackfaceCulling := \<not> gmat_DoubleSided gltfMat\<rparr>)) (\<lambda>newMat.
     rbind (if gmat_Extras gltfMat = INil then Ok newMat
            else case isMap (gmat_Extras gltfMat) of
                   None \<Rightarrow> Ok newMat
                 | Some dataMap \<Rightarrow> materialExtras dataMap newMat) (\<lambda>newMat.
     Ok (AList.update (gmat_Name gltfMat)
           (newMat\<lparr>mat_TransparencyMode := transparencyMode opts (gmat_AlphaMode gltfMat)\<rparr>)
           materials)))"

subsection \<open>Meshes\<close>

text \<open>Lines 245-422. \<open>v.Attributes[k]\<close> on a missing key is 0.\<close>

definition attribute :: "(string \<times> nat) list \<Rightarrow> string \<Rightarrow> nat" where
  "attribute attrs k = (case map_of attrs k of None \<Rightarrow> 0 | Some a \<Rightarrow> a)"

definition list4 :: "'a vec4 \<Rightarrow> 'a list" where
  "list4 v = (case v of (a, b, c, d) \<Rightarrow> [a, b, c, d])"

text \<open>\<open>for i, v := range xs { vertexData[i].f = ... }\<close>\<close>

definition eachVertex ::
    "('a \<Rightarrow> VertexInfo \<Rightarrow> VertexInfo) \<Rightarrow> 'a list \<Rightarrow> VertexInfo list \<Rightarrow> VertexInfo list res" where
  "eachVertex f xs vertexData =
     foldR (\<lambda>iv vd. if fst iv < length vd
                     then Ok (vd[fst iv := f (snd iv) (vd ! fst iv)])
                     else Panic IndexOutOfRange)
       (enumerate 0 xs) vertexData"

definition setUV :: "vec2 \<Rightarrow> VertexInfo \<Rightarrow> VertexInfo" where
  "setUV v vx = vx\<lparr>vx_U := fst v, vx_V := - (snd v - 1)\<rparr>"

definition setNormal :: "vec3 \<Rightarrow> VertexInfo \<Rightarrow> VertexInfo" where
  "setNormal v vx =
     (case v of (x, y, z) \<Rightarrow> vx\<lparr>vx_NormalX := x, vx_NormalY := y, vx_NormalZ := z\<rparr>)"

definition addColor :: "nat vec4 \<Rightarrow> VertexInfo \<Rightarrow> VertexInfo" where
  "addColor colorData vx = vx\<lparr>vx_Colors := vx_Colors vx @ [colorData]\<rparr>"

text \<open>\<open>strconv.Itoa\<close>, on the one-digit numbers the colour loop passes.\<close>

definition Itoa :: "nat \<Rightarrow> string" where
  "Itoa n = [''0123456789'' ! n]"

text \<open>The loop over the eight colour channels stops at the first missing one.\<close>

fun colorChannels ::
    "accessor list \<Rightarrow> (string \<times> nat) list \<Rightarrow> nat list \<Rightarrow> VertexInfo list
      \<Rightarrow> VertexInfo list res" where
  "colorChannels accs attrs [] vertexData = Ok vertexData"
| "colorChannels accs attrs (colorChannelIndex # rest) vertexData =
     (case map_of attrs (''COLOR_'' @ Itoa colorChannelIndex) of
        None \<Rightarrow> Ok vertexData
      | Some vertexColorAccessor \<Rightarrow>
          rbind (index accs vertexColorAccessor) (\<lambda>acc.
          rbind (orReturn (ReadColor64 acc)) (\<lambda>colors.
          rbind (eachVertex addColor colors vertexData) (colorChannels accs attrs rest))))"

text \<open>
  Lines 380-389:
  \<^verbatim>\<open>
  for w := range weights {
      vWeights := weights[w]
      for i := range vWeights {
          if vWeights[i] > 0 {
              vertexData[w].Weights = append(vertexData[w].Weights, vWeights[i])
              vertexData[w].Bones = append(vertexData[w].Bones, bones[w][i])
          }
      }
  }\<close>
\<close>

definition storeWeight ::
    "nat vec4 list \<Rightarrow> nat \<Rightarrow> real list \<Rightarrow> nat \<Rightarrow> VertexInfo list \<Rightarrow> VertexInfo list res" where
  "storeWeight bones w vWeights i vertexData =
     (if 0 < vWeights ! i
      then rbind (index vertexData w) (\<lambda>vx.
           rbind (index bones w) (\<lambda>b.
           Ok (vertexData[w := vx\<lparr>vx_Weights := vx_Weights vx @ [vWeights ! i],
                                  vx_Bones := vx_Bones vx @ [list4 b ! i]\<rparr>])))
      else Ok vertexData)"

definition storeWeights ::
    "real vec4 list \<Rightarrow> nat vec4 list \<Rightarrow> VertexInfo list \<Rightarrow> VertexInfo list res" where
  "storeWeights weights bones vertexData =
     foldR (\<lambda>w. foldR (storeWeight bones w (list4 (weights ! w))) [0..<4])
       [0..<length weights] vertexData"

definition readWeights ::
    "accessor list \<Rightarrow> (string \<times> nat) list \<Rightarrow> VertexInfo list \<Rightarrow> VertexInfo list res" where
  "readWeights accs attrs vertexData =
     (case map_of attrs ''WEIGHTS_0'' of
        None \<Rightarrow> Ok vertexData
      | Some weightAccessor \<Rightarrow>
          rbind (index accs weightAccessor) (\<lambda>wacc.
          rbind (orReturn (ReadWeights wacc)) (\<lambda>weights.
          rbind (index accs (attribute attrs ''JOINTS_0'')) (\<lambda>jacc.
          rbind (orReturn (ReadJoints jacc)) (\<lambda>bones.
          storeWeights weights bones vertexData)))))"

definition readTexCoords ::
    "accessor list \<Rightarrow> (string \<times> nat) list \<Rightarrow> VertexInfo list \<Rightarrow> VertexInfo list res" where
  "readTexCoords accs attrs vertexData =
     (case map_of attrs ''TEXCOORD_0'' of
        None \<Rightarrow> Ok vertexData
      | Some texCoordAccessor \<Rightarrow>
          rbind (index accs texCoordAccessor) (\<lambda>acc.
          rbind (orReturn (ReadTextureCoord acc)) (\<lambda>texCoords.
          eachVertex setUV texCoords vertexData)))"

definition readNormals ::
    "accessor list \<Rightarrow> (string \<times> nat) list \<Rightarrow> VertexInfo list \<Rightarrow> VertexInfo list res" where
  "readNormals accs attrs vertexData =
     (case map_of attrs ''NORMAL'' of
        None \<Rightarrow> Ok vertexData
      | Some normalAccessor \<Rightarrow>
          rbind (index accs normalAccessor) (\<lambda>acc.
          rbind (orReturn (ReadNormal acc)) (\<lambda>normals.
          eachVertex setNormal normals vertexData)))"

text \<open>The vertices of one primitive before the index buffer is applied (lines 273-391).\<close>

definition readVertexData :: "document \<Rightarrow> gltf_primitive \<Rightarrow> VertexInfo list res" where
  "readVertexData doc v =
     rbind (index (doc_Accessors doc) (attribute (prim_Attributes v) ''POSITION'')) (\<lambda>acc.
     rbind (orReturn (ReadPosition acc)) (\<lambda>vertPos.
     rbind (readTexCoords (doc_Accessors doc) (prim_Attributes v)
              (map (\<lambda>p. case p of (x, y, z) \<Rightarrow> NewVertex x y z 0 0) vertPos)) (\<lambda>vertexData.
     rbind (readNormals (doc_Accessors doc) (prim_Attributes v) vertexData) (\<lambda>vertexData.
     rbind (colorChannels (doc_Accessors doc) (prim_Attributes v) [0..<8] vertexData)
       (\<lambda>vertexData.
     readWeights (doc_Accessors doc) (prim_Attributes v) vertexData)))))"

text \<open>Lines 393-405: \<open>newVerts[i] = vertexData[indices[i]]\<close>.\<close>

definition readIndices :: "document \<Rightarrow> gltf_primitive \<Rightarrow> nat list res" where
  "readIndices doc v =
     rbind (deref (prim_Indices v)) (\<lambda>ia.
     rbind (index (doc_Accessors doc) ia) (\<lambda>acc.
     orReturn (ReadIndices acc)))"

definition expandIndices :: "VertexInfo list \<Rightarrow> nat list \<Rightarrow> VertexInfo list res" where
  "expandIndices vertexData indices =
     foldR (\<lambda>ix newVerts. rbind (index vertexData ix) (\<lambda>vx. Ok (newVerts @ [vx])))
       indices []"

definition primitiveMaterial ::
    "document \<Rightarrow> (string \<times> material) list \<Rightarrow> gltf_primitive \<Rightarrow> string option res" where
  "primitiveMaterial doc materials v =
     (case prim_Material v of
        None \<Rightarrow> Ok None
      | Some mi \<Rightarrow>
          rbind (index (doc_Materials doc) mi) (\<lambda>gltfMat.
          Ok (map_option (\<lambda>_. gmat_Name gltfMat) (map_of materials (gmat_Name gltfMat)))))"

definition loadPrimitive ::
    "document \<Rightarrow> (string \<times> material) list \<Rightarrow> gltf_primitive \<Rightarrow> Mesh \<Rightarrow> Mesh res" where
  "loadPrimitive doc materials v newMesh =
     rbind (readVertexData doc v) (\<lambda>vertexData.
     rbind (readIndices doc v) (\<lambda>indices.
     rbind (expandIndices vertexData indices) (\<lambda>newVerts.
     rbind (primitiveMaterial doc materials v) (\<lambda>mat.
     Ok (AddTriangles mat newVerts newMesh)))))"

definition vertexColorNames :: "(string \<times> iface) list \<Rightarrow> Mesh \<Rightarrow> Mesh res" where
  "vertexColorNames dataMap newMesh =
     (case map_of dataMap ''t3dVertexColorNames__'' of
        None \<Rightarrow> Ok newMesh
      | Some vcNames \<Rightarrow>
          rbind (asSlice vcNames) (\<lambda>names.
          foldR (\<lambda>ixn m. rbind (asString (snd ixn)) (\<lambda>name.
                   Ok (m\<lparr>mesh_VertexColorChannelNames :=
                           AList.update name (fst ixn) (mesh_VertexColorChannelNames m)\<rparr>)))
            (enumerate 0 names) newMesh))"

definition meshExtras :: "iface \<Rightarrow> Mesh \<Rightarrow> Mesh res" where
  "meshExtras extras newMesh =
     (if extras = INil then Ok newMesh
      else case isMap extras of
             None \<Rightarrow> Ok newMesh
           | Some dataMap \<Rightarrow>
               rbind (vertexColorNames dataMap newMesh) (\<lambda>m.
               Ok (m\<lparr>mesh_Tags := setTags dataMap (mesh_Tags m)\<rparr>)))"

definition loadMesh ::
    "document \<Rightarrow> (string \<times> material) list \<Rightarrow> gltf_mesh \<Rightarrow> (string \<times> Mesh) list
      \<Rightarrow> (string \<times> Mesh) list res" where
  "loadMesh doc materials mesh meshes =
     rbind (meshExtras (gmesh_Extras mesh) (NewMesh (gmesh_Name mesh))) (\<lambda>newMesh.
     rbind (foldR (loadPrimitive doc materials) (gmesh_Primitives mesh) newMesh) (\<lambda>newMesh.
     Ok (AList.update (gmesh_Name mesh) newMesh meshes)))"

subsection \<open>Animations\<close>

text \<open>Lines 424-554. The three branches for translation, scale and rotation differ in
  the type asserted for the output elements and in the kind of the track.\<close>

definition addKey ::
    "real list \<Rightarrow> real list list \<Rightarrow> nat \<Rightarrow> AnimationTrack \<times> real
      \<Rightarrow> (AnimationTrack \<times> real) res" where
  "addKey inputData outputData i st =
     rbind (index outputData i) (\<lambda>p.
     Ok (AddKeyframe (inputData ! i) p (fst st),
         if snd st < inputData ! i then inputData ! i else snd st))"

definition readTrack ::
    "document \<Rightarrow> gltf_sampler \<Rightarrow> (accessor_data \<Rightarrow> real list list res) \<Rightarrow> track_type
      \<Rightarrow> AnimationChannel \<times> real \<Rightarrow> (AnimationChannel \<times> real) res" where
  "readTrack doc sampler asOutput ty st =
     rbind (deref (smp_Input sampler)) (\<lambda>ia.
     rbind (index (doc_Accessors doc) ia) (\<lambda>iacc.
     rbind (orReturn (ReadAccessor iacc)) (\<lambda>id.
     rbind (asScalars id) (\<lambda>inputData.
     rbind (deref (smp_Output sampler)) (\<lambda>oa.
     rbind (index (doc_Accessors doc) oa) (\<lambda>oacc.
     rbind (orReturn (ReadAccessor oacc)) (\<lambda>od.
     rbind (asOutput od) (\<lambda>outputData.
     rbind (foldR (addKey inputData outputData) [0..<length inputData]
              (\<lparr>track_Type = ty, track_Interpolation = smp_Interpolation sampler,
                track_Keyframes = []\<rparr>, snd st)) (\<lambda>r.
     Ok ((fst st)\<lparr>channel_Tracks := AList.update ty (fst r) (channel_Tracks (fst st))\<rparr>,
         snd r))))))))))"

definition channelTrack ::
    "document \<Rightarrow> gltf_sampler \<Rightarrow> trs_property \<Rightarrow> AnimationChannel \<times> real
      \<Rightarrow> (AnimationChannel \<times> real) res" where
  "channelTrack doc sampler path st =
     (if path = TRSTranslation then readTrack doc sampler asVec3s TrackTypePosition st
      else if path = TRSScale then readTrack doc sampler asVec3s TrackTypeScale st
      else if path = TRSRotation then readTrack doc sampler asVec4s TrackTypeRotation st
      else Ok st)"

definition loadChannel ::
    "document \<Rightarrow> gltf_animation \<Rightarrow> gltf_channel \<Rightarrow> Animation \<times> real
      \<Rightarrow> (Animation \<times> real) res" where
  "loadChannel doc gltfAnim channel st =
     rbind (deref (chan_Sampler channel)) (\<lambda>si.
     rbind (index (ganim_Samplers gltfAnim) si) (\<lambda>sampler.
     rbind (case chan_TargetNode channel of
              None \<Rightarrow> Ok ''root''
            | Some ni \<Rightarrow> rbind (index (doc_Nodes doc) ni) (\<lambda>n. Ok (gnode_Name n)))
       (\<lambda>channelName.
     rbind (channelTrack doc sampler (chan_TargetPath channel)
              (case map_of (anim_Channels (fst st)) channelName of
                 None \<Rightarrow> \<lparr>channel_Name = channelName, channel_Tracks = []\<rparr>
               | Some animChannel \<Rightarrow> animChannel, snd st)) (\<lambda>r.
     Ok ((fst st)\<lparr>anim_Channels :=
                    AList.update channelName (fst r) (anim_Channels (fst st))\<rparr>,
         snd r)))))"

definition readMarker :: "iface \<Rightarrow> Marker res" where
  "readMarker mData =
     rbind (asMap mData) (\<lambda>marker.
     rbind (asString (case map_of marker ''name'' of None \<Rightarrow> INil | Some v \<Rightarrow> v)) (\<lambda>name.
     rbind (asFloat (case map_of marker ''time'' of None \<Rightarrow> INil | Some v \<Rightarrow> v)) (\<lambda>time.
     Ok \<lparr>marker_Name = name, marker_Time = time\<rparr>)))"

definition readMarkers :: "iface \<Rightarrow> Animation \<Rightarrow> Animation res" where
  "readMarkers extras anim =
     (if extras = INil then Ok anim
      else
        rbind (asMap extras) (\<lambda>m.
        case map_of m ''t3dMarkers__'' of
          None \<Rightarrow> Ok anim
        | Some markerData \<Rightarrow>
            rbind (asSlice markerData) (\<lambda>ms.
            foldR (\<lambda>mData a. rbind (readMarker mData) (\<lambda>mk.
                     Ok (a\<lparr>anim_Markers := anim_Markers a @ [mk]\<rparr>))) ms anim)))"

definition loadAnimation ::
    "document \<Rightarrow> gltf_animation \<Rightarrow> (string \<times> Animation) list
      \<Rightarrow> (string \<times> Animation) list res" where
  "loadAnimation doc gltfAnim animations =
     rbind (foldR (loadChannel doc gltfAnim) (ganim_Channels gltfAnim)
              (NewAnimation (ganim_Name gltfAnim), 0)) (\<lambda>r.
     rbind (readMarkers (ganim_Extras gltfAnim) (fst r)) (\<lambda>anim.
     Ok (AList.update (ganim_Name gltfAnim) (anim\<lparr>anim_Length := snd r\<rparr>) animations)))"

subsection \<open>Nodes\<close>

text \<open>Lines 568-579 and 583-649: the variant of the object built for a document node.\<close>

definition nodeHasProp :: "gltf_node \<Rightarrow> string \<Rightarrow> bool res" where
  "nodeHasProp node propName =
     (if gnode_Extras node = INil then Ok False
      else rbind (asMap (gnode_Extras node)) (\<lambda>m. Ok (map_of m propName \<noteq> None)))"

definition lookupOrNil :: "(string \<times> iface) list \<Rightarrow> string \<Rightarrow> iface" where
  "lookupOrNil m k = (case map_of m k of None \<Rightarrow> INil | Some v \<Rightarrow> v)"

definition pathPoint :: "iface \<Rightarrow> unit res" where
  "pathPoint p =
     rbind (asSlice p) (\<lambda>pointData.
     rbind (elemFloat pointData 0) (\<lambda>_.
     rbind (elemFloat pointData 2) (\<lambda>_.
     rbind (elemFloat pointData 1) (\<lambda>_. Ok ()))))"

definition newPath :: "gltf_node \<Rightarrow> node res" where
  "newPath node =
     rbind (asMap (gnode_Extras node)) (\<lambda>extraMap.
     rbind (asSlice (lookupOrNil extraMap ''t3dPathPoints__'')) (\<lambda>ps.
     rbind (foldR (\<lambda>p u. pathPoint p) ps ()) (\<lambda>_.
     rbind (nodeHasProp node ''t3dPathCyclic__'') (\<lambda>cyclic.
     rbind (if cyclic
            then rbind (asFloat (lookupOrNil extraMap ''t3dPathCyclic__'')) (\<lambda>_. Ok ())
            else Ok ()) (\<lambda>_.
     Ok (newNode NodeTypePath (gnode_Name node)))))))"

definition newLight :: "document \<Rightarrow> gltf_node \<Rightarrow> nat \<Rightarrow> node res" where
  "newLight doc node lighting =
     rbind (case doc_Lights doc of None \<Rightarrow> Panic TypeAssertion | Some ls \<Rightarrow> Ok ls) (\<lambda>lights.
     rbind (index lights lighting) (\<lambda>lightData.
     if light_Type lightData = TypeDirectional
     then rbind (deref (light_Intensity lightData)) (\<lambda>_.
            Ok (newNode NodeTypeDirectionalLight (gnode_Name node)))
     else if light_Type lightData = TypePoint
     then rbind (deref (light_Intensity lightData)) (\<lambda>_.
          rbind (deref (light_Range lightData)) (\<lambda>_.
            Ok (newNode NodeTypePointLight (gnode_Name node))))
     else rbind (deref (light_Intensity lightData)) (\<lambda>_.
            Ok (newNode NodeTypeAmbientLight (gnode_Name node)))))"

definition newCamera :: "document \<Rightarrow> gltf_node \<Rightarrow> nat \<Rightarrow> node res" where
  "newCamera doc node ci =
     rbind (index (doc_Cameras doc) ci) (\<lambda>gltfCam.
     rbind (case cam_Perspective gltfCam of
              None \<Rightarrow> Ok ()
            | Some zfar \<Rightarrow> rbind (deref zfar) (\<lambda>_. Ok ())) (\<lambda>_.
     Ok (newNode NodeTypeCamera (gnode_Name node))))"

definition newObject :: "document \<Rightarrow> (string \<times> Mesh) list \<Rightarrow> gltf_node \<Rightarrow> node res" where
  "newObject doc meshes node =
     (case gnode_Mesh node of
        Some mi \<Rightarrow>
          rbind (index (doc_Meshes doc) mi) (\<lambda>gm.
          Ok ((newNode NodeTypeModel (gnode_Name node))
                \<lparr>node_Mesh := map_option (\<lambda>_. gmesh_Name gm) (map_of meshes (gmesh_Name gm))\<rparr>))
      | None \<Rightarrow>
     (case gnode_Camera node of
        Some ci \<Rightarrow> newCamera doc node ci
      | None \<Rightarrow>
     (case gnode_Light node of
        Some lighting \<Rightarrow> newLight doc node lighting
      | None \<Rightarrow>
          rbind (if gnode_Extras node = INil then Ok False
                 else nodeHasProp node ''t3dPathPoints__'') (\<lambda>isPath.
          if isPath then newPath node
          else Ok (newNode NodeTypeNode (gnode_Name node))))))"

text \<open>Lines 662-700: the helpers over the node's \<open>dataMap\<close>.\<close>

definition getOrDefaultBool ::
    "(string \<times> iface) list \<Rightarrow> string \<Rightarrow> bool \<Rightarrow> bool res" where
  "getOrDefaultBool dataMap path defaultValue =
     (case map_of dataMap path of
        None \<Rightarrow> Ok defaultValue
      | Some v \<Rightarrow> rbind (asFloat v) (\<lambda>x. Ok (0.5 < x)))"

definition getOrDefaultFloat ::
    "(string \<times> iface) list \<Rightarrow> string \<Rightarrow> real \<Rightarrow> real res" where
  "getOrDefaultFloat dataMap path defaultValue =
     (case map_of dataMap path of
        None \<Rightarrow> Ok defaultValue
      | Some v \<Rightarrow> asFloat v)"

definition floatsOf :: "iface \<Rightarrow> real list res" where
  "floatsOf v =
     rbind (asSlice v) (\<lambda>vs.
     foldR (\<lambda>x floats. rbind (asFloat x) (\<lambda>f. Ok (floats @ [f]))) vs [])"

definition getOrDefaultFloatSlice ::
    "(string \<times> iface) list \<Rightarrow> string \<Rightarrow> real list \<Rightarrow> real list res" where
  "getOrDefaultFloatSlice dataMap path defaultValues =
     (case map_of dataMap path of
        None \<Rightarrow> Ok defaultValues
      | Some v \<Rightarrow> floatsOf v)"

definition getOrDefaultVector3D ::
    "(string \<times> iface) list \<Rightarrow> string \<Rightarrow> real \<Rightarrow> real \<Rightarrow> real \<Rightarrow> real list res" where
  "getOrDefaultVector3D dataMap path defaultX defaultY defaultZ =
     (case map_of dataMap path of
        None \<Rightarrow> Ok [defaultX, defaultY, defaultZ]
      | Some v \<Rightarrow>
          rbind (floatsOf v) (\<lambda>floats.
          rbind (index floats 0) (\<lambda>x.
          rbind (index floats 2) (\<lambda>y.
          rbind (index floats 1) (\<lambda>z. Ok [x, y, - z])))))"

text \<open>Lines 702-804: the bounding-volume child of a node. Its sizes and position are left
  out; \<open>aabb\<close>, \<open>capsule\<close> and \<open>sphere\<close> are non-nil exactly when a size was found.\<close>

definition isModelWithMesh :: "world \<Rightarrow> nat \<Rightarrow> bool" where
  "isModelWithMesh w obj =
     (node_type (w_nodes w ! obj) = NodeTypeModel \<and> node_Mesh (w_nodes w ! obj) \<noteq> None)"

definition addBounding :: "node_type \<Rightarrow> string \<Rightarrow> nat \<Rightarrow> world \<Rightarrow> world res" where
  "addBounding ty name obj w =
     (case allocNode (newNode ty name) w of (b, w1) \<Rightarrow> AddChildren obj b w1)"

definition boundsAABB :: "(string \<times> iface) list \<Rightarrow> nat \<Rightarrow> world \<Rightarrow> world res" where
  "boundsAABB dataMap obj w =
     rbind (getOrDefaultBool dataMap ''t3dAABBCustomEnabled__'' False) (\<lambda>aabbCustomEnabled.
     if aabbCustomEnabled
     then rbind (getOrDefaultFloatSlice dataMap ''t3dAABBCustomSize__'' [2, 2, 2])
            (\<lambda>boundsSize.
          rbind (index boundsSize 0) (\<lambda>_.
          rbind (index boundsSize 1) (\<lambda>_.
          rbind (index boundsSize 2) (\<lambda>_.
          addBounding NodeTypeBoundingAABB ''_bounding aabb'' obj w))))
     else if isModelWithMesh w obj
     then addBounding NodeTypeBoundingAABB ''_bounding aabb'' obj w
     else Ok w)"

definition boundsCapsule :: "(string \<times> iface) list \<Rightarrow> nat \<Rightarrow> world \<Rightarrow> world res" where
  "boundsCapsule dataMap obj w =
     rbind (getOrDefaultBool dataMap ''t3dCapsuleCustomEnabled__'' False)
       (\<lambda>capsuleCustomEnabled.
     if capsuleCustomEnabled
     then rbind (getOrDefaultFloat dataMap ''t3dCapsuleCustomHeight__'' 2) (\<lambda>_.
          rbind (getOrDefaultFloat dataMap ''t3dCapsuleCustomRadius__'' 0.5) (\<lambda>_.
          addBounding NodeTypeBoundingCapsule ''_bounding capsule'' obj w))
     else if isModelWithMesh w obj
     then addBounding NodeTypeBoundingCapsule ''_bounding capsule'' obj w
     else Ok w)"

definition boundsSphere :: "(string \<times> iface) list \<Rightarrow> nat \<Rightarrow> world \<Rightarrow> world res" where
  "boundsSphere dataMap obj w =
     rbind (getOrDefaultBool dataMap ''t3dSphereCustomEnabled__'' False)
       (\<lambda>sphereCustomEnabled.
     if sphereCustomEnabled
     then rbind (getOrDefaultFloat dataMap ''t3dSphereCustomRadius__'' 1) (\<lambda>_.
          addBounding NodeTypeBoundingSphere ''_bounding sphere'' obj w)
     else if isModelWithMesh w obj
     then addBounding NodeTypeBoundingSphere ''_bounding sphere'' obj w
     else Ok w)"

definition nodeBounds :: "(string \<times> iface) list \<Rightarrow> nat \<Rightarrow> world \<Rightarrow> world res" where
  "nodeBounds dataMap obj w =
     (case map_of dataMap ''t3dBoundsType__'' of
        None \<Rightarrow> Ok w
      | Some bt \<Rightarrow>
          rbind (asFloat bt) (\<lambda>x.
          if toInt x = 1 then boundsAABB dataMap obj w
          else if toInt x = 2 then boundsCapsule dataMap obj w
          else if toInt x = 3 then boundsSphere dataMap obj w
          else if toInt x = 4
          then (if isModelWithMesh w obj
                then addBounding NodeTypeBoundingTriangles ''_bounding triangles'' obj w
                else Ok w)
          else Ok w))"

text \<open>Lines 659-812.\<close>

definition nodeExtras :: "gltf_node \<Rightarrow> nat \<Rightarrow> world \<Rightarrow> world res" where
  "nodeExtras node obj w =
     (if gnode_Extras node = INil then Ok w
      else case isMap (gnode_Extras node) of
             None \<Rightarrow> Ok w
           | Some dataMap \<Rightarrow>
               rbind (getOrDefaultVector3D dataMap ''t3dOriginalLocalPosition__'' 0 0 0) (\<lambda>_.
               rbind (getOrDefaultBool dataMap ''t3dVisible__'' True) (\<lambda>vis.
               rbind (nodeBounds dataMap obj
                        (updNode obj (\<lambda>n. n\<lparr>node_visible := vis\<rparr>) w)) (\<lambda>w1.
               Ok (updNode obj (\<lambda>n. n\<lparr>node_tags := setTags dataMap (node_tags n)\<rparr>) w1)))))"

text \<open>
  Lines 581-840, one iteration of the first loop over \<open>doc.Nodes\<close>. The state is the heap
  and \<open>objects\<close>, the objects built so far, to which the new one is appended last
  (line 838). Lines 655-657 index \<open>objects\<close> with the children of the node:
  \<^verbatim>\<open>
  for _, child := range node.Children {
      obj.AddChildren(objects[int(child)])
  }\<close>
\<close>

definition createNode ::
    "document \<Rightarrow> (string \<times> Mesh) list \<Rightarrow> gltf_node \<Rightarrow> world \<times> nat list
      \<Rightarrow> (world \<times> nat list) res" where
  "createNode doc meshes node st =
     rbind (newObject doc meshes node) (\<lambda>n.
     case allocNode n (fst st) of (obj, w) \<Rightarrow>
     rbind (foldR (\<lambda>child w1. rbind (index (snd st) child) (\<lambda>c. AddChildren obj c w1))
              (gnode_Children node) w) (\<lambda>w2.
     rbind (nodeExtras node obj w2) (\<lambda>w3.
     Ok (w3, snd st @ [obj]))))"

subsection \<open>Skins and parenting\<close>

text \<open>The assertions \<open>objects[i].(*Model)\<close> and \<open>objects[b].(*Node)\<close>.\<close>

definition asModel :: "world \<Rightarrow> nat \<Rightarrow> unit res" where
  "asModel w a =
     (if node_type (w_nodes w ! a) = NodeTypeModel then Ok () else Panic TypeAssertion)"

definition asNode :: "world \<Rightarrow> nat \<Rightarrow> unit res" where
  "asNode w a =
     (if node_type (w_nodes w ! a) = NodeTypeNode then Ok () else Panic TypeAssertion)"

text \<open>Lines 868-875. The state is the heap, \<open>allBones\<close> and \<open>localBones\<close>.\<close>

definition addJoint ::
    "nat list \<Rightarrow> nat \<Rightarrow> nat \<Rightarrow> world \<times> nat list \<times> nat list
      \<Rightarrow> (world \<times> nat list \<times> nat list) res" where
  "addJoint objects model b st =
     (case st of (w, allBones, localBones) \<Rightarrow>
        rbind (index objects b) (\<lambda>bone.
        rbind (asNode w bone) (\<lambda>_.
        Ok (updNode model (\<lambda>n. n\<lparr>node_SkinRoot := Some bone\<rparr>) w,
            allBones @ [bone], localBones @ [bone]))))"

text \<open>Lines 877-892. The value of the inverse bind matrix is left out.\<close>

definition markBones :: "document \<Rightarrow> gltf_skin \<Rightarrow> nat list \<Rightarrow> world \<Rightarrow> world res" where
  "markBones doc skin localBones w =
     rbind (deref (skin_InverseBindMatrices skin)) (\<lambda>mi.
     rbind (index (doc_Accessors doc) mi) (\<lambda>acc.
     rbind (orReturn (ReadAccessor acc)) (\<lambda>matrices.
     rbind (asMat4s matrices) (\<lambda>ms.
     foldR (\<lambda>matIndex w1. rbind (index localBones matIndex) (\<lambda>bone.
              Ok (updNode bone (\<lambda>n. n\<lparr>node_isBone := True\<rparr>) w1)))
       [0..<length ms] w))))"

text \<open>Lines 894-902.\<close>

definition vertexBones ::
    "(string \<times> Mesh) list \<Rightarrow> nat list \<Rightarrow> nat \<Rightarrow> world \<Rightarrow> world res" where
  "vertexBones meshes allBones model w =
     rbind (deref (node_Mesh (w_nodes w ! model))) (\<lambda>name.
     rbind (deref (map_of meshes name)) (\<lambda>mesh.
     foldR (\<lambda>boneIndices w1.
              rbind (foldR (\<lambda>boneID bs. rbind (index allBones boneID) (\<lambda>bone.
                              Ok (bs @ [bone]))) boneIndices []) (\<lambda>bs.
              Ok (updNode model (\<lambda>n. n\<lparr>node_bones := node_bones n @ [bs]\<rparr>) w1)))
       (VertexBones mesh) w))"

definition setUpSkin ::
    "document \<Rightarrow> (string \<times> Mesh) list \<Rightarrow> nat list \<Rightarrow> nat \<Rightarrow> nat \<Rightarrow> world \<times> nat list
      \<Rightarrow> (world \<times> nat list) res" where
  "setUpSkin doc meshes objects i si st =
     rbind (index objects i) (\<lambda>model.
     rbind (asModel (fst st) model) (\<lambda>_.
     rbind (index (doc_Skins doc) si) (\<lambda>skin.
     rbind (foldR (addJoint objects model) (skin_Joints skin)
              (updNode model (\<lambda>n. n\<lparr>node_Skinned := True\<rparr>) (fst st), snd st, []))
       (\<lambda>(w1, allBones, localBones).
     rbind (markBones doc skin localBones w1) (\<lambda>w2.
     rbind (vertexBones meshes allBones model w2) (\<lambda>w3.
     Ok (w3, allBones)))))))"

text \<open>
  Lines 845-925, one iteration of the second loop over \<open>doc.Nodes\<close>:
  \<^verbatim>\<open>
  // We do this again here so we can be sure that all of the nodes can be created first
  for i, node := range doc.Nodes {
      if node.Skin != nil { ... }
      // Set up parenting
      for _, childIndex := range node.Children {
          objects[i].AddChildren(objects[int(childIndex)])
      }
  }\<close>
\<close>

definition skinAndParent ::
    "document \<Rightarrow> (string \<times> Mesh) list \<Rightarrow> nat list \<Rightarrow> nat \<times> gltf_node \<Rightarrow> world \<times> nat list
      \<Rightarrow> (world \<times> nat list) res" where
  "skinAndParent doc meshes objects inode st =
     rbind (case gnode_Skin (snd inode) of
              None \<Rightarrow> Ok st
            | Some si \<Rightarrow> setUpSkin doc meshes objects (fst inode) si st) (\<lambda>st1.
     rbind (foldR (\<lambda>childIndex w.
                     rbind (index objects (fst inode)) (\<lambda>obj.
                     rbind (index objects childIndex) (\<lambda>c. AddChildren obj c w)))
              (gnode_Children (snd inode)) (fst st1)) (\<lambda>w.
     Ok (w, snd st1)))"

subsection \<open>Game properties\<close>

text \<open>Lines 927-960: the helpers over a property map. They differ from those of the node
  loop (a bool is \<open>> 0\<close> here), hence the primes.\<close>

definition getOrDefaultInt :: "(string \<times> iface) list \<Rightarrow> string \<Rightarrow> int \<Rightarrow> int res" where
  "getOrDefaultInt propMap key defaultValue =
     (case map_of propMap key of
        None \<Rightarrow> Ok defaultValue
      | Some v \<Rightarrow> rbind (asFloat v) (\<lambda>x. Ok (toInt x)))"

definition getOrDefaultString ::
    "(string \<times> iface) list \<Rightarrow> string \<Rightarrow> string \<Rightarrow> string res" where
  "getOrDefaultString propMap key defaultValue =
     (case map_of propMap key of
        None \<Rightarrow> Ok defaultValue
      | Some v \<Rightarrow> asString v)"

definition getOrDefaultFloat' ::
    "(string \<times> iface) list \<Rightarrow> string \<Rightarrow> real \<Rightarrow> real res" where
  "getOrDefaultFloat' propMap key defaultValue =
     (case map_of propMap key of
        None \<Rightarrow> Ok defaultValue
      | Some v \<Rightarrow> asFloat v)"

definition getOrDefaultBool' ::
    "(string \<times> iface) list \<Rightarrow> string \<Rightarrow> bool \<Rightarrow> bool res" where
  "getOrDefaultBool' propMap key defaultValue =
     (case map_of propMap key of
        None \<Rightarrow> Ok defaultValue
      | Some v \<Rightarrow> rbind (asFloat v) (\<lambda>x. Ok (0 < x)))"

definition getIfExistingMap ::
    "(string \<times> iface) list \<Rightarrow> string \<Rightarrow> (string \<times> iface) list option res" where
  "getIfExistingMap propMap key =
     (case map_of propMap key of
        None \<Rightarrow> Ok None
      | Some v \<Rightarrow> if v = INil then Ok None else rbind (asMap v) (\<lambda>m. Ok (Some m)))"

text \<open>Lines 978-1012: the value of one game property, and the tag it sets.\<close>

definition propertyReference :: "(string \<times> iface) list \<Rightarrow> iface res" where
  "propertyReference property =
     rbind (getIfExistingMap property ''valueReferenceScene'') (\<lambda>sref.
     rbind (case sref of
              None \<Rightarrow> Ok []
            | Some r \<Rightarrow> getOrDefaultString r ''name'' []) (\<lambda>scene.
     rbind (getIfExistingMap property ''valueReference'') (\<lambda>ref.
     case ref of
       None \<Rightarrow> Ok INil
     | Some r \<Rightarrow> rbind (getOrDefaultString r ''name'' []) (\<lambda>n.
                   Ok (IString (scene @ '':'' @ n))))))"

definition propertyValue :: "(string \<times> iface) list \<Rightarrow> int \<Rightarrow> iface res" where
  "propertyValue property propType =
     (if propType = 0
      then rbind (getOrDefaultBool' property ''valueBool'' False) (\<lambda>b. Ok (IBool b))
      else if propType = 1
      then rbind (getOrDefaultInt property ''valueInt'' 0) (\<lambda>i. Ok (IInt i))
      else if propType = 2
      then rbind (getOrDefaultFloat' property ''valueFloat'' 0) (\<lambda>x. Ok (IFloat x))
      else if propType = 3
      then rbind (getOrDefaultString property ''valueString'' []) (\<lambda>s. Ok (IString s))
      else if propType = 4 then propertyReference property
      else Ok INil)"

definition gameProperty :: "iface \<Rightarrow> tags \<Rightarrow> tags res" where
  "gameProperty p t =
     rbind (asMap p) (\<lambda>property.
     rbind (getOrDefaultInt property ''valueType'' 0) (\<lambda>propType.
     rbind (getOrDefaultString property ''name'' ''New Property'') (\<lambda>name.
     rbind (propertyValue property propType) (\<lambda>v.
     Ok (Set name v t)))))"

text \<open>Lines 972-1018, the body of the loop over \<open>objToNode\<close>.\<close>

definition gameProperties :: "gltf_node \<Rightarrow> nat \<Rightarrow> world \<Rightarrow> world res" where
  "gameProperties node obj w =
     (if gnode_Extras node = INil then Ok w
      else case isMap (gnode_Extras node) of
             None \<Rightarrow> Ok w
           | Some dataMap \<Rightarrow>
               (case map_of dataMap ''t3dGameProperties__'' of
                  None \<Rightarrow> Ok w
                | Some gameProps \<Rightarrow>
                    rbind (asSlice gameProps) (\<lambda>ps.
                    rbind (foldR gameProperty ps (node_tags (w_nodes w ! obj))) (\<lambda>t.
                    Ok (updNode obj (\<lambda>n. n\<lparr>node_tags := t\<rparr>) w)))))"

subsection \<open>Skin roots\<close>

text \<open>
  Lines 1020-1035:
  \<^verbatim>\<open>
  for _, n := range objects {
      if model, isModel := n.(*Model); isModel && model.Skinned {
          parent := model.SkinRoot
          for parent.IsBone() && parent.Parent() != nil {
              parent = parent.Parent()
          }
          model.SkinRoot = parent
      }
  }\<close>
  The inner loop does not return on a cyclic chain of parents.
\<close>

partial_function (option) findSkinRoot :: "node list \<Rightarrow> nat \<Rightarrow> nat option" where
  "findSkinRoot h parent =
     (if node_isBone (h ! parent) \<and> node_parent (h ! parent) \<noteq> None
      then findSkinRoot h (the (node_parent (h ! parent)))
      else Some parent)"

declare findSkinRoot.simps [code]

definition setSkinRoot :: "nat \<Rightarrow> world \<Rightarrow> world res" where
  "setSkinRoot n w =
     (if node_type (w_nodes w ! n) = NodeTypeModel \<and> node_Skinned (w_nodes w ! n)
      then rbind (deref (node_SkinRoot (w_nodes w ! n))) (\<lambda>parent.
           case findSkinRoot (w_nodes w) parent of
             None \<Rightarrow> Diverge
           | Some r \<Rightarrow> Ok (updNode n (\<lambda>m. m\<lparr>node_SkinRoot := Some r\<rparr>) w))
      else Ok w)"

subsection \<open>Instanced collections\<close>

text \<open>Lines 962-969: \<open>findNode\<close> returns the first of \<open>objects\<close> with the name, or
  \<open>nil\<close>.\<close>

definition findNode :: "world \<Rightarrow> nat list \<Rightarrow> string \<Rightarrow> nat option" where
  "findNode w objects objName = find (\<lambda>obj. node_name (w_nodes w ! obj) = objName) objects"

text \<open>Modelled from the spec: \<open>Library.FindNode\<close> is not in the sources; the spec says
  that the source subtree of a dependent library is found by name. The model returns the
  first node of the library with the name.\<close>

definition FindNode :: "Library \<Rightarrow> string \<Rightarrow> nat option" where
  "FindNode library objName =
     find (\<lambda>a. node_name (w_nodes (lib_world library) ! a) = objName)
       [0..<length (w_nodes (lib_world library))]"

text \<open>\<open>strings.ReplaceAll(path, "//", "")\<close>\<close>

fun removeDoubleSlashes :: "string \<Rightarrow> string" where
  "removeDoubleSlashes (a # b # rest) =
     (if a = CHR ''/'' \<and> b = CHR ''/'' then removeDoubleSlashes rest
      else a # removeDoubleSlashes (b # rest))"
| "removeDoubleSlashes s = s"

text \<open>
  Lines 1047-1078, the body of the loop over the objects of a collection.
  \<^verbatim>\<open>
  var clone INode
  path := collection.Path
  if path == "" {
      clone = findNode(cloneName).Clone()
  } else {
      path = strings.ReplaceAll(path, "//", "")
      if gltfLoadOptions.DependentLibraryResolver == nil {
          panic("Error in instantiating linked element " + cloneName +
                " as the Dependent Library Resolver function is nil.")
      }
      if library := gltfLoadOptions.DependentLibraryResolver(path); library != nil {
          if foundNode := library.FindNode(cloneName); foundNode != nil {
              clone = foundNode.Clone()
          }
      }
  }
  if clone != nil {
      clone.MoveVec(offset)
      obj.AddChildren(clone)
  } else {
      log.Println(...)
  }\<close>
  Calling \<open>Clone\<close> on the \<open>nil\<close> that \<open>findNode\<close> returns for an unknown name is a nil
  dereference.
\<close>

definition addClone :: "node list \<Rightarrow> nat \<Rightarrow> nat \<Rightarrow> world \<Rightarrow> world res" where
  "addClone src found obj w =
     rbind (Clone src found w) (\<lambda>(clone, w1). AddChildren obj clone w1)"

definition instantiate ::
    "GLTFLoadOptions \<Rightarrow> nat list \<Rightarrow> Collection \<Rightarrow> nat \<Rightarrow> string \<Rightarrow> world \<Rightarrow> world res" where
  "instantiate gltfLoadOptions objects collection obj cloneName w =
     (if col_Path collection = []
      then rbind (deref (findNode w objects cloneName)) (\<lambda>found.
             addClone (w_nodes w) found obj w)
      else
        case DependentLibraryResolver gltfLoadOptions of
          None \<Rightarrow>
            Panic (ExplicitPanic (''Error in instantiating linked element '' @ cloneName @
                     '' as the Dependent Library Resolver function is nil.''))
        | Some resolver \<Rightarrow>
            (case resolver (removeDoubleSlashes (col_Path collection)) of
               None \<Rightarrow> Ok w
             | Some library \<Rightarrow>
                 (case FindNode library cloneName of
                    None \<Rightarrow> Ok w
                  | Some foundNode \<Rightarrow>
                      addClone (w_nodes (lib_world library)) foundNode obj w)))"

text \<open>Lines 1037-1085, the body of the loop over \<open>objToNode\<close>. \<open>collections[name]\<close> of an
  unknown name is the zero \<open>Collection\<close>. The offset vector is built from three elements
  of \<open>collection.Offset\<close> before the loop over the objects.\<close>

definition zeroCollection :: Collection where
  "zeroCollection = \<lparr>col_Objects = [], col_Offset = [], col_Path = []\<rparr>"

definition instanceCollection ::
    "GLTFLoadOptions \<Rightarrow> (string \<times> Collection) list \<Rightarrow> nat list \<Rightarrow> gltf_node \<Rightarrow> nat
      \<Rightarrow> world \<Rightarrow> world res" where
  "instanceCollection gltfLoadOptions collections objects node obj w =
     (if gnode_Extras node = INil then Ok w
      else case isMap (gnode_Extras node) of
             None \<Rightarrow> Ok w
           | Some dataMap \<Rightarrow>
               (case map_of dataMap ''t3dInstanceCollection__'' of
                  None \<Rightarrow> Ok w
                | Some c \<Rightarrow>
                    rbind (asString c) (\<lambda>name.
                    case (case map_of collections name of
                            None \<Rightarrow> zeroCollection
                          | Some col \<Rightarrow> col) of collection \<Rightarrow>
                    rbind (index (col_Offset collection) 0) (\<lambda>_.
                    rbind (index (col_Offset collection) 2) (\<lambda>_.
                    rbind (index (col_Offset collection) 1) (\<lambda>_.
                    foldR (instantiate gltfLoadOptions objects collection obj)
                      (col_Objects collection) w))))))"

subsection \<open>Scenes\<close>

text \<open>\<open>NewScene\<close> (scene source, lines 31-42). The root is a new node named "root"; the
  fog range is a new slice.\<close>

definition NewScene :: "string \<Rightarrow> world \<Rightarrow> nat \<times> world" where
  "NewScene name w =
     (case allocNode (newNode NodeTypeNode ''root'') w of (rootNode, w1) \<Rightarrow>
      case allocSlice [0, 1] w1 of (fogRange, w2) \<Rightarrow>
      allocScene
        \<lparr>scene_Name = name, scene_Root = Some rootNode, scene_Meshes = [],
         scene_FogColor = NewColor 0 0 0 0, scene_FogMode = FogOff,
         scene_FogRange = fogRange\<rparr> w2)"

text \<open>\<open>scene.FogRange[i] = x\<close>\<close>

definition setFogRange :: "nat \<Rightarrow> nat \<Rightarrow> real \<Rightarrow> world \<Rightarrow> world res" where
  "setFogRange scene i x w =
     (if i < length (w_slices w ! scene_FogRange (w_scenes w ! scene))
      then Ok (w\<lparr>w_slices := (w_slices w)[scene_FogRange (w_scenes w ! scene) :=
                     (w_slices w ! scene_FogRange (w_scenes w ! scene))[i := x]]\<rparr>)
      else Panic IndexOutOfRange)"

text \<open>Lines 1097-1146. The clear colour and the colour of the ambient light are left
  out.\<close>

definition worldColor :: "(string \<times> iface) list \<Rightarrow> nat \<Rightarrow> world \<Rightarrow> world res" where
  "worldColor dataMap rootNode w =
     (case map_of dataMap ''t3dWorldColor__'' of
        None \<Rightarrow> Ok w
      | Some wc \<Rightarrow>
          rbind (asSlice wc) (\<lambda>wcc.
          rbind (elemFloat wcc 0) (\<lambda>_.
          rbind (elemFloat wcc 1) (\<lambda>_.
          rbind (elemFloat wcc 2) (\<lambda>_.
          rbind (asFloat (lookupOrNil dataMap ''t3dWorldEnergy__'')) (\<lambda>_.
          case allocNode (newNode NodeTypeAmbientLight ''World Ambient'') w of
            (ambientLight, w1) \<Rightarrow> AddChildren rootNode ambientLight w1))))))"

definition fogModeOf :: "string \<Rightarrow> FogMode \<Rightarrow> FogMode" where
  "fogModeOf fm old =
     (if fm = ''OFF'' then FogOff
      else if fm = ''ADDITIVE'' then FogAdd
      else if fm = ''MULTIPLY'' then FogMultiply
      else if fm = ''OVERWRITE'' then FogOverwrite
      else old)"

definition fogMode :: "(string \<times> iface) list \<Rightarrow> nat \<Rightarrow> world \<Rightarrow> world res" where
  "fogMode dataMap scene w =
     (case map_of dataMap ''t3dFogMode__'' of
        None \<Rightarrow> Ok w
      | Some v \<Rightarrow>
          rbind (asString v) (\<lambda>fm.
          Ok (updScene scene (\<lambda>s. s\<lparr>scene_FogMode := fogModeOf fm (scene_FogMode s)\<rparr>) w)))"

definition fogColor ::
    "environment \<Rightarrow> (string \<times> iface) list \<Rightarrow> nat \<Rightarrow> world \<Rightarrow> world res" where
  "fogColor env dataMap scene w =
     (case map_of dataMap ''t3dFogColor__'' of
        None \<Rightarrow> Ok w
      | Some v \<Rightarrow>
          rbind (asSlice v) (\<lambda>wcc.
          rbind (elemFloat wcc 0) (\<lambda>r.
          rbind (elemFloat wcc 1) (\<lambda>g.
          rbind (elemFloat wcc 2) (\<lambda>b.
          rbind (elemFloat wcc 3) (\<lambda>a.
          Ok (updScene scene
                (\<lambda>s. s\<lparr>scene_FogColor := env_ConvertTosRGB env (NewColor r g b a)\<rparr>) w)))))))"

definition fogRangeAt ::
    "(string \<times> iface) list \<Rightarrow> string \<Rightarrow> nat \<Rightarrow> nat \<Rightarrow> world \<Rightarrow> world res" where
  "fogRangeAt dataMap key i scene w =
     (case map_of dataMap key of
        None \<Rightarrow> Ok w
      | Some v \<Rightarrow> rbind (asFloat v) (\<lambda>x. setFogRange scene i x w))"

definition sceneExtras :: "environment \<Rightarrow> iface \<Rightarrow> nat \<Rightarrow> nat \<Rightarrow> world \<Rightarrow> world res" where
  "sceneExtras env extras scene rootNode w =
     (if extras = INil then Ok w
      else
        rbind (asMap extras) (\<lambda>dataMap.
        rbind (worldColor dataMap rootNode w) (\<lambda>w1.
        rbind (color4At dataMap ''t3dClearColor__'') (\<lambda>_.
        rbind (fogMode dataMap scene w1) (\<lambda>w2.
        rbind (fogColor env dataMap scene w2) (\<lambda>w3.
        rbind (fogRangeAt dataMap ''t3dFogRangeStart__'' 0 scene w3) (\<lambda>w4.
        fogRangeAt dataMap ''t3dFogRangeEnd__'' 1 scene w4)))))))"

text \<open>Lines 1087-1148, one iteration of the loop over \<open>doc.Scenes\<close>.

  Modelled from the spec: \<open>Library.AddScene\<close> is not in the sources. The library owns its
  scenes; \<open>AddScene\<close> makes a new scene of the given name and puts it last in
  \<open>library.Scenes\<close>.\<close>

definition addScene ::
    "environment \<Rightarrow> nat list \<Rightarrow> gltf_scene \<Rightarrow> world \<times> nat list \<Rightarrow> (world \<times> nat list) res" where
  "addScene env objects s st =
     (case NewScene (gscene_Name s) (fst st) of (scene, w) \<Rightarrow>
      rbind (deref (scene_Root (w_scenes w ! scene))) (\<lambda>rootNode.
      rbind (foldR (\<lambda>n w1. rbind (index objects n) (\<lambda>obj. AddChildren rootNode obj w1))
               (gscene_Nodes s) w) (\<lambda>w2.
      rbind (sceneExtras env (gscene_Extras s) scene rootNode w2) (\<lambda>w3.
      Ok (w3, snd st @ [scene])))))"

subsection \<open>\<open>LoadGLTFData\<close>\<close>

text \<open>The import of a decoded document, lines 83-1180, phase by phase.\<close>

definition importDocument ::
    "environment \<Rightarrow> GLTFLoadOptions \<Rightarrow> document \<Rightarrow> Library res" where
  "importDocument env gltfLoadOptions doc =
     rbind (exporterSettings env doc) (\<lambda>(exportedTextures, collections).
     rbind (loadImages doc exportedTextures) (\<lambda>images.
     rbind (foldR (loadMaterial doc gltfLoadOptions exportedTextures images)
              (doc_Materials doc) []) (\<lambda>materials.
     rbind (foldR (loadMesh doc materials) (doc_Meshes doc) []) (\<lambda>meshes.
     rbind (foldR (loadAnimation doc) (doc_Animations doc) []) (\<lambda>animations.
     rbind (foldR (createNode doc meshes) (doc_Nodes doc) (emptyWorld, []))
       (\<lambda>(w1, objects).
     rbind (foldR (skinAndParent doc meshes objects) (enumerate 0 (doc_Nodes doc)) (w1, []))
       (\<lambda>(w2, allBones).
     rbind (foldR (\<lambda>i. gameProperties (doc_Nodes doc ! i) (objects ! i))
              (rangeOrder (env_order1 env) (length objects)) w2) (\<lambda>w3.
     rbind (foldR setSkinRoot objects w3) (\<lambda>w4.
     rbind (foldR (\<lambda>i. instanceCollection gltfLoadOptions collections objects
                         (doc_Nodes doc ! i) (objects ! i))
              (rangeOrder (env_order2 env) (length objects)) w4) (\<lambda>w5.
     rbind (foldR (addScene env objects) (doc_Scenes doc) (w5, [])) (\<lambda>(w6, scenes).
     rbind (deref (doc_Scene doc)) (\<lambda>si.
     rbind (index scenes si) (\<lambda>exported.
     Ok \<lparr>lib_Scenes = scenes, lib_ExportedScene = exported, lib_Meshes = meshes,
         lib_Animations = animations, lib_Materials = materials,
         lib_world = w6\<rparr>)))))))))))))"

text \<open>What a call of \<open>LoadGLTFData\<close> does: it returns a library and an error (either may be
  \<open>nil\<close>), panics, or does not return.\<close>

datatype outcome =
    Return "Library option" "error option"
  | Panics panic
  | NoReturn

definition LoadGLTFData ::
    "environment \<Rightarrow> nat list \<Rightarrow> GLTFLoadOptions option \<Rightarrow> outcome" where
  "LoadGLTFData env data gltfLoadOptions =
     (case env_Decode env data of
        Inl err \<Rightarrow> Return None (Some err)
      | Inr doc \<Rightarrow>
          (case importDocument env
                  (case gltfLoadOptions of
                     None \<Rightarrow> DefaultGLTFLoadOptions
                   | Some options \<Rightarrow> options) doc of
             Ok library \<Rightarrow> Return (Some library) None
           | Err err \<Rightarrow> Return None (Some err)
           | Panic p \<Rightarrow> Panics p
           | Diverge \<Rightarrow> NoReturn))"

section \<open>\<open>Scene.Clone\<close>\<close>

text \<open>
  Scene source, lines 44-62:
  \<^verbatim>\<open>
  func (scene *Scene) Clone() *Scene {
      newScene := NewScene(scene.Name)
      for name, mesh := range scene.Meshes {
          newScene.Meshes[name] = mesh
      }
      newScene.Root = scene.Root.Clone()
      newScene.FogColor = scene.FogColor.Clone()
      newScene.FogMode = scene.FogMode
      newScene.FogRange[0] = scene.FogRange[0]
      newScene.FogRange[1] = scene.FogRange[1]
      return newScene
  }\<close>
  A mesh reference is the number that names the mesh; the map \<open>Meshes\<close> of a scene is held
  in the scene.
\<close>

definition fogRangeOf :: "world \<Rightarrow> nat \<Rightarrow> real list" where
  "fogRangeOf w scene = w_slices w ! scene_FogRange (w_scenes w ! scene)"

definition copyMeshes :: "nat \<Rightarrow> nat \<Rightarrow> world \<Rightarrow> world" where
  "copyMeshes scene newScene w =
     updScene newScene
       (\<lambda>s. s\<lparr>scene_Meshes :=
                 fold (\<lambda>nm ms. AList.update (fst nm) (snd nm) ms)
                   (scene_Meshes (w_scenes w ! scene)) (scene_Meshes s)\<rparr>) w"

definition copyFogRange :: "nat \<Rightarrow> nat \<Rightarrow> nat \<Rightarrow> world \<Rightarrow> world res" where
  "copyFogRange scene newScene i w =
     rbind (index (fogRangeOf w scene) i) (\<lambda>x. setFogRange newScene i x w)"

definition Scene_Clone :: "nat \<Rightarrow> world \<Rightarrow> (nat \<times> world) res" where
  "Scene_Clone scene w =
     (if length (w_scenes w) \<le> scene then Panic NilDereference
      else
        case NewScene (scene_Name (w_scenes w ! scene)) w of (newScene, w1) \<Rightarrow>
        rbind (deref (scene_Root (w_scenes w1 ! scene))) (\<lambda>r.
        rbind (Clone (w_nodes (copyMeshes scene newScene w1)) r
                 (copyMeshes scene newScene w1)) (\<lambda>(r', w2).
        rbind (copyFogRange scene newScene 0
                 (updScene newScene
                    (\<lambda>s. s\<lparr>scene_Root := Some r',
                           scene_FogColor := Color_Clone (scene_FogColor (w_scenes w2 ! scene)),
                           scene_FogMode := scene_FogMode (w_scenes w2 ! scene)\<rparr>) w2)) (\<lambda>w3.
        rbind (copyFogRange scene newScene 1 w3) (\<lambda>w4.
        Ok (newScene, w4))))))"

text \<open>Writes to the environment of a scene: \<open>scene.FogColor.SetRGB(r, g, b)\<close>, and
  \<open>setFogRange\<close> above.\<close>

definition setFogColorRGB :: "nat \<Rightarrow> real \<Rightarrow> real \<Rightarrow> real \<Rightarrow> world \<Rightarrow> world" where
  "setFogColorRGB scene r g b w =
     updScene scene (\<lambda>s. s\<lparr>scene_FogColor := SetRGB (scene_FogColor s) r g b\<rparr>) w"

section \<open>World matrices\<close>

text \<open>
  Modelled from the spec: the transform code of the nodes (\<open>SetLocalPosition\<close>,
  \<open>SetLocalScale\<close>, \<open>SetLocalRotation\<close>, \<open>WorldMatrix\<close>) is not in the sources. The spec
  says: the parent/children relation forms a rooted tree; a node has a local position,
  scale and rotation, a cached world matrix and a dirty flag; a write of a local
  transform marks the whole owned subtree dirty; \<open>WorldMatrix()\<close> recomputes, if the node
  is dirty, \<open>parent.WorldMatrix() \<times> local matrix\<close> (the identity for the parent of the
  root), caches it and clears the dirty bit, and returns the cached value otherwise.

  The scene graph is a tree of transforms with ordered children; a node is addressed by
  the path of child positions from the root. The matrix product, the identity and the
  local matrix of a position, scale and rotation are parameters.
\<close>

record ('v, 'r, 'm) transform =
  t_position :: 'v
  t_scale :: 'v
  t_rotation :: 'r
  t_world :: 'm
  t_dirty :: bool

datatype ('v, 'r, 'm) graph = Graph "('v, 'r, 'm) transform" "('v, 'r, 'm) graph list"

record ('v, 'r, 'm) matrices =
  mx_Mult :: "'m \<Rightarrow> 'm \<Rightarrow> 'm"
  mx_Identity :: 'm
  mx_Local :: "'v \<Rightarrow> 'v \<Rightarrow> 'r \<Rightarrow> 'm"

definition LocalMatrix :: "('v, 'r, 'm) matrices \<Rightarrow> ('v, 'r, 'm) transform \<Rightarrow> 'm" where
  "LocalMatrix M d = mx_Local M (t_position d) (t_scale d) (t_rotation d)"

fun transformOf :: "('v, 'r, 'm) graph \<Rightarrow> ('v, 'r, 'm) transform" where
  "transformOf (Graph d cs) = d"

fun childrenOf :: "('v, 'r, 'm) graph \<Rightarrow> ('v, 'r, 'm) graph list" where
  "childrenOf (Graph d cs) = cs"

text \<open>The subtree at a path, if the path leads to a node.\<close>

fun subtree :: "nat list \<Rightarrow> ('v, 'r, 'm) graph \<Rightarrow> ('v, 'r, 'm) graph option" where
  "subtree [] g = Some g"
| "subtree (i # p) (Graph d cs) = (if i < length cs then subtree p (cs ! i) else None)"

fun modify ::
    "nat list \<Rightarrow> (('v, 'r, 'm) graph \<Rightarrow> ('v, 'r, 'm) graph) \<Rightarrow> ('v, 'r, 'm) graph
      \<Rightarrow> ('v, 'r, 'm) graph" where
  "modify [] f g = f g"
| "modify (i # p) f (Graph d cs) =
     (if i < length cs then Graph d (cs[i := modify p f (cs ! i)]) else Graph d cs)"

fun markDirty :: "('v, 'r, 'm) graph \<Rightarrow> ('v, 'r, 'm) graph" where
  "markDirty (Graph d cs) = Graph (d\<lparr>t_dirty := True\<rparr>) (map markDirty cs)"

definition writeLocal ::
    "(('v, 'r, 'm) transform \<Rightarrow> ('v, 'r, 'm) transform) \<Rightarrow> ('v, 'r, 'm) graph
      \<Rightarrow> ('v, 'r, 'm) graph" where
  "writeLocal f g = markDirty (Graph (f (transformOf g)) (childrenOf g))"

definition SetLocalPosition ::
    "nat list \<Rightarrow> 'v \<Rightarrow> ('v, 'r, 'm) graph \<Rightarrow> ('v, 'r, 'm) graph" where
  "SetLocalPosition n v g = modify n (writeLocal (\<lambda>d. d\<lparr>t_position := v\<rparr>)) g"

definition SetLocalScale ::
    "nat list \<Rightarrow> 'v \<Rightarrow> ('v, 'r, 'm) graph \<Rightarrow> ('v, 'r, 'm) graph" where
  "SetLocalScale n v g = modify n (writeLocal (\<lambda>d. d\<lparr>t_scale := v\<rparr>)) g"

definition SetLocalRotation ::
    "nat list \<Rightarrow> 'r \<Rightarrow> ('v, 'r, 'm) graph \<Rightarrow> ('v, 'r, 'm) graph" where
  "SetLocalRotation n r g = modify n (writeLocal (\<lambda>d. d\<lparr>t_rotation := r\<rparr>)) g"

text \<open>\<open>WorldMatrix M n g\<close> is the matrix returned for the node at \<open>n\<close> and the graph with
  the caches the call has filled, or \<open>None\<close> if \<open>n\<close> is not a node. The parent of the node
  at a non-empty path \<open>n\<close> is the node at \<open>butlast n\<close>.\<close>

definition store ::
    "'m \<Rightarrow> ('v, 'r, 'm) graph \<Rightarrow> ('v, 'r, 'm) graph" where
  "store m g = Graph ((transformOf g)\<lparr>t_world := m, t_dirty := False\<rparr>) (childrenOf g)"

function WorldMatrix ::
    "('v, 'r, 'm) matrices \<Rightarrow> nat list \<Rightarrow> ('v, 'r, 'm) graph
      \<Rightarrow> ('m \<times> ('v, 'r, 'm) graph) option" where
  "WorldMatrix M n g =
     (case subtree n g of
        None \<Rightarrow> None
      | Some node \<Rightarrow>
          if t_dirty (transformOf node)
          then (if n = []
                then Some (mx_Mult M (mx_Identity M) (LocalMatrix M (transformOf node)),
                           modify n (store (mx_Mult M (mx_Identity M)
                                              (LocalMatrix M (transformOf node)))) g)
                else case WorldMatrix M (butlast n) g of
                       None \<Rightarrow> None
                     | Some (pm, g1) \<Rightarrow>
                         Some (mx_Mult M pm (LocalMatrix M (transformOf node)),
                               modify n (store (mx_Mult M pm
                                                  (LocalMatrix M (transformOf node)))) g1))
          else Some (t_world (transformOf node), g))"
  by pat_completeness auto
termination
  by (relation "measure (\<lambda>(M, n, g). length n)") auto

text \<open>A finite sequence of local-transform writes and world-matrix reads, each at a node
  of the graph.\<close>

datatype ('v, 'r) edit =
    WritePosition "nat list" 'v
  | WriteScale "nat list" 'v
  | WriteRotation "nat list" 'r
  | ReadWorld "nat list"

fun apply_edit ::
    "('v, 'r, 'm) matrices \<Rightarrow> ('v, 'r) edit \<Rightarrow> ('v, 'r, 'm) graph \<Rightarrow> ('v, 'r, 'm) graph" where
  "apply_edit M (WritePosition n v) g = SetLocalPosition n v g"
| "apply_edit M (WriteScale n v) g = SetLocalScale n v g"
| "apply_edit M (WriteRotation n r) g = SetLocalRotation n r g"
| "apply_edit M (ReadWorld n) g =
     (case WorldMatrix M n g of None \<Rightarrow> g | Some (m, g1) \<Rightarrow> g1)"

definition apply_edits ::
    "('v, 'r, 'm) matrices \<Rightarrow> ('v, 'r) edit list \<Rightarrow> ('v, 'r, 'm) graph
      \<Rightarrow> ('v, 'r, 'm) graph" where
  "apply_edits M es g = fold (apply_edit M) es g"

text \<open>A graph as construction leaves it: no node holds a cached matrix yet.\<close>

fun allDirty :: "('v, 'r, 'm) graph \<Rightarrow> bool" where
  "allDirty (Graph d cs) = (t_dirty d \<and> list_all allDirty cs)"

section \<open>Notions of the specification\<close>

text \<open>The reserved vendor keys: those that start with "t3d" and end with "__".\<close>

definition reservedKey :: "string \<Rightarrow> bool" where
  "reservedKey k = (HasPrefix k ''t3d'' \<and> HasSuffix k ''__'')"

text \<open>The names under which the game properties of a list are stored.\<close>

definition propertyName :: "iface \<Rightarrow> string" where
  "propertyName p =
     (case p of
        IMap property \<Rightarrow>
          (case map_of property ''name'' of
             None \<Rightarrow> ''New Property''
           | Some (IString s) \<Rightarrow> s
           | Some _ \<Rightarrow> [])
      | _ \<Rightarrow> [])"

text \<open>The names of the game properties of a document node.\<close>

definition gamePropertyNames :: "gltf_node \<Rightarrow> string list" where
  "gamePropertyNames node =
     (case gnode_Extras node of
        IMap dataMap \<Rightarrow>
          (case map_of dataMap ''t3dGameProperties__'' of
             Some (ISlice ps) \<Rightarrow> map propertyName ps
           | _ \<Rightarrow> [])
      | _ \<Rightarrow> [])"

text \<open>The value stored for a game property, by its type: a bool (a number greater than
  0), an int, a float, a string, or a reference "scene:name" to an object (nothing when
  no object is referenced); a missing value is the zero of its type, and a missing type
  is bool.\<close>

definition referenceName :: "(string \<times> iface) list \<Rightarrow> string \<Rightarrow> string option" where
  "referenceName property key =
     (case map_of property key of
        Some (IMap r) \<Rightarrow>
          Some (case map_of r ''name'' of Some (IString s) \<Rightarrow> s | _ \<Rightarrow> [])
      | _ \<Rightarrow> None)"

definition gamePropertyValue :: "iface \<Rightarrow> iface" where
  "gamePropertyValue p =
     (case p of
        IMap property \<Rightarrow>
          (let ty = (case map_of property ''valueType'' of
                       Some (IFloat x) \<Rightarrow> toInt x
                     | _ \<Rightarrow> 0)
           in if ty = 0
              then IBool (case map_of property ''valueBool'' of
                            Some (IFloat x) \<Rightarrow> 0 < x
                          | _ \<Rightarrow> False)
              else if ty = 1
              then IInt (case map_of property ''valueInt'' of
                           Some (IFloat x) \<Rightarrow> toInt x
                         | _ \<Rightarrow> 0)
              else if ty = 2
              then IFloat (case map_of property ''valueFloat'' of
                             Some (IFloat x) \<Rightarrow> x
                           | _ \<Rightarrow> 0)
              else if ty = 3
              then IString (case map_of property ''valueString'' of
                              Some (IString s) \<Rightarrow> s
                            | _ \<Rightarrow> [])
              else if ty = 4
              then (case referenceName property ''valueReference'' of
                      Some n \<Rightarrow>
                        IString ((case referenceName property ''valueReferenceScene'' of
                                    Some s \<Rightarrow> s
                                  | None \<Rightarrow> []) @ '':'' @ n)
                    | None \<Rightarrow> INil)
              else INil)
      | _ \<Rightarrow> INil)"

text \<open>The tags that the game properties of a document node set: each its value under its
  name, a later property overriding an earlier one of the same name.\<close>

definition gamePropertyTags :: "gltf_node \<Rightarrow> string \<Rightarrow> iface option" where
  "gamePropertyTags node =
     (case gnode_Extras node of
        IMap dataMap \<Rightarrow>
          (case map_of dataMap ''t3dGameProperties__'' of
             Some (ISlice ps) \<Rightarrow>
               map_of (rev (map (\<lambda>p. (propertyName p, gamePropertyValue p)) ps))
           | _ \<Rightarrow> Map.empty)
      | _ \<Rightarrow> Map.empty)"

text \<open>The tag map that the claim describes for an entity with the given extras: the
  extras without the reserved keys.\<close>

definition passedThrough :: "(string \<times> iface) list \<Rightarrow> string \<Rightarrow> iface option" where
  "passedThrough dataMap k = (if reservedKey k then None else map_of dataMap k)"

text \<open>
  The errors of the reads that an import of the document performs, unless it stops
  before: the buffer views of the images when textures are packed; per primitive, the
  position, texture coordinate, normal, colour, weight, joint and index accessors; the
  input and output accessors of the samplers of translation, scale and rotation
  channels; the inverse bind matrices of the skins of skinned nodes.
\<close>

definition readAt :: "accessor list \<Rightarrow> nat \<Rightarrow> (accessor \<Rightarrow> error + 'a) \<Rightarrow> error list" where
  "readAt accs a rd =
     (if a < length accs
      then (case rd (accs ! a) of Inl e \<Rightarrow> [e] | Inr _ \<Rightarrow> [])
      else [])"











text \<open>The input times of the keyframes that the tracks of an imported channel, and of
  all the channels of an imported animation, hold.\<close>

definition channelKeyframeTimes :: "AnimationChannel \<Rightarrow> real list" where
  "channelKeyframeTimes ch =
     concat (map (\<lambda>p. map kf_Time (track_Keyframes (snd p))) (channel_Tracks ch))"

definition animationKeyframeTimes :: "Animation \<Rightarrow> real list" where
  "animationKeyframeTimes anim =
     concat (map (\<lambda>p. channelKeyframeTimes (snd p)) (anim_Channels anim))"

text \<open>The target of a channel of the document: the name under which the importer files
  it (the name of the target node, or "root") and the animated property; and an animation
  no two channels of which have the same target.\<close>

definition channelTarget :: "document \<Rightarrow> gltf_channel \<Rightarrow> string \<times> trs_property" where
  "channelTarget doc channel =
     (case chan_TargetNode channel of
        None \<Rightarrow> ''root''
      | Some ni \<Rightarrow> gnode_Name (doc_Nodes doc ! ni),
      chan_TargetPath channel)"

definition distinctTargets :: "document \<Rightarrow> gltf_animation \<Rightarrow> bool" where
  "distinctTargets doc gltfAnim = distinct (map (channelTarget doc) (ganim_Channels gltfAnim))"

text \<open>The kind of track that holds a property, and an imported animation all of whose
  tracks belong to the targets of a set.\<close>

fun pathTrack :: "trs_property \<Rightarrow> track_type option" where
  "pathTrack TRSTranslation = Some TrackTypePosition"
| "pathTrack TRSScale = Some TrackTypeScale"
| "pathTrack TRSRotation = Some TrackTypeRotation"
| "pathTrack TRSWeights = None"

definition tracksFrom :: "Animation \<Rightarrow> (string \<times> trs_property) set \<Rightarrow> bool" where
  "tracksFrom anim T =
     (\<forall>name ch ty. (name, ch) \<in> set (anim_Channels anim) \<and> ty \<in> fst ` set (channel_Tracks ch)
        \<longrightarrow> (\<exists>path. (name, path) \<in> T \<and> pathTrack path = Some ty))"

text \<open>One step of the walk up the ancestors that sets a skin root: from a bone to its
  parent.\<close>

definition boneStep :: "node list \<Rightarrow> nat \<Rightarrow> nat \<Rightarrow> bool" where
  "boneStep h p q = (node_isBone (h ! p) \<and> node_parent (h ! p) = Some q)"

definition isSkinnedModel :: "world \<Rightarrow> nat \<Rightarrow> bool" where
  "isSkinnedModel w n =
     (node_type (w_nodes w ! n) = NodeTypeModel \<and> node_Skinned (w_nodes w ! n))"

text \<open>The world matrix of a node as the spec defines it, with no cache: the world matrix
  of the parent times the local matrix, the identity standing for the parent of the
  root.\<close>

function worldOf ::
    "('v, 'r, 'm) matrices \<Rightarrow> nat list \<Rightarrow> ('v, 'r, 'm) graph \<Rightarrow> 'm option" where
  "worldOf M n g =
     (case subtree n g of
        None \<Rightarrow> None
      | Some node \<Rightarrow>
          if n = [] then Some (mx_Mult M (mx_Identity M) (LocalMatrix M (transformOf node)))
          else case worldOf M (butlast n) g of
                 None \<Rightarrow> None
               | Some pm \<Rightarrow> Some (mx_Mult M pm (LocalMatrix M (transformOf node))))"
  by pat_completeness auto
termination
  by (relation "measure (\<lambda>(M, n, g). length n)") auto

text \<open>The cache discipline: a node that is not dirty holds its world matrix, and its
  parent is not dirty either.\<close>

definition coherent :: "('v, 'r, 'm) matrices \<Rightarrow> ('v, 'r, 'm) graph \<Rightarrow> bool" where
  "coherent M g =
     (\<forall>n node. subtree n g = Some node \<and> \<not> t_dirty (transformOf node) \<longrightarrow>
        worldOf M n g = Some (t_world (transformOf node)) \<and>
        (n \<noteq> [] \<longrightarrow>
           (\<exists>parent. subtree (butlast n) g = Some parent \<and> \<not> t_dirty (transformOf parent))))"



text \<open>A step of the importer keeps the tags of the nodes that exist.\<close>

definition sameTags :: "world \<Rightarrow> world \<Rightarrow> bool" where
  "sameTags w w' =
     (length (w_nodes w) \<le> length (w_nodes w') \<and>
      (\<forall>a<length (w_nodes w). node_tags (w_nodes w' ! a) = node_tags (w_nodes w ! a)))"

text \<open>The node at which the walk from \<open>j\<close> ends: reached from \<open>j\<close> by steps from a bone to
  its parent, and not a bone or without parent. The parents of a well-formed heap are
  nodes of the heap.\<close>

definition atSkinRoot :: "node list \<Rightarrow> nat \<Rightarrow> nat \<Rightarrow> bool" where
  "atSkinRoot h j r =
     ((boneStep h)\<^sup>*\<^sup>* j r \<and> r < length h \<and>
      (\<not> node_isBone (h ! r) \<or> node_parent (h ! r) = None))"

definition parentsInHeap :: "node list \<Rightarrow> bool" where
  "parentsInHeap h = (\<forall>p<length h. \<forall>q. node_parent (h ! p) = Some q \<longrightarrow> q < length h)"

text \<open>What the loop over skinned Models keeps, and what it has done to a Model.\<close>

definition sameBones :: "world \<Rightarrow> world \<Rightarrow> bool" where
  "sameBones w w' =
     (length (w_nodes w') = length (w_nodes w) \<and>
      (\<forall>a. node_isBone (w_nodes w' ! a) = node_isBone (w_nodes w ! a) \<and>
           node_parent (w_nodes w' ! a) = node_parent (w_nodes w ! a) \<and>
           node_type (w_nodes w' ! a) = node_type (w_nodes w ! a) \<and>
           node_Skinned (w_nodes w' ! a) = node_Skinned (w_nodes w ! a)))"

definition rooted :: "world \<Rightarrow> world \<Rightarrow> nat \<Rightarrow> bool" where
  "rooted w w' n =
     (\<exists>j r. node_SkinRoot (w_nodes w ! n) = Some j \<and> node_SkinRoot (w_nodes w' ! n) = Some r \<and>
            atSkinRoot (w_nodes w) j r)"

definition skinRootsInv :: "world \<Rightarrow> world \<Rightarrow> bool" where
  "skinRootsInv w w' =
     (sameBones w w' \<and>
      (\<forall>a. node_SkinRoot (w_nodes w' ! a) = node_SkinRoot (w_nodes w ! a) \<or> rooted w w' a))"

definition skinRootsSet :: "world \<Rightarrow> nat list \<Rightarrow> bool" where
  "skinRootsSet w objects =
     (\<forall>n\<in>set objects. n < length (w_nodes w) \<and>
        (isSkinnedModel w n \<longrightarrow>
           (\<exists>j. node_SkinRoot (w_nodes w ! n) = Some j \<and> j < length (w_nodes w))))"

definition sameSkinRoots :: "world \<Rightarrow> world \<Rightarrow> bool" where
  "sameSkinRoots w w' =
     (length (w_nodes w') = length (w_nodes w) \<and>
      (\<forall>a. node_SkinRoot (w_nodes w' ! a) = node_SkinRoot (w_nodes w ! a)))"

section \<open>Example documents\<close>

text \<open>The environment of the examples: the decoder yields the given document, the colour
  conversion is the identity, and the loops over \<open>objToNode\<close> go by increasing index. The
  JSON unmarshaller reads a collection from the keys "objects", "offset" and "path".\<close>

fun stringsOf :: "iface list \<Rightarrow> string list option" where
  "stringsOf [] = Some []"
| "stringsOf (IString s # xs) = map_option ((#) s) (stringsOf xs)"
| "stringsOf (_ # xs) = None"

fun numbersOf :: "iface list \<Rightarrow> real list option" where
  "numbersOf [] = Some []"
| "numbersOf (IFloat x # xs) = map_option ((#) x) (numbersOf xs)"
| "numbersOf (_ # xs) = None"

definition collectionOf :: "iface \<Rightarrow> Collection option" where
  "collectionOf v =
     (case v of
        IMap m \<Rightarrow>
          (case (map_of m ''objects'', map_of m ''offset'', map_of m ''path'') of
             (Some (ISlice os), Some (ISlice fs), Some (IString path)) \<Rightarrow>
               (case (stringsOf os, numbersOf fs) of
                  (Some objects, Some offset) \<Rightarrow>
                    Some \<lparr>col_Objects = objects, col_Offset = offset, col_Path = path\<rparr>
                | _ \<Rightarrow> None)
           | _ \<Rightarrow> None)
      | _ \<Rightarrow> None)"

fun unmarshalCollections :: "(string \<times> iface) list \<Rightarrow> error + (string \<times> Collection) list" where
  "unmarshalCollections [] = Inr []"
| "unmarshalCollections ((k, v) # rest) =
     (case (collectionOf v, unmarshalCollections rest) of
        (Some c, Inr cs) \<Rightarrow> Inr ((k, c) # cs)
      | _ \<Rightarrow> Inl (Error ''json: cannot unmarshal''))"

definition exampleEnv :: "document \<Rightarrow> environment" where
  "exampleEnv doc =
     \<lparr>env_Decode = (\<lambda>data. Inr doc), env_Unmarshal = unmarshalCollections,
      env_ConvertTosRGB = (\<lambda>c. c), env_order1 = (\<lambda>i. i), env_order2 = (\<lambda>i. i)\<rparr>"

definition plainScene :: "nat list \<Rightarrow> gltf_scene" where
  "plainScene ns = \<lparr>gscene_Name = ''Scene'', gscene_Nodes = ns, gscene_Extras = INil\<rparr>"

definition emptyDocument :: document where
  "emptyDocument =
     \<lparr>doc_Scene = Some 0, doc_Scenes = [plainScene []], doc_Images = [],
      doc_BufferViews = [], doc_Textures = [], doc_Materials = [], doc_Meshes = [],
      doc_Accessors = [], doc_Animations = [], doc_Cameras = [], doc_Lights = None,
      doc_Skins = [], doc_Nodes = []\<rparr>"

definition plainNode :: "string \<Rightarrow> nat list \<Rightarrow> gltf_node" where
  "plainNode name cs =
     \<lparr>gnode_Name = name, gnode_Mesh = None, gnode_Camera = None, gnode_Light = None,
      gnode_Skin = None, gnode_Children = cs, gnode_Extras = INil\<rparr>"

text \<open>A parent listed before its child: node 0 "A" has the child 1 "B".\<close>

definition parentFirstDocument :: document where
  "parentFirstDocument =
     emptyDocument\<lparr>doc_Nodes := [plainNode ''A'' [1], plainNode ''B'' []],
                   doc_Scenes := [plainScene [0]]\<rparr>"

text \<open>A node that instances the collection "Props", which lists the object "Crate" and
  has no dependent-library path; no node of the document is named "Crate".\<close>

definition collectionsExtras :: "string list \<Rightarrow> string \<Rightarrow> iface" where
  "collectionsExtras objects path =
     IMap [(''t3dCollections__'',
            IMap [(''Props'',
                   IMap [(''objects'', ISlice (map IString objects)),
                         (''offset'', ISlice [IFloat 0, IFloat 0, IFloat 0]),
                         (''path'', IString path)])])]"

definition instancingDocument :: "string list \<Rightarrow> string \<Rightarrow> document" where
  "instancingDocument objects path =
     emptyDocument
       \<lparr>doc_Nodes :=
          [(plainNode ''Spawner'' [])
             \<lparr>gnode_Extras := IMap [(''t3dInstanceCollection__'', IString ''Props'')]\<rparr>],
        doc_Scenes :=
          [\<lparr>gscene_Name = ''Scene'', gscene_Nodes = [0],
            gscene_Extras = collectionsExtras objects path\<rparr>]\<rparr>"

definition unresolvedDocument :: document where
  "unresolvedDocument = instancingDocument [''Crate''] []"

text \<open>The same node instancing a collection of a dependent library that lists no
  object.\<close>

definition emptyLinkedDocument :: document where
  "emptyLinkedDocument = instancingDocument [] ''//assets.blend''"

definition linkedDocument :: document where
  "linkedDocument = instancingDocument [''Crate''] ''//assets.blend''"

text \<open>A skinned triangle: node 0 "Bone" is the only joint of the skin of node 1 "Body",
  and both are roots of the scene.\<close>

definition triangleMesh :: gltf_mesh where
  "triangleMesh =
     \<lparr>gmesh_Name = ''Triangle'', gmesh_Extras = INil,
      gmesh_Primitives =
        [\<lparr>prim_Attributes = [(''POSITION'', 0)], prim_Indices = Some 1,
          prim_Material = None\<rparr>]\<rparr>"

definition triangleAccessors :: "accessor list" where
  "triangleAccessors =
     [Inr (Vec3s [(0, 0, 0), (1, 0, 0), (0, 1, 0)]), Inr (UInts [0, 1, 2])]"

definition skinnedDocument :: document where
  "skinnedDocument =
     emptyDocument
       \<lparr>doc_Nodes :=
          [plainNode ''Bone'' [],
           (plainNode ''Body'' [])\<lparr>gnode_Mesh := Some 0, gnode_Skin := Some 0\<rparr>],
        doc_Meshes := [triangleMesh],
        doc_Accessors :=
          triangleAccessors @ [Inr (Mat4s [[1, 0, 0, 0, 0, 1, 0, 0, 0, 0, 1, 0, 0, 0, 0, 1]])],
        doc_Skins := [\<lparr>skin_Joints = [0], skin_InverseBindMatrices = Some 2\<rparr>],
        doc_Scenes := [plainScene [0, 1]]\<rparr>"

text \<open>The same with an armature node 2 above the bone.\<close>

definition armatureDocument :: document where
  "armatureDocument =
     skinnedDocument
       \<lparr>doc_Nodes := doc_Nodes skinnedDocument @ [plainNode ''Armature'' [0]],
        doc_Scenes := [plainScene [1, 2]]\<rparr>"

text \<open>A node with the custom property "hp", the reserved-looking key "t3dLevel__", and two
  game properties with these names.\<close>

definition gamePropertyDocument :: document where
  "gamePropertyDocument =
     emptyDocument
       \<lparr>doc_Nodes :=
          [(plainNode ''Player'' [])
             \<lparr>gnode_Extras :=
                IMap [(''hp'', IFloat 1),
                      (''t3dLevel__'', IFloat 2),
                      (''t3dGameProperties__'',
                       ISlice [IMap [(''name'', IString ''hp''), (''valueType'', IFloat 1),
                                     (''valueInt'', IFloat 5)],
                               IMap [(''name'', IString ''t3dLevel__''),
                                     (''valueType'', IFloat 0)]])]\<rparr>],
        doc_Scenes := [plainScene [0]]\<rparr>"

text \<open>An animation whose only keyframe is at time -1.\<close>

definition translationChannel :: gltf_channel where
  "translationChannel =
     \<lparr>chan_Sampler = Some 0, chan_TargetNode = Some 0, chan_TargetPath = TRSTranslation\<rparr>"

definition animationDocument :: "real list \<Rightarrow> document" where
  "animationDocument ts =
     emptyDocument
       \<lparr>doc_Nodes := [plainNode ''Door'' []],
        doc_Scenes := [plainScene [0]],
        doc_Accessors := [Inr (Scalars ts), Inr (Vec3s (map (\<lambda>t. (t, 0, 0)) ts))],
        doc_Animations :=
          [\<lparr>ganim_Name = ''Open'', ganim_Channels = [translationChannel],
            ganim_Samplers =
              [\<lparr>smp_Input = Some 0, smp_Output = Some 1, smp_Interpolation = 0\<rparr>],
            ganim_Extras = INil\<rparr>]\<rparr>"

text \<open>Two nodes of the same name, each the target of a translation channel: the keyframe
  times of the first are 0 and 5, those of the second 0 and 1.\<close>

definition sameNameDocument :: document where
  "sameNameDocument =
     emptyDocument
       \<lparr>doc_Nodes := [plainNode ''Bone'' [], plainNode ''Bone'' []],
        doc_Scenes := [plainScene [0, 1]],
        doc_Accessors :=
          [Inr (Scalars [0, 5]), Inr (Vec3s [(0, 0, 0), (1, 0, 0)]),
           Inr (Scalars [0, 1]), Inr (Vec3s [(0, 0, 0), (2, 0, 0)])],
        doc_Animations :=
          [\<lparr>ganim_Name = ''Sway'',
            ganim_Channels =
              [translationChannel, translationChannel\<lparr>chan_Sampler := Some 1, chan_TargetNode := Some 1\<rparr>],
            ganim_Samplers =
              [\<lparr>smp_Input = Some 0, smp_Output = Some 1, smp_Interpolation = 0\<rparr>,
               \<lparr>smp_Input = Some 2, smp_Output = Some 3, smp_Interpolation = 0\<rparr>],
            ganim_Extras = INil\<rparr>]\<rparr>"






text \<open>A material, a mesh and a node with custom and reserved keys in their extras; the
  node has one game property, "speed".\<close>

definition taggedMaterial :: gltf_material where
  "taggedMaterial =
     \<lparr>gmat_Name = ''Paint'', gmat_DoubleSided = False, gmat_BaseColorTexture = None,
      gmat_AlphaMode = AlphaOpaque,
      gmat_Extras = IMap [(''shiny'', IFloat 1), (''t3dMaterialShadeless__'', IFloat 1)]\<rparr>"

definition taggedMesh :: gltf_mesh where
  "taggedMesh =
     triangleMesh\<lparr>gmesh_Extras := IMap [(''t3dVertexColorNames__'', ISlice []),
                                        (''lod'', IFloat 2)]\<rparr>"

definition taggedNode :: gltf_node where
  "taggedNode =
     (plainNode ''Player'' [])
       \<lparr>gnode_Extras :=
          IMap [(''hp'', IFloat 1),
                (''t3dVisible__'', IFloat 0),
                (''t3dGameProperties__'',
                 ISlice [IMap [(''name'', IString ''speed''), (''valueType'', IFloat 2),
                               (''valueFloat'', IFloat 3)]])]\<rparr>"

definition taggedDocument :: document where
  "taggedDocument =
     emptyDocument
       \<lparr>doc_Nodes := [taggedNode], doc_Meshes := [taggedMesh],
        doc_Materials := [taggedMaterial], doc_Accessors := triangleAccessors,
        doc_Scenes := [plainScene [0]]\<rparr>"

definition taggedWorld :: world where
  "taggedWorld =
     emptyWorld\<lparr>w_nodes := [(newNode NodeTypeNode ''Player'')
                               \<lparr>node_tags := [(''hp'', IFloat 1)]\<rparr>]\<rparr>"

text \<open>The heap of the armature document when its skin roots are set.\<close>

definition armatureWorld :: world where
  "armatureWorld =
     emptyWorld
       \<lparr>w_nodes :=
          [(newNode NodeTypeNode ''Bone'')\<lparr>node_parent := Some 2, node_isBone := True\<rparr>,
           (newNode NodeTypeModel ''Body'')
             \<lparr>node_Mesh := Some ''Triangle'', node_Skinned := True,
              node_SkinRoot := Some 0, node_bones := [[], [], []]\<rparr>,
           (newNode NodeTypeNode ''Armature'')\<lparr>node_children := [0]\<rparr>]\<rparr>"

text \<open>Writes to the environment of a scene, one after the other.\<close>

datatype fogWrite = SetFogRange nat real | SetFogColor real real real

definition applyFogWrite :: "nat \<Rightarrow> fogWrite \<Rightarrow> world \<Rightarrow> world res" where
  "applyFogWrite scene u w =
     (case u of
        SetFogRange i x \<Rightarrow> setFogRange scene i x w
      | SetFogColor r g b \<Rightarrow> Ok (setFogColorRGB scene r g b w))"

definition fogWrites :: "nat \<Rightarrow> fogWrite list \<Rightarrow> world \<Rightarrow> world res" where
  "fogWrites scene us w = foldR (applyFogWrite scene) us w"

text \<open>The environment of a scene: the fog colour, the fog mode and the numbers of the
  fog range; and its map of meshes.\<close>

definition environmentOf :: "world \<Rightarrow> nat \<Rightarrow> Color \<times> FogMode \<times> real list" where
  "environmentOf w scene =
     (scene_FogColor (w_scenes w ! scene), scene_FogMode (w_scenes w ! scene),
      fogRangeOf w scene)"

definition meshesOf :: "world \<Rightarrow> nat \<Rightarrow> string \<rightharpoonup> nat" where
  "meshesOf w scene = map_of (scene_Meshes (w_scenes w ! scene))"

text \<open>The heap at the call of \<open>scene.Root.Clone()\<close> in \<open>Scene.Clone\<close>: the new scene is
  allocated and holds the meshes.\<close>

definition beforeRootClone :: "nat \<Rightarrow> world \<Rightarrow> world" where
  "beforeRootClone scene w =
     (case NewScene (scene_Name (w_scenes w ! scene)) w of
        (newScene, w1) \<Rightarrow> copyMeshes scene newScene w1)"

text \<open>A heap with one scene, of two meshes and a fog.\<close>

definition foggyWorld :: world where
  "foggyWorld =
     \<lparr>w_nodes = [newNode NodeTypeNode ''root''],
      w_scenes = [\<lparr>scene_Name = ''Scene'', scene_Root = Some 0,
                   scene_Meshes = [(''Cube'', 0), (''Plane'', 1)],
                   scene_FogColor = NewColor 1 0 0 1, scene_FogMode = FogAdd,
                   scene_FogRange = 0\<rparr>],
      w_slices = [[2, 5]]\<rparr>"

text \<open>The same scene with a fog range of three numbers, and of one.\<close>

definition longFogWorld :: world where
  "longFogWorld = foggyWorld\<lparr>w_slices := [[2, 5, 9]]\<rparr>"

definition shortFogWorld :: world where
  "shortFogWorld = foggyWorld\<lparr>w_slices := [[2]]\<rparr>"

text \<open>Two heaps with the same scenes and the same slices.\<close>

definition sameScenes :: "world \<Rightarrow> world \<Rightarrow> bool" where
  "sameScenes w w' = (w_scenes w' = w_scenes w \<and> w_slices w' = w_slices w)"

text \<open>A scene and its clone are separate when the writes to the one cannot reach the
  other.\<close>

definition separate :: "world \<Rightarrow> nat \<Rightarrow> nat \<Rightarrow> bool" where
  "separate w a b =
     (a \<noteq> b \<and> scene_FogRange (w_scenes w ! a) \<noteq> scene_FogRange (w_scenes w ! b))"

text \<open>The transform of the node at a path; and two graphs of the same shape whose nodes
  have the same local matrices.\<close>

definition nodeAt :: "nat list \<Rightarrow> ('v, 'r, 'm) graph \<Rightarrow> ('v, 'r, 'm) transform option" where
  "nodeAt n g = map_option transformOf (subtree n g)"

definition sameLocals ::
    "('v, 'r, 'm) matrices \<Rightarrow> ('v, 'r, 'm) graph \<Rightarrow> ('v, 'r, 'm) graph \<Rightarrow> bool" where
  "sameLocals M g g' =
     (\<forall>k. map_option (LocalMatrix M) (nodeAt k g') = map_option (LocalMatrix M) (nodeAt k g))"

text \<open>The affine maps \<open>x \<mapsto> a x + b\<close> of a line as matrices \<open>(a, b)\<close>, and a graph of four
  nodes as construction leaves it, with a sequence of reads and writes.\<close>

definition affine :: "(int, int, int \<times> int) matrices" where
  "affine =
     \<lparr>mx_Mult = (\<lambda>ab cd. (fst ab * fst cd, fst ab * snd cd + snd ab)),
      mx_Identity = (1, 0),
      mx_Local = (\<lambda>p s r. (s * r, p))\<rparr>"

definition freshNode :: "int \<Rightarrow> (int, int, int \<times> int) transform" where
  "freshNode p =
     \<lparr>t_position = p, t_scale = 1, t_rotation = 1, t_world = (0, 0), t_dirty = True\<rparr>"

definition exampleGraph :: "(int, int, int \<times> int) graph" where
  "exampleGraph =
     Graph (freshNode 1)
       [Graph (freshNode 2) [Graph (freshNode 3) []], Graph (freshNode 4) []]"

definition exampleEdits :: "(int, int) edit list" where
  "exampleEdits = [ReadWorld [0, 0], WritePosition [] 10, WriteScale [0] 2, ReadWorld [1]]"

section \<open>Properties\<close>

text \<open>
  C1. The claim: parent/child edges are wired from the child-index lists whatever the
  order of the nodes in the document. The second loop over the nodes (lines 845-925) does
  so, and its comment says it exists "so we can be sure that all of the nodes can be
  created first"; but the first loop (lines 655-657) already indexes \<open>objects\<close> with the
  children of the node it is building, when \<open>objects\<close> holds only the nodes before it. On
  a document that lists a parent before its child the import panics with an index out of
  range.
\<close>

theorem parent_before_child_panics:
  "LoadGLTFData (exampleEnv parentFirstDocument) [] None = Panics IndexOutOfRange"
  by code_simp

text \<open>
  C3. The claim: an object name of a collection without dependent-library path that
  resolves to no node leaves the reference inert and the import completes. The code
  calls \<open>Clone\<close> on the \<open>nil\<close> that \<open>findNode\<close> returns (line 1054), before the test
  \<open>clone != nil\<close> that the branch for dependent libraries reaches with a \<open>nil\<close> clone: the
  import panics with a nil dereference.
\<close>

theorem unresolved_local_instance_panics:
  "LoadGLTFData (exampleEnv unresolvedDocument) [] None = Panics NilDereference"
  by code_simp

subsection \<open>Reading the outcome of a step\<close>

lemma rbind_eq_Ok: "(rbind m f = Ok y) = (\<exists>x. m = Ok x \<and> f x = Ok y)"
  by (cases m) auto

lemma index_eq_Ok: "(index xs i = Ok x) = (i < length xs \<and> x = xs ! i)"
  by (auto simp: index_def)

lemma deref_eq_Ok: "(deref p = Ok x) = (p = Some x)"
  by (auto simp: deref_def split: option.splits)


subsection \<open>Bone weights\<close>















subsection \<open>Animation length\<close>

lemma addKey_times:
  "foldR (addKey inputData outputData) is st = Ok st' \<Longrightarrow>
   snd st' = fold max (map ((!) inputData) is) (snd st) \<and>
   map kf_Time (track_Keyframes (fst st'))
   = map kf_Time (track_Keyframes (fst st)) @ map ((!) inputData) is"
proof (induction "is" arbitrary: st)
  case Nil
  then show ?case by simp
next
  case (Cons i "is")
  from Cons.prems obtain st1 where
    s: "addKey inputData outputData i st = Ok st1" and
    r: "foldR (addKey inputData outputData) is st1 = Ok st'"
    by (auto simp: rbind_eq_Ok)
  from s have "snd st1 = max (inputData ! i) (snd st)"
    "map kf_Time (track_Keyframes (fst st1))
     = map kf_Time (track_Keyframes (fst st)) @ [inputData ! i]"
    by (auto simp: addKey_def rbind_eq_Ok max_def AddKeyframe_def)
  with Cons.IH [OF r] show ?case by simp
qed

lemma readTrack_track:
  assumes "readTrack doc sampler asOutput ty st = Ok st'"
  shows "\<exists>track. fst st' = (fst st)\<lparr>channel_Tracks := AList.update ty track (channel_Tracks (fst st))\<rparr>
           \<and> snd st' = fold max (map kf_Time (track_Keyframes track)) (snd st)"
proof -
  from assms obtain ts outputData r where
    f: "foldR (addKey ts outputData) [0..<length ts]
          (\<lparr>track_Type = ty, track_Interpolation = smp_Interpolation sampler,
            track_Keyframes = []\<rparr>, snd st) = Ok r" and
    s: "st' = ((fst st)\<lparr>channel_Tracks := AList.update ty (fst r) (channel_Tracks (fst st))\<rparr>,
               snd r)"
    by (auto simp: readTrack_def rbind_eq_Ok)
  from addKey_times [OF f] have "snd r = fold max ts (snd st)"
    "map kf_Time (track_Keyframes (fst r)) = ts"
    by (simp_all add: map_nth)
  with s show ?thesis by auto
qed

lemma UN_update:
  "(case map_of al k of None \<Rightarrow> True | Some v0 \<Rightarrow> F v0 \<subseteq> F v) \<Longrightarrow>
   (\<Union>p\<in>set (AList.update k v al). F (snd p)) = (\<Union>p\<in>set al. F (snd p)) \<union> F v"
  by (induction al) (auto split: if_splits)

lemma update_fresh: "k \<notin> fst ` set al \<Longrightarrow> AList.update k v al = al @ [(k, v)]"
  by (induction al) auto

lemma set_update_subset: "set (AList.update k v al) \<subseteq> insert (k, v) (set al)"
  by (induction al) auto

lemma fold_max_Max:
  assumes "finite X"
  shows "fold max ts (Max (insert (0::real) X)) = Max (insert 0 (X \<union> set ts))"
proof -
  have "fold max ts (Max (insert 0 X)) = Max (set (Max (insert 0 X) # ts))"
    by (simp only: Max.set_eq_fold)
  also have "\<dots> = Max (insert (Max (insert 0 X)) (set ts))" by simp
  also have "\<dots> = Max (insert 0 X \<union> set ts)"
  proof (cases "ts = []")
    case True
    then show ?thesis by simp
  next
    case False
    with assms show ?thesis
      by (subst Max_Un) (simp_all add: max.commute)
  qed
  finally show ?thesis by simp
qed

text \<open>One channel of the document, whose target has no track yet.\<close>

lemma loadChannel_times:
  assumes l: "loadChannel doc gltfAnim channel st = Ok st'"
    and t: "tracksFrom (fst st) T" and n: "channelTarget doc channel \<notin> T"
  shows "\<exists>ts. set (animationKeyframeTimes (fst st')) = set (animationKeyframeTimes (fst st)) \<union> set ts
              \<and> snd st' = fold max ts (snd st)"
    and "tracksFrom (fst st') (insert (channelTarget doc channel) T)"
proof -
  let ?name = "fst (channelTarget doc channel)"
  let ?ch0 = "case map_of (anim_Channels (fst st)) ?name of
                None \<Rightarrow> \<lparr>channel_Name = ?name, channel_Tracks = []\<rparr>
              | Some animChannel \<Rightarrow> animChannel"
  from l obtain si r where
    c: "channelTrack doc (ganim_Samplers gltfAnim ! si) (chan_TargetPath channel)
          (?ch0, snd st) = Ok r" and
    s: "st' = ((fst st)\<lparr>anim_Channels := AList.update ?name (fst r) (anim_Channels (fst st))\<rparr>,
               snd r)"
    by (auto simp: loadChannel_def rbind_eq_Ok index_eq_Ok channelTarget_def
             split: option.splits)
  have old: "(?name, ch) \<in> set (anim_Channels (fst st))"
    if "map_of (anim_Channels (fst st)) ?name = Some ch" for ch
    using that by (rule map_of_SomeD)
  have fresh: "ty \<notin> fst ` set (channel_Tracks ?ch0)"
    if p: "pathTrack (chan_TargetPath channel) = Some ty" for ty
  proof
    assume a: "ty \<in> fst ` set (channel_Tracks ?ch0)"
    then obtain ch where m: "map_of (anim_Channels (fst st)) ?name = Some ch"
      by (cases "map_of (anim_Channels (fst st)) ?name") auto
    with a t old [OF m] obtain path where
      "(?name, path) \<in> T" "pathTrack path = Some ty"
      unfolding tracksFrom_def by fastforce
    moreover with p have "path = chan_TargetPath channel"
      by (cases path; cases "chan_TargetPath channel") auto
    ultimately have "channelTarget doc channel \<in> T"
      by (simp add: channelTarget_def)
    with n show False by simp
  qed
  have r: "(fst r = ?ch0 \<and> snd r = snd st \<and> pathTrack (chan_TargetPath channel) = None) \<or>
           (\<exists>ty track. pathTrack (chan_TargetPath channel) = Some ty \<and>
              fst r = ?ch0\<lparr>channel_Tracks := AList.update ty track (channel_Tracks ?ch0)\<rparr> \<and>
              snd r = fold max (map kf_Time (track_Keyframes track)) (snd st))"
    using c
    by (cases "chan_TargetPath channel")
       (auto simp: channelTrack_def dest!: readTrack_track)
  let ?F = "\<lambda>ch. set (channelKeyframeTimes ch)"
  have times: "set (animationKeyframeTimes a) = (\<Union>p\<in>set (anim_Channels a). ?F (snd p))" for a
    by (auto simp: animationKeyframeTimes_def)
  have grow: "set (animationKeyframeTimes (fst st'))
              = set (animationKeyframeTimes (fst st)) \<union> ?F (fst r)"
    if h: "?F ?ch0 \<subseteq> ?F (fst r)"
  proof -
    have c: "case map_of (anim_Channels (fst st)) ?name of
               None \<Rightarrow> True
             | Some v0 \<Rightarrow> ?F v0 \<subseteq> ?F (fst r)"
      using h by (auto split: option.splits)
    have "anim_Channels (fst st')
          = AList.update ?name (fst r) (anim_Channels (fst st))"
      using s by simp
    with UN_update [where al = "anim_Channels (fst st)" and k = ?name and F = ?F
        and v = "fst r", OF c] show ?thesis
      unfolding times by simp
  qed
  have sub: "?F ?ch0 \<subseteq> \<Union> (?F ` snd ` set (anim_Channels (fst st)))"
  proof (cases "map_of (anim_Channels (fst st)) ?name")
    case None
    then show ?thesis by (simp add: channelKeyframeTimes_def)
  next
    case (Some ch)
    from old [OF Some] have "?F ch \<subseteq> \<Union> (?F ` snd ` set (anim_Channels (fst st)))"
      by force
    with Some show ?thesis by simp
  qed
  from r show "\<exists>ts. set (animationKeyframeTimes (fst st'))
                  = set (animationKeyframeTimes (fst st)) \<union> set ts
              \<and> snd st' = fold max ts (snd st)"
  proof (elim disjE conjE exE)
    assume a: "fst r = ?ch0" "snd r = snd st"
    note sub
    with grow a have "set (animationKeyframeTimes (fst st')) = set (animationKeyframeTimes (fst st))"
      unfolding times by auto
    with a s show ?thesis by (intro exI [of _ "[]"]) simp
  next
    fix ty track
    assume a: "pathTrack (chan_TargetPath channel) = Some ty"
      "fst r = ?ch0\<lparr>channel_Tracks := AList.update ty track (channel_Tracks ?ch0)\<rparr>"
      "snd r = fold max (map kf_Time (track_Keyframes track)) (snd st)"
    from fresh [OF a(1)] have u: "AList.update ty track (channel_Tracks ?ch0)
        = channel_Tracks ?ch0 @ [(ty, track)]"
      by (rule update_fresh)
    have f: "?F (fst r) = ?F ?ch0 \<union> set (map kf_Time (track_Keyframes track))"
      unfolding a(2) by (simp add: channelKeyframeTimes_def u Un_commute)
    note sub
    with grow f have "set (animationKeyframeTimes (fst st'))
        = set (animationKeyframeTimes (fst st)) \<union> set (map kf_Time (track_Keyframes track))"
      unfolding times by auto
    with a(3) s show ?thesis by (intro exI [of _ "map kf_Time (track_Keyframes track)"]) simp
  qed
  show "tracksFrom (fst st') (insert (channelTarget doc channel) T)"
    unfolding tracksFrom_def
  proof (intro allI impI, elim conjE)
    fix name ch ty
    assume e: "(name, ch) \<in> set (anim_Channels (fst st'))" and
      y: "ty \<in> fst ` set (channel_Tracks ch)"
    from e s set_update_subset [of ?name "fst r" "anim_Channels (fst st)"]
    consider "(name, ch) \<in> set (anim_Channels (fst st))" | "name = ?name" "ch = fst r"
      by auto
    then show "\<exists>path. (name, path) \<in> insert (channelTarget doc channel) T \<and>
                 pathTrack path = Some ty"
    proof cases
      case 1
      with t y show ?thesis unfolding tracksFrom_def by fastforce
    next
      case 2
      have in0: "\<exists>path. (?name, path) \<in> T \<and> pathTrack path = Some ty"
        if "ty \<in> fst ` set (channel_Tracks ?ch0)"
      proof -
        from that obtain c0 where m: "map_of (anim_Channels (fst st)) ?name = Some c0"
          by (cases "map_of (anim_Channels (fst st)) ?name") auto
        with that t old [OF m] show ?thesis unfolding tracksFrom_def by fastforce
      qed
      from r show ?thesis
      proof (elim disjE conjE exE)
        assume "fst r = ?ch0"
        with 2 y in0 show ?thesis by auto
      next
        fix ty' track
        assume a: "pathTrack (chan_TargetPath channel) = Some ty'"
          "fst r = ?ch0\<lparr>channel_Tracks := AList.update ty' track (channel_Tracks ?ch0)\<rparr>"
        with 2 y set_update_subset [of ty' track "channel_Tracks ?ch0"]
        have "ty = ty' \<or> ty \<in> fst ` set (channel_Tracks ?ch0)" by auto
        then show ?thesis
        proof
          assume "ty = ty'"
          with a(1) 2 show ?thesis
            by (intro exI [of _ "chan_TargetPath channel"]) (simp add: channelTarget_def)
        next
          assume "ty \<in> fst ` set (channel_Tracks ?ch0)"
          from in0 [OF this] 2 show ?thesis by auto
        qed
      qed
    qed
  qed
qed

lemma loadChannels_times:
  "foldR (loadChannel doc gltfAnim) cs st = Ok st' \<Longrightarrow>
   distinct (map (channelTarget doc) cs) \<Longrightarrow>
   T \<inter> set (map (channelTarget doc) cs) = {} \<Longrightarrow> tracksFrom (fst st) T \<Longrightarrow>
   snd st = Max (insert 0 (set (animationKeyframeTimes (fst st)))) \<Longrightarrow>
   snd st' = Max (insert 0 (set (animationKeyframeTimes (fst st'))))"
proof (induction cs arbitrary: st T)
  case Nil
  then show ?case by simp
next
  case (Cons c cs)
  from Cons.prems(1) obtain st1 where
    s: "loadChannel doc gltfAnim c st = Ok st1" and
    r: "foldR (loadChannel doc gltfAnim) cs st1 = Ok st'"
    by (auto simp: rbind_eq_Ok)
  from Cons.prems(3) have n: "channelTarget doc c \<notin> T" by auto
  from loadChannel_times [OF s Cons.prems(4) n] obtain ts where
    t: "set (animationKeyframeTimes (fst st1)) = set (animationKeyframeTimes (fst st)) \<union> set ts"
       "snd st1 = fold max ts (snd st)" and
    f: "tracksFrom (fst st1) (insert (channelTarget doc c) T)"
    by blast
  from t Cons.prems(5) have m: "snd st1 = Max (insert 0 (set (animationKeyframeTimes (fst st1))))"
    by (simp add: fold_max_Max)
  from Cons.prems(2,3) have
    "distinct (map (channelTarget doc) cs)"
    "insert (channelTarget doc c) T \<inter> set (map (channelTarget doc) cs) = {}"
    by auto
  from Cons.IH [OF r this f m] show ?case .
qed

lemma readMarkers_channels:
  "readMarkers extras anim = Ok anim' \<Longrightarrow> anim_Channels anim' = anim_Channels anim"
proof -
  have f: "foldR (\<lambda>mData a. rbind (readMarker mData) (\<lambda>mk.
             Ok (a\<lparr>anim_Markers := anim_Markers a @ [mk]\<rparr>))) ms a = Ok a' \<Longrightarrow>
           anim_Channels a' = anim_Channels a" for ms a a'
    by (induction ms arbitrary: a) (auto simp: rbind_eq_Ok)
  assume "readMarkers extras anim = Ok anim'"
  then show ?thesis
    by (auto simp: readMarkers_def rbind_eq_Ok dest: f split: if_splits option.splits)
qed

text \<open>
  C9. The claim: the length of an imported animation is the maximum keyframe input time
  over the position, scale and rotation tracks of its channels, and 0 when it has no
  keyframes. The running maximum starts at 0 (line 429) and a time replaces it only when
  it is greater (lines 469-471, 498-500, 528-530); and a channel is filed under the name
  of its target node (lines 435-443), where a track of a kind replaces the one that is
  there. So for an animation no two channels of which have the same target name and
  property, the length is the maximum of 0 and the times of the keyframes that the tracks
  of its channels hold: it is 0 when there is no keyframe or every time is negative.
\<close>

theorem animation_length:
  assumes "loadAnimation doc gltfAnim animations = Ok animations'"
    and "distinctTargets doc gltfAnim"
  shows "\<exists>anim. map_of animations' (ganim_Name gltfAnim) = Some anim \<and>
           anim_Length anim = Max (insert 0 (set (animationKeyframeTimes anim)))"
proof -
  from assms(1) obtain r anim where
    f: "foldR (loadChannel doc gltfAnim) (ganim_Channels gltfAnim)
          (NewAnimation (ganim_Name gltfAnim), 0) = Ok r" and
    m: "readMarkers (ganim_Extras gltfAnim) (fst r) = Ok anim" and
    a: "animations' = AList.update (ganim_Name gltfAnim) (anim\<lparr>anim_Length := snd r\<rparr>) animations"
    by (auto simp: loadAnimation_def rbind_eq_Ok)
  have "snd r = Max (insert 0 (set (animationKeyframeTimes (fst r))))"
    using assms(2)
    by (intro loadChannels_times [OF f, of "{}"])
       (simp_all add: distinctTargets_def tracksFrom_def NewAnimation_def
          animationKeyframeTimes_def)
  with readMarkers_channels [OF m] a show ?thesis
    by (simp add: update_conv' animationKeyframeTimes_def)
qed

theorem animation_length_witness:
  "case loadAnimation (animationDocument [1 / 2, 2])
          (hd (doc_Animations (animationDocument [1 / 2, 2]))) [] of
     Ok animations' \<Rightarrow>
       (case map_of animations' ''Open'' of
          Some anim \<Rightarrow> animationKeyframeTimes anim = [1 / 2, 2] \<and> anim_Length anim = 2
        | None \<Rightarrow> False)
   | _ \<Rightarrow> False"
proof -
  let ?d = "animationDocument [1 / 2, 2]"
  have "case loadAnimation ?d (hd (doc_Animations ?d)) [] of
          Ok animations' \<Rightarrow>
            (case map_of animations' ''Open'' of
               Some anim \<Rightarrow> animationKeyframeTimes anim = [1 / 2, 2]
             | None \<Rightarrow> False)
        | _ \<Rightarrow> False"
    by code_simp
  then obtain animations' anim where
    ok: "loadAnimation ?d (hd (doc_Animations ?d)) [] = Ok animations'" and
    a: "map_of animations' ''Open'' = Some anim" and
    k: "animationKeyframeTimes anim = [1 / 2, 2]"
    by (auto split: res.splits option.splits)
  have n: "ganim_Name (hd (doc_Animations ?d)) = ''Open''"
    by (simp add: animationDocument_def emptyDocument_def)
  have t: "distinctTargets ?d (hd (doc_Animations ?d))"
    by (simp add: distinctTargets_def animationDocument_def emptyDocument_def)
  from animation_length [OF ok t] a k n have "anim_Length anim = 2" by simp
  with k show ?thesis by (simp add: ok a)
qed

text \<open>The claim as stated fails on an animation whose only keyframe is at time -1: its
  length is 0. It also fails on an animation with two translation channels whose target
  nodes have the same name: the second track replaces the first, whose last keyframe
  gave the length.\<close>

theorem negative_keyframe_time_counterexample:
  "(case LoadGLTFData (exampleEnv (animationDocument [- 1])) [] None of
      Return (Some library) None \<Rightarrow>
        (case map_of (lib_Animations library) ''Open'' of
           Some anim \<Rightarrow>
             anim_Length anim = 0 \<and>
             (case map_of (anim_Channels anim) ''Door'' of
                Some channel \<Rightarrow>
                  (case map_of (channel_Tracks channel) TrackTypePosition of
                     Some track \<Rightarrow>
                       map kf_Time (track_Keyframes track) = [- 1] \<and>
                       anim_Length anim \<noteq> Max (set (map kf_Time (track_Keyframes track)))
                   | None \<Rightarrow> False)
              | None \<Rightarrow> False)
         | None \<Rightarrow> False)
    | _ \<Rightarrow> False) \<and>
   (case LoadGLTFData (exampleEnv sameNameDocument) [] None of
      Return (Some library) None \<Rightarrow>
        (case map_of (lib_Animations library) ''Sway'' of
           Some anim \<Rightarrow>
             anim_Length anim = 5 \<and> animationKeyframeTimes anim = [0, 1] \<and>
             anim_Length anim \<noteq> Max (set (animationKeyframeTimes anim))
         | None \<Rightarrow> False)
    | _ \<Rightarrow> False)"
  by code_simp

subsection \<open>Tags\<close>

lemma map_of_setTag:
  "map_of (setTag kv t) k
   = (if k = fst kv \<and> \<not> reservedKey k then Some (snd kv) else map_of t k)"
  by (auto simp: setTag_def Set_def reservedKey_def update_conv')

lemma map_of_setTags:
  "distinct (map fst dataMap) \<Longrightarrow>
   map_of (setTags dataMap t) k
   = (if k \<in> fst ` set dataMap \<and> \<not> reservedKey k then map_of dataMap k else map_of t k)"
  unfolding setTags_def
proof (induction dataMap arbitrary: t)
  case Nil
  then show ?case by simp
next
  case (Cons kv dataMap)
  then have d: "distinct (map fst dataMap)" and n: "fst kv \<notin> fst ` set dataMap" by auto
  show ?case
    using Cons.IH [OF d, of "setTag kv t"] n
    by (cases kv) (auto simp: map_of_setTag)
qed

lemma map_of_setTags_empty:
  "distinct (map fst dataMap) \<Longrightarrow>
   map_of (setTags dataMap []) k = (if reservedKey k then None else map_of dataMap k)"
proof -
  assume d: "distinct (map fst dataMap)"
  have "k \<notin> fst ` set dataMap \<Longrightarrow> map_of dataMap k = None"
    by (simp add: map_of_eq_None_iff)
  then show ?thesis by (auto simp: map_of_setTags [OF d])
qed

lemma isMap_eq_Some: "(isMap v = Some m) = (v = IMap m)"
  by (cases v) auto

lemma materialTexture_tags:
  "materialTexture doc et images gltfMat newMat = Ok m \<Longrightarrow> mat_Tags m = mat_Tags newMat"
  by (auto simp: materialTexture_def rbind_eq_Ok split: option.splits if_splits)

lemma loadMaterial_tags:
  assumes "loadMaterial doc opts et images gltfMat materials = Ok materials'"
    and "gmat_Extras gltfMat = IMap dataMap" and "distinct (map fst dataMap)"
  shows "\<exists>m. map_of materials' (gmat_Name gltfMat) = Some m \<and>
           map_of (mat_Tags m) k = (if reservedKey k then None else map_of dataMap k)"
proof -
  from assms(1,2) obtain m0 m1 where
    t: "materialTexture doc et images gltfMat
          ((NewMaterial (gmat_Name gltfMat))\<lparr>mat_BackfaceCulling := \<not> gmat_DoubleSided gltfMat\<rparr>)
        = Ok m0" and
    e: "materialExtras dataMap m0 = Ok m1" and
    r: "materials' = AList.update (gmat_Name gltfMat)
          (m1\<lparr>mat_TransparencyMode := transparencyMode opts (gmat_AlphaMode gltfMat)\<rparr>) materials"
    by (auto simp: loadMaterial_def rbind_eq_Ok)
  from materialTexture_tags [OF t] have "mat_Tags m0 = []" by (simp add: NewMaterial_def)
  with e have "mat_Tags m1 = setTags dataMap []"
    by (auto simp: materialExtras_def rbind_eq_Ok)
  with r assms(3) show ?thesis
    by (simp add: update_conv' map_of_setTags_empty)
qed

lemma foldR_invariant:
  assumes "foldR f xs s = Ok s'" and "P s"
    and "\<And>x a b. x \<in> set xs \<Longrightarrow> P a \<Longrightarrow> f x a = Ok b \<Longrightarrow> P b"
  shows "P s'"
  using assms
proof (induction xs arbitrary: s)
  case Nil
  then show ?case by simp
next
  case (Cons x xs)
  from Cons.prems(1) obtain s1 where a: "f x s = Ok s1" and b: "foldR f xs s1 = Ok s'"
    by (auto simp: rbind_eq_Ok)
  have "P s1" using Cons.prems(2,3) a by auto
  from Cons.IH [OF b this] Cons.prems(3) show ?case by auto
qed

lemma loadPrimitive_tags:
  "loadPrimitive doc materials v m = Ok m' \<Longrightarrow> mesh_Tags m' = mesh_Tags m"
  by (auto simp: loadPrimitive_def rbind_eq_Ok AddTriangles_def)

lemma vertexColorNames_tags:
  assumes "vertexColorNames dataMap m = Ok m'"
  shows "mesh_Tags m' = mesh_Tags m"
proof (cases "map_of dataMap ''t3dVertexColorNames__''")
  case None
  with assms show ?thesis by (simp add: vertexColorNames_def)
next
  case (Some v)
  with assms obtain names where
    f: "foldR (\<lambda>ixn m. rbind (asString (snd ixn)) (\<lambda>name.
                   Ok (m\<lparr>mesh_VertexColorChannelNames :=
                           AList.update name (fst ixn) (mesh_VertexColorChannelNames m)\<rparr>)))
            (enumerate 0 names) m = Ok m'"
    by (auto simp: vertexColorNames_def rbind_eq_Ok)
  show ?thesis
    by (rule foldR_invariant [OF f, where P = "\<lambda>x. mesh_Tags x = mesh_Tags m"])
       (auto simp: rbind_eq_Ok)
qed

lemma loadMesh_tags:
  assumes "loadMesh doc materials mesh meshes = Ok meshes'"
    and "gmesh_Extras mesh = IMap dataMap" and "distinct (map fst dataMap)"
  shows "\<exists>m. map_of meshes' (gmesh_Name mesh) = Some m \<and>
           map_of (mesh_Tags m) k = (if reservedKey k then None else map_of dataMap k)"
proof -
  from assms(1,2) obtain m0 m1 where
    c: "vertexColorNames dataMap (NewMesh (gmesh_Name mesh)) = Ok m0" and
    p: "foldR (loadPrimitive doc materials) (gmesh_Primitives mesh)
          (m0\<lparr>mesh_Tags := setTags dataMap (mesh_Tags m0)\<rparr>) = Ok m1" and
    r: "meshes' = AList.update (gmesh_Name mesh) m1 meshes"
    by (auto simp: loadMesh_def meshExtras_def rbind_eq_Ok)
  from vertexColorNames_tags [OF c] have "mesh_Tags m0 = []" by (simp add: NewMesh_def)
  moreover have "mesh_Tags m1 = mesh_Tags (m0\<lparr>mesh_Tags := setTags dataMap (mesh_Tags m0)\<rparr>)"
    by (rule foldR_invariant [OF p]) (auto dest: loadPrimitive_tags)
  ultimately have "mesh_Tags m1 = setTags dataMap []" by simp
  with r assms(3) show ?thesis
    by (simp add: update_conv' map_of_setTags_empty)
qed


lemma sameTags_refl: "sameTags w w"
  by (simp add: sameTags_def)

lemma sameTags_trans: "sameTags w1 w2 \<Longrightarrow> sameTags w2 w3 \<Longrightarrow> sameTags w1 w3"
  by (auto simp: sameTags_def)

lemma updNode_sameTags:
  assumes "\<And>n. node_tags (f n) = node_tags n"
  shows "sameTags w (updNode a f w)"
proof -
  have "node_tags ((w_nodes w)[a := f (w_nodes w ! a)] ! b) = node_tags (w_nodes w ! b)"
    if "b < length (w_nodes w)" for b
    using that assms by (cases "a = b") simp_all
  then show ?thesis by (simp add: sameTags_def updNode_def)
qed

lemma allocNode_sameTags: "sameTags w (snd (allocNode n w))"
  by (auto simp: sameTags_def allocNode_def nth_append)

lemma AddChildren_sameTags:
  assumes "AddChildren p c w = Ok w'"
  shows "sameTags w w'"
proof -
  have r: "sameTags w (removeChild c w)"
    by (auto simp: removeChild_def sameTags_refl intro: updNode_sameTags split: option.splits)
  have s: "sameTags x (setParent p c x)" for x
    unfolding setParent_def
    by (rule sameTags_trans [OF updNode_sameTags updNode_sameTags]) simp_all
  from assms have "w' = w \<or> w' = setParent p c (removeChild c w)"
    by (auto simp: AddChildren_def split: option.splits bool.splits)
  with r s show ?thesis
    by (auto intro: sameTags_refl sameTags_trans)
qed

lemma addBounding_sameTags:
  assumes "addBounding ty name obj w = Ok w'"
  shows "sameTags w w'"
proof -
  from assms have "AddChildren obj (fst (allocNode (newNode ty name) w))
                     (snd (allocNode (newNode ty name) w)) = Ok w'"
    by (simp add: addBounding_def split: prod.splits)
  from sameTags_trans [OF allocNode_sameTags AddChildren_sameTags [OF this]]
  show ?thesis .
qed

lemma nodeBounds_sameTags:
  assumes "nodeBounds dataMap obj w = Ok w'"
  shows "sameTags w w'"
  using assms
  by (auto simp: nodeBounds_def boundsAABB_def boundsCapsule_def boundsSphere_def rbind_eq_Ok
      intro: sameTags_refl addBounding_sameTags split: option.splits if_splits)

lemma newObject_tags:
  assumes "newObject doc meshes node = Ok n"
  shows "node_tags n = []"
  using assms
  by (auto simp: newObject_def newCamera_def newLight_def newPath_def newNode_def rbind_eq_Ok
      split: option.splits if_splits)

lemma createNode_tags:
  assumes "createNode doc meshes node st = Ok st'"
    and "gnode_Extras node = IMap dataMap" and "distinct (map fst dataMap)"
  shows "snd st' = snd st @ [length (w_nodes (fst st))] \<and>
         map_of (node_tags (w_nodes (fst st') ! length (w_nodes (fst st)))) k
           = (if reservedKey k then None else map_of dataMap k)"
proof -
  let ?obj = "length (w_nodes (fst st))"
  from assms(1) obtain n w2 w3 where
    n: "newObject doc meshes node = Ok n" and
    c: "foldR (\<lambda>child w1. rbind (index (snd st) child) (\<lambda>c. AddChildren ?obj c w1))
          (gnode_Children node) ((fst st)\<lparr>w_nodes := w_nodes (fst st) @ [n]\<rparr>) = Ok w2" and
    e: "nodeExtras node ?obj w2 = Ok w3" and
    r: "st' = (w3, snd st @ [?obj])"
    by (auto simp: createNode_def rbind_eq_Ok allocNode_def)
  let ?w1 = "(fst st)\<lparr>w_nodes := w_nodes (fst st) @ [n]\<rparr>"
  have "sameTags ?w1 w2"
    by (rule foldR_invariant [OF c, where P = "sameTags ?w1"])
       (auto simp: rbind_eq_Ok sameTags_refl intro: sameTags_trans AddChildren_sameTags)
  then have t2: "node_tags (w_nodes w2 ! ?obj) = []" and l2: "?obj < length (w_nodes w2)"
    using newObject_tags [OF n] by (auto simp: sameTags_def)
  from e assms(2) obtain vis w4 where
    b: "nodeBounds dataMap ?obj (updNode ?obj (\<lambda>n. n\<lparr>node_visible := vis\<rparr>) w2) = Ok w4" and
    w3: "w3 = updNode ?obj (\<lambda>n. n\<lparr>node_tags := setTags dataMap (node_tags n)\<rparr>) w4"
    by (auto simp: nodeExtras_def rbind_eq_Ok)
  have "sameTags w2 w4"
    by (rule sameTags_trans [OF updNode_sameTags nodeBounds_sameTags [OF b]]) simp
  with t2 l2 have "node_tags (w_nodes w4 ! ?obj) = []" and "?obj < length (w_nodes w4)"
    by (auto simp: sameTags_def)
  then have "node_tags (w_nodes w3 ! ?obj) = setTags dataMap []"
    by (simp add: w3 updNode_def)
  with r assms(3) show ?thesis
    by (simp add: map_of_setTags_empty)
qed

lemma gameProperty_Set:
  assumes "gameProperty p t = Ok t'"
  shows "\<exists>v. t' = Set (propertyName p) v t"
proof -
  from assms obtain property name v where
    p: "p = IMap property" and
    n: "getOrDefaultString property ''name'' ''New Property'' = Ok name" and
    t: "t' = Set name v t"
    by (cases p) (auto simp: gameProperty_def rbind_eq_Ok)
  from n have "name = propertyName p"
    unfolding p getOrDefaultString_def propertyName_def
    by (cases "map_of property ''name''"; cases "the (map_of property ''name'')") auto
  with t show ?thesis by blast
qed

lemma gameProperty_fold:
  "foldR gameProperty ps t = Ok t' \<Longrightarrow> k \<notin> propertyName ` set ps \<Longrightarrow>
   map_of t' k = map_of t k"
proof (induction ps arbitrary: t)
  case Nil
  then show ?case by simp
next
  case (Cons p ps)
  from Cons.prems(1) obtain t1 where
    a: "gameProperty p t = Ok t1" and b: "foldR gameProperty ps t1 = Ok t'"
    by (auto simp: rbind_eq_Ok)
  from gameProperty_Set [OF a] Cons.prems(2) have "map_of t1 k = map_of t k"
    by (auto simp: Set_def update_conv')
  with Cons.IH [OF b] Cons.prems(2) show ?case by simp
qed


lemma gameProperties_tags:
  assumes "gameProperties node obj w = Ok w'" and "k \<notin> set (gamePropertyNames node)"
  shows "map_of (node_tags (w_nodes w' ! obj)) k = map_of (node_tags (w_nodes w ! obj)) k"
proof (cases "\<exists>dataMap ps. gnode_Extras node = IMap dataMap \<and>
                map_of dataMap ''t3dGameProperties__'' = Some (ISlice ps)")
  case True
  then obtain dataMap ps where
    d: "gnode_Extras node = IMap dataMap" "map_of dataMap ''t3dGameProperties__'' = Some (ISlice ps)"
    by blast
  with assms(1) obtain t where
    f: "foldR gameProperty ps (node_tags (w_nodes w ! obj)) = Ok t" and
    w: "w' = updNode obj (\<lambda>n. n\<lparr>node_tags := t\<rparr>) w"
    by (auto simp: gameProperties_def rbind_eq_Ok)
  from d assms(2) have "k \<notin> propertyName ` set ps" by (simp add: gamePropertyNames_def)
  from gameProperty_fold [OF f this] show ?thesis
    by (cases "obj < length (w_nodes w)") (simp_all add: w updNode_def list_update_beyond)
next
  case False
  with assms(1) have "w' = w"
    by (cases "gnode_Extras node")
       (auto simp: gameProperties_def rbind_eq_Ok split: option.splits if_splits elim: asSlice.elims)
  then show ?thesis by simp
qed

lemma asFloat_eq_Ok: "(asFloat v = Ok x) = (v = IFloat x)"
  by (cases v) auto

lemma asString_eq_Ok: "(asString v = Ok s) = (v = IString s)"
  by (cases v) auto

lemma asMap_eq_Ok: "(asMap v = Ok m) = (v = IMap m)"
  by (cases v) auto

lemma getOrDefaultInt_Ok:
  "getOrDefaultInt property k d = Ok i \<Longrightarrow>
   i = (case map_of property k of Some (IFloat x) \<Rightarrow> toInt x | _ \<Rightarrow> d)"
  by (auto simp: getOrDefaultInt_def rbind_eq_Ok asFloat_eq_Ok split: option.splits)

lemma getOrDefaultBool_Ok:
  "getOrDefaultBool' property k d = Ok b \<Longrightarrow>
   b = (case map_of property k of Some (IFloat x) \<Rightarrow> 0 < x | _ \<Rightarrow> d)"
  by (auto simp: getOrDefaultBool'_def rbind_eq_Ok asFloat_eq_Ok split: option.splits)

lemma getOrDefaultFloat_Ok:
  "getOrDefaultFloat' property k d = Ok x \<Longrightarrow>
   x = (case map_of property k of Some (IFloat y) \<Rightarrow> y | _ \<Rightarrow> d)"
  by (auto simp: getOrDefaultFloat'_def asFloat_eq_Ok split: option.splits)

lemma getOrDefaultString_Ok:
  "getOrDefaultString property k d = Ok s \<Longrightarrow>
   s = (case map_of property k of Some (IString y) \<Rightarrow> y | _ \<Rightarrow> d)"
  by (auto simp: getOrDefaultString_def asString_eq_Ok split: option.splits)

lemma referenceName_Ok:
  assumes "getIfExistingMap property key = Ok ref"
    and "(case ref of None \<Rightarrow> Ok dflt | Some r \<Rightarrow> getOrDefaultString r ''name'' []) = Ok n"
  shows "(ref = None \<and> referenceName property key = None \<and> n = dflt) \<or>
         (ref \<noteq> None \<and> referenceName property key = Some n)"
  using assms
  by (auto simp: getIfExistingMap_def referenceName_def rbind_eq_Ok asMap_eq_Ok
        dest!: getOrDefaultString_Ok split: option.splits if_splits)

lemma propertyReference_Ok:
  assumes "propertyReference property = Ok v"
  shows "v = (case referenceName property ''valueReference'' of
                Some n \<Rightarrow>
                  IString ((case referenceName property ''valueReferenceScene'' of
                              Some s \<Rightarrow> s
                            | None \<Rightarrow> []) @ '':'' @ n)
              | None \<Rightarrow> INil)"
proof -
  from assms obtain sref scene ref where
    1: "getIfExistingMap property ''valueReferenceScene'' = Ok sref" and
    2: "(case sref of None \<Rightarrow> Ok [] | Some r \<Rightarrow> getOrDefaultString r ''name'' []) = Ok scene" and
    3: "getIfExistingMap property ''valueReference'' = Ok ref" and
    4: "(case ref of
           None \<Rightarrow> Ok INil
         | Some r \<Rightarrow> rbind (getOrDefaultString r ''name'' []) (\<lambda>n.
                       Ok (IString (scene @ '':'' @ n)))) = Ok v"
    unfolding propertyReference_def rbind_eq_Ok by blast
  from referenceName_Ok [OF 1 2] have s: "scene = (case referenceName property ''valueReferenceScene'' of
                              Some s \<Rightarrow> s
                            | None \<Rightarrow> [])"
    by auto
  show ?thesis
  proof (cases ref)
    case None
    with 3 4 referenceName_Ok [OF 3, of "[]" "[]"] show ?thesis by auto
  next
    case (Some r)
    with 4 obtain n where n: "getOrDefaultString r ''name'' [] = Ok n"
      "v = IString (scene @ '':'' @ n)"
      by (auto simp: rbind_eq_Ok)
    with Some referenceName_Ok [OF 3, of "[]" n] s show ?thesis by auto
  qed
qed

lemma gameProperty_value:
  assumes "gameProperty p t = Ok t'"
  shows "t' = Set (propertyName p) (gamePropertyValue p) t"
proof -
  from assms obtain property propType name v where
    p: "p = IMap property" and
    ty: "getOrDefaultInt property ''valueType'' 0 = Ok propType" and
    n: "getOrDefaultString property ''name'' ''New Property'' = Ok name" and
    v: "propertyValue property propType = Ok v" and
    t: "t' = Set name v t"
    by (cases p) (auto simp: gameProperty_def rbind_eq_Ok)
  from n have name: "name = propertyName p"
    unfolding p getOrDefaultString_def propertyName_def
    by (cases "map_of property ''name''"; cases "the (map_of property ''name'')") auto
  note ty' = getOrDefaultInt_Ok [OF ty]
  have "v = gamePropertyValue p"
  proof -
    consider "propType = 0" | "propType = 1" | "propType = 2" | "propType = 3"
      | "propType = 4" | "propType \<notin> {0, 1, 2, 3, 4}"
      by auto
    then show ?thesis
    proof cases
      case 1
      with v ty' show ?thesis
        by (auto simp: propertyValue_def gamePropertyValue_def p rbind_eq_Ok
              dest!: getOrDefaultBool_Ok)
    next
      case 2
      with v ty' show ?thesis
        by (auto simp: propertyValue_def gamePropertyValue_def p rbind_eq_Ok
              dest!: getOrDefaultInt_Ok)
    next
      case 3
      with v ty' show ?thesis
        by (auto simp: propertyValue_def gamePropertyValue_def p rbind_eq_Ok
              dest!: getOrDefaultFloat_Ok)
    next
      case 4
      with v ty' show ?thesis
        by (auto simp: propertyValue_def gamePropertyValue_def p rbind_eq_Ok
              dest!: getOrDefaultString_Ok)
    next
      case 5
      with v ty' propertyReference_Ok [of property v] show ?thesis
        by (simp add: propertyValue_def gamePropertyValue_def p)
    next
      case 6
      with v ty' show ?thesis
        by (auto simp: propertyValue_def gamePropertyValue_def p)
    qed
  qed
  with t name show ?thesis by simp
qed

lemma gameProperty_fold_value:
  "foldR gameProperty ps t = Ok t' \<Longrightarrow>
   map_of t' = map_of t ++ map_of (rev (map (\<lambda>p. (propertyName p, gamePropertyValue p)) ps))"
proof (induction ps arbitrary: t)
  case Nil
  then show ?case by simp
next
  case (Cons p ps)
  from Cons.prems obtain t1 where
    a: "gameProperty p t = Ok t1" and b: "foldR gameProperty ps t1 = Ok t'"
    by (auto simp: rbind_eq_Ok)
  from gameProperty_value [OF a]
  have "map_of t1 = (map_of t)(propertyName p \<mapsto> gamePropertyValue p)"
    by (simp add: Set_def update_conv')
  with Cons.IH [OF b] show ?case
    by (auto simp: map_add_def fun_eq_iff split: option.splits)
qed

lemma gameProperties_value:
  assumes "gameProperties node obj w = Ok w'" and "obj < length (w_nodes w)"
  shows "map_of (node_tags (w_nodes w' ! obj))
         = map_of (node_tags (w_nodes w ! obj)) ++ gamePropertyTags node"
proof (cases "\<exists>dataMap ps. gnode_Extras node = IMap dataMap \<and>
                map_of dataMap ''t3dGameProperties__'' = Some (ISlice ps)")
  case True
  then obtain dataMap ps where
    d: "gnode_Extras node = IMap dataMap" "map_of dataMap ''t3dGameProperties__'' = Some (ISlice ps)"
    by blast
  with assms(1) obtain t where
    f: "foldR gameProperty ps (node_tags (w_nodes w ! obj)) = Ok t" and
    w: "w' = updNode obj (\<lambda>n. n\<lparr>node_tags := t\<rparr>) w"
    by (auto simp: gameProperties_def rbind_eq_Ok)
  from gameProperty_fold_value [OF f] d w assms(2) show ?thesis
    by (simp add: gamePropertyTags_def updNode_def)
next
  case False
  with assms(1) have "w' = w"
    by (cases "gnode_Extras node")
       (auto simp: gameProperties_def rbind_eq_Ok split: option.splits if_splits elim: asSlice.elims)
  moreover from False have "gamePropertyTags node = Map.empty"
    by (auto simp: gamePropertyTags_def split: iface.splits option.splits)
  ultimately show ?thesis by simp
qed

text \<open>
  C7. The claim: an extras key of a document node, mesh or material is stored with its
  value in the tag map of the entity exactly when it is outside the reserved set, and
  reserved keys never appear in a tag map. This holds of the pass over the extras of each
  entity (lines 210-215, 261-266, 806-811), which leaves the tag map equal to the extras
  without the reserved keys. For a node, the later pass over its game properties (lines
  972-1018) sets a tag under the name of each property, whatever the name, to the value
  of the property (of the last property of that name), and leaves every other tag as it
  was.
\<close>

theorem extras_pass_through:
  "(gmat_Extras gltfMat = IMap matData \<and> distinct (map fst matData) \<and>
    loadMaterial doc opts exportedTextures images gltfMat materials = Ok materials' \<longrightarrow>
      (\<exists>m. map_of materials' (gmat_Name gltfMat) = Some m \<and>
           map_of (mat_Tags m) = passedThrough matData)) \<and>
   (gmesh_Extras mesh = IMap meshData \<and> distinct (map fst meshData) \<and>
    loadMesh doc materials mesh meshes = Ok meshes' \<longrightarrow>
      (\<exists>m. map_of meshes' (gmesh_Name mesh) = Some m \<and>
           map_of (mesh_Tags m) = passedThrough meshData)) \<and>
   (gnode_Extras node = IMap nodeData \<and> distinct (map fst nodeData) \<and>
    createNode doc meshes node (w, objects) = Ok (w', objects') \<longrightarrow>
      objects' = objects @ [length (w_nodes w)] \<and>
      map_of (node_tags (w_nodes w' ! length (w_nodes w))) = passedThrough nodeData) \<and>
   (gameProperties node obj v = Ok v' \<and> k \<notin> set (gamePropertyNames node) \<longrightarrow>
      map_of (node_tags (w_nodes v' ! obj)) k = map_of (node_tags (w_nodes v ! obj)) k) \<and>
   (gameProperties node obj v = Ok v' \<and> obj < length (w_nodes v) \<longrightarrow>
      map_of (node_tags (w_nodes v' ! obj))
      = map_of (node_tags (w_nodes v ! obj)) ++ gamePropertyTags node)"
proof (intro conjI impI; (elim conjE)?)
  assume "gmat_Extras gltfMat = IMap matData" "distinct (map fst matData)"
    "loadMaterial doc opts exportedTextures images gltfMat materials = Ok materials'"
  from loadMaterial_tags [OF this(3,1,2)]
  show "\<exists>m. map_of materials' (gmat_Name gltfMat) = Some m \<and>
           map_of (mat_Tags m) = passedThrough matData"
    by (metis (no_types) ext passedThrough_def option.inject)
next
  assume "gmesh_Extras mesh = IMap meshData" "distinct (map fst meshData)"
    "loadMesh doc materials mesh meshes = Ok meshes'"
  from loadMesh_tags [OF this(3,1,2)]
  show "\<exists>m. map_of meshes' (gmesh_Name mesh) = Some m \<and>
           map_of (mesh_Tags m) = passedThrough meshData"
    by (metis (no_types) ext passedThrough_def option.inject)
next
  assume a: "gnode_Extras node = IMap nodeData" "distinct (map fst nodeData)"
    "createNode doc meshes node (w, objects) = Ok (w', objects')"
  from createNode_tags [OF a(3,1,2)] show "objects' = objects @ [length (w_nodes w)]"
    by simp
  show "map_of (node_tags (w_nodes w' ! length (w_nodes w))) = passedThrough nodeData"
  proof
    fix k
    from createNode_tags [OF a(3,1,2), of k]
    show "map_of (node_tags (w_nodes w' ! length (w_nodes w))) k = passedThrough nodeData k"
      by (simp add: passedThrough_def)
  qed
next
  assume "gameProperties node obj v = Ok v'" "k \<notin> set (gamePropertyNames node)"
  from gameProperties_tags [OF this]
  show "map_of (node_tags (w_nodes v' ! obj)) k = map_of (node_tags (w_nodes v ! obj)) k" .
next
  assume "gameProperties node obj v = Ok v'" "obj < length (w_nodes v)"
  from gameProperties_value [OF this]
  show "map_of (node_tags (w_nodes v' ! obj))
        = map_of (node_tags (w_nodes v ! obj)) ++ gamePropertyTags node" .
qed

theorem extras_pass_through_witness:
  "(case loadMaterial taggedDocument DefaultGLTFLoadOptions True [] taggedMaterial [] of
      Ok materials' \<Rightarrow>
        (case map_of materials' ''Paint'' of
           Some m \<Rightarrow> map_of (mat_Tags m) ''shiny'' = Some (IFloat 1) \<and>
                     map_of (mat_Tags m) ''t3dMaterialShadeless__'' = None
         | None \<Rightarrow> False)
    | _ \<Rightarrow> False) \<and>
   (case loadMesh taggedDocument [] taggedMesh [] of
      Ok meshes' \<Rightarrow>
        (case map_of meshes' ''Triangle'' of
           Some m \<Rightarrow> map_of (mesh_Tags m) ''lod'' = Some (IFloat 2) \<and>
                     map_of (mesh_Tags m) ''t3dVertexColorNames__'' = None
         | None \<Rightarrow> False)
    | _ \<Rightarrow> False) \<and>
   (case createNode taggedDocument [] taggedNode (emptyWorld, []) of
      Ok st \<Rightarrow> snd st = [0] \<and>
                map_of (node_tags (w_nodes (fst st) ! 0)) ''hp'' = Some (IFloat 1) \<and>
                map_of (node_tags (w_nodes (fst st) ! 0)) ''t3dVisible__'' = None
    | _ \<Rightarrow> False) \<and>
   (case gameProperties taggedNode 0 taggedWorld of
      Ok w3 \<Rightarrow> map_of (node_tags (w_nodes w3 ! 0)) ''hp'' = Some (IFloat 1) \<and>
                map_of (node_tags (w_nodes w3 ! 0)) ''speed'' = Some (IFloat 3)
    | _ \<Rightarrow> False)"
proof -
  let ?matData = "[(''shiny'', IFloat 1), (''t3dMaterialShadeless__'', IFloat 1)]"
  let ?meshData = "[(''t3dVertexColorNames__'', ISlice []), (''lod'', IFloat 2)]"
  let ?nodeData = "[(''hp'', IFloat 1), (''t3dVisible__'', IFloat 0),
                (''t3dGameProperties__'',
                 ISlice [IMap [(''name'', IString ''speed''), (''valueType'', IFloat 2),
                               (''valueFloat'', IFloat 3)]])]"
  have "case loadMaterial taggedDocument DefaultGLTFLoadOptions True [] taggedMaterial [] of
          Ok x \<Rightarrow> True | _ \<Rightarrow> False"
    by code_simp
  then obtain materials' where
    ok1: "loadMaterial taggedDocument DefaultGLTFLoadOptions True [] taggedMaterial [] = Ok materials'"
    by (cases "loadMaterial taggedDocument DefaultGLTFLoadOptions True [] taggedMaterial []") auto
  have "case loadMesh taggedDocument [] taggedMesh [] of Ok x \<Rightarrow> True | _ \<Rightarrow> False"
    by code_simp
  then obtain meshes' where ok2: "loadMesh taggedDocument [] taggedMesh [] = Ok meshes'"
    by (cases "loadMesh taggedDocument [] taggedMesh []") auto
  have "case createNode taggedDocument [] taggedNode (emptyWorld, []) of
          Ok x \<Rightarrow> True | _ \<Rightarrow> False"
    by code_simp
  then obtain w1 objects1 where
    ok3: "createNode taggedDocument [] taggedNode (emptyWorld, []) = Ok (w1, objects1)"
    by (cases "createNode taggedDocument [] taggedNode (emptyWorld, [])") auto
  have "case gameProperties taggedNode 0 taggedWorld of Ok x \<Rightarrow> True | _ \<Rightarrow> False"
    by code_simp
  then obtain w3 where ok4: "gameProperties taggedNode 0 taggedWorld = Ok w3"
    by (cases "gameProperties taggedNode 0 taggedWorld") auto
  have e1: "gmat_Extras taggedMaterial = IMap ?matData" by (simp add: taggedMaterial_def)
  have e2: "gmesh_Extras taggedMesh = IMap ?meshData"
    by (simp add: taggedMesh_def triangleMesh_def)
  have e3: "gnode_Extras taggedNode = IMap ?nodeData"
    by (simp add: taggedNode_def plainNode_def)
  have n: "''hp'' \<notin> set (gamePropertyNames taggedNode)"
    by (simp add: gamePropertyNames_def e3 propertyName_def)
  have names: "gmat_Name taggedMaterial = ''Paint''" "gmesh_Name taggedMesh = ''Triangle''"
    by (simp_all add: taggedMaterial_def taggedMesh_def triangleMesh_def)
  have p: "passedThrough ?matData ''shiny'' = Some (IFloat 1)"
    "passedThrough ?matData ''t3dMaterialShadeless__'' = None"
    "passedThrough ?meshData ''lod'' = Some (IFloat 2)"
    "passedThrough ?meshData ''t3dVertexColorNames__'' = None"
    "passedThrough ?nodeData ''hp'' = Some (IFloat 1)"
    "passedThrough ?nodeData ''t3dVisible__'' = None"
    by code_simp+
  have t0: "map_of (node_tags (w_nodes taggedWorld ! 0)) ''hp'' = Some (IFloat 1)"
    by (simp add: taggedWorld_def emptyWorld_def newNode_def)
  have l0: "length (w_nodes emptyWorld) = 0" by (simp add: emptyWorld_def)
  note T = extras_pass_through [where gltfMat = taggedMaterial and matData = ?matData
      and doc = taggedDocument and opts = DefaultGLTFLoadOptions and exportedTextures = True
      and images = "[]" and materials = "[]" and materials' = materials'
      and mesh = taggedMesh and meshData = ?meshData and meshes = "[]" and meshes' = meshes'
      and node = taggedNode and nodeData = ?nodeData and w = emptyWorld and objects = "[]"
      and w' = w1 and objects' = objects1 and obj = 0 and v = taggedWorld
      and v' = w3 and k = "''hp''"]
  from T e1 ok1 obtain m where
    m: "map_of materials' ''Paint'' = Some m" "map_of (mat_Tags m) = passedThrough ?matData"
    by (auto simp: names)
  from T e2 ok2 obtain m2 where
    m2: "map_of meshes' ''Triangle'' = Some m2" "map_of (mesh_Tags m2) = passedThrough ?meshData"
    by (auto simp: names)
  from T e3 ok3 have
    m3: "objects1 = [0]" "map_of (node_tags (w_nodes w1 ! 0)) = passedThrough ?nodeData"
    by (auto simp: l0)
  from T ok4 n t0 have m4: "map_of (node_tags (w_nodes w3 ! 0)) ''hp'' = Some (IFloat 1)"
    by simp
  have l1: "0 < length (w_nodes taggedWorld)"
    by (simp add: taggedWorld_def emptyWorld_def)
  have g: "gamePropertyTags taggedNode ''speed'' = Some (IFloat 3)"
    by code_simp
  from T ok4 l1 have "map_of (node_tags (w_nodes w3 ! 0))
      = map_of (node_tags (w_nodes taggedWorld ! 0)) ++ gamePropertyTags taggedNode"
    by blast
  with g have m5: "map_of (node_tags (w_nodes w3 ! 0)) ''speed'' = Some (IFloat 3)"
    by (simp add: map_add_def)
  show ?thesis
    by (simp add: ok1 ok2 ok3 ok4 m m2 m3 m4 m5 p)
qed

text \<open>The claim as stated fails on a node with the custom property "hp" and game
  properties named "hp" and "t3dLevel__": the tag "hp" ends with the value of the game
  property, and the reserved key is in the tag map.\<close>

theorem game_property_counterexample:
  "case LoadGLTFData (exampleEnv gamePropertyDocument) [] None of
     Return (Some library) None \<Rightarrow>
       map_of (node_tags (w_nodes (lib_world library) ! 0)) ''hp'' = Some (IInt 5) \<and>
       \<not> reservedKey ''hp'' \<and>
       map_of (node_tags (w_nodes (lib_world library) ! 0)) ''t3dLevel__'' = Some (IBool False) \<and>
       reservedKey ''t3dLevel__'' \<and>
       gnode_Extras (hd (doc_Nodes gamePropertyDocument))
         = IMap [(''hp'', IFloat 1),
                 (''t3dLevel__'', IFloat 2),
                 (''t3dGameProperties__'',
                   ISlice [IMap [(''name'', IString ''hp''), (''valueType'', IFloat 1),
                                 (''valueInt'', IFloat 5)],
                           IMap [(''name'', IString ''t3dLevel__''),
                                 (''valueType'', IFloat 0)]])]
   | _ \<Rightarrow> False"
  by code_simp

subsection \<open>Failed reads\<close>

lemma foldR_Ok_each:
  "foldR f xs s = Ok s' \<Longrightarrow> x \<in> set xs \<Longrightarrow> \<exists>a b. f x a = Ok b"
proof (induction xs arbitrary: s)
  case Nil
  then show ?case by simp
next
  case (Cons y ys)
  from Cons.prems(1) obtain s1 where a: "f y s = Ok s1" and b: "foldR f ys s1 = Ok s'"
    by (auto simp: rbind_eq_Ok)
  show ?case
  proof (cases "x = y")
    case True
    with a show ?thesis by blast
  next
    case False
    with Cons.prems(2) have "x \<in> set ys" by simp
    from Cons.IH [OF b this] show ?thesis .
  qed
qed

lemma readAt_Nil:
  "a < length accs \<Longrightarrow> rd (accs ! a) = Inr x \<Longrightarrow> readAt accs a rd = []"
  by (simp add: readAt_def)





















































subsection \<open>Dependent libraries\<close>

lemma createNode_objects:
  "createNode doc meshes node st = Ok st' \<Longrightarrow> length (snd st') = Suc (length (snd st))"
  by (auto simp: createNode_def rbind_eq_Ok allocNode_def)

lemma createNodes_objects:
  "foldR (createNode doc meshes) nodes st = Ok st' \<Longrightarrow>
   length (snd st') = length (snd st) + length nodes"
proof (induction nodes arbitrary: st)
  case Nil
  then show ?case by simp
next
  case (Cons n ns)
  from Cons.prems obtain st1 where
    a: "createNode doc meshes n st = Ok st1" and
    b: "foldR (createNode doc meshes) ns st1 = Ok st'"
    by (auto simp: rbind_eq_Ok)
  from Cons.IH [OF b] createNode_objects [OF a] show ?case by simp
qed

lemma set_rangeOrder: "set (rangeOrder prio n) = {0..<n}"
  by (simp add: rangeOrder_def)

lemma instantiate_no_resolver:
  assumes "col_Path collection \<noteq> []" and "DependentLibraryResolver options = None"
  shows "instantiate options objects collection obj cloneName w
         = Panic (ExplicitPanic (''Error in instantiating linked element '' @ cloneName @
                    '' as the Dependent Library Resolver function is nil.''))"
  using assms by (simp add: instantiate_def)

lemma instanceCollection_no_resolver:
  assumes "gnode_Extras node = IMap dataMap"
    and "map_of dataMap ''t3dInstanceCollection__'' = Some (IString name)"
    and "map_of collections name = Some collection"
    and "col_Path collection \<noteq> []" and "col_Objects collection = cloneName # rest"
    and "DependentLibraryResolver options = None"
  shows "instanceCollection options collections objects node obj w
         = (if 3 \<le> length (col_Offset collection)
            then Panic (ExplicitPanic (''Error in instantiating linked element '' @ cloneName @
                          '' as the Dependent Library Resolver function is nil.''))
            else Panic IndexOutOfRange)"
  using assms instantiate_no_resolver [OF assms(4,6)]
  by (auto simp: instanceCollection_def index_def)

lemma instanceCollection_no_objects:
  assumes "gnode_Extras node = IMap dataMap"
    and "map_of dataMap ''t3dInstanceCollection__'' = Some (IString name)"
    and "map_of collections name = Some collection"
    and "col_Objects collection = []"
  shows "instanceCollection options collections objects node obj w
         = (if 3 \<le> length (col_Offset collection) then Ok w else Panic IndexOutOfRange)"
  using assms by (auto simp: instanceCollection_def index_def)

text \<open>
  C6. The claim: for a node whose instance collection has a non-empty dependent-library
  path, a \<open>nil\<close> resolver makes the import panic. The test of the resolver is in the body
  of the loop over the objects of the collection (lines 1047-1060), so it is reached for
  a collection that lists at least one object: instancing the node then panics, with the
  explicit panic that names the first object (or, when the offset of the collection has
  fewer than three components, with the index panic of line 1045), and the import never
  returns a library. For a collection that lists no object the test is not reached:
  instancing the node leaves the graph as it is when the offset has three components, and
  panics with the index panic of line 1045 otherwise.
\<close>

theorem missing_resolver_panics:
  assumes "env_Decode env data = Inr doc"
    and "exporterSettings env doc = Ok (exportedTextures, collections)"
    and "i < length (doc_Nodes doc)"
    and "gnode_Extras (doc_Nodes doc ! i) = IMap dataMap"
    and "map_of dataMap ''t3dInstanceCollection__'' = Some (IString name)"
    and "map_of collections name = Some collection"
    and "col_Path collection \<noteq> []"
    and "DependentLibraryResolver
           (case opts of None \<Rightarrow> DefaultGLTFLoadOptions | Some options \<Rightarrow> options) = None"
  shows "(col_Objects collection = cloneName # rest \<longrightarrow>
            instanceCollection
              (case opts of None \<Rightarrow> DefaultGLTFLoadOptions | Some options \<Rightarrow> options)
              collections objects (doc_Nodes doc ! i) obj w
            = (if 3 \<le> length (col_Offset collection)
               then Panic (ExplicitPanic (''Error in instantiating linked element '' @ cloneName @
                             '' as the Dependent Library Resolver function is nil.''))
               else Panic IndexOutOfRange) \<and>
            LoadGLTFData env data opts \<noteq> Return (Some library) e) \<and>
         (col_Objects collection = [] \<longrightarrow>
            instanceCollection
              (case opts of None \<Rightarrow> DefaultGLTFLoadOptions | Some options \<Rightarrow> options)
              collections objects (doc_Nodes doc ! i) obj w
            = (if 3 \<le> length (col_Offset collection) then Ok w else Panic IndexOutOfRange))"
proof (intro conjI impI)
  let ?o = "case opts of None \<Rightarrow> DefaultGLTFLoadOptions | Some options \<Rightarrow> options"
  assume o: "col_Objects collection = cloneName # rest"
  note ic = instanceCollection_no_resolver [OF assms(4,5,6,7) o assms(8)]
  from ic
  show "instanceCollection ?o collections objects (doc_Nodes doc ! i) obj w
         = (if 3 \<le> length (col_Offset collection)
            then Panic (ExplicitPanic (''Error in instantiating linked element '' @ cloneName @
                          '' as the Dependent Library Resolver function is nil.''))
            else Panic IndexOutOfRange)" .
  show "LoadGLTFData env data opts \<noteq> Return (Some library) e"
  proof
    assume "LoadGLTFData env data opts = Return (Some library) e"
    with assms(1) have "importDocument env ?o doc = Ok library"
      by (auto simp: LoadGLTFData_def split: res.splits)
    with assms(2) obtain st1 w4 w5 where
      c: "foldR (createNode doc (lib_Meshes library)) (doc_Nodes doc) (emptyWorld, []) = Ok st1" and
      f: "foldR (\<lambda>i. instanceCollection ?o collections (snd st1)
                         (doc_Nodes doc ! i) (snd st1 ! i))
              (rangeOrder (env_order2 env) (length (snd st1))) w4 = Ok w5"
      by (auto simp: importDocument_def rbind_eq_Ok)
    from createNodes_objects [OF c] assms(3)
    have "i \<in> set (rangeOrder (env_order2 env) (length (snd st1)))"
      by (simp add: set_rangeOrder)
    from foldR_Ok_each [OF f this] obtain a b where
      "instanceCollection ?o collections (snd st1) (doc_Nodes doc ! i) (snd st1 ! i) a = Ok b"
      by blast
    with instanceCollection_no_resolver [OF assms(4,5,6,7) o assms(8)] show False
      by (simp split: if_splits)
  qed
next
  let ?o = "case opts of None \<Rightarrow> DefaultGLTFLoadOptions | Some options \<Rightarrow> options"
  assume "col_Objects collection = []"
  from instanceCollection_no_objects [OF assms(4,5,6) this]
  show "instanceCollection ?o collections objects (doc_Nodes doc ! i) obj w
         = (if 3 \<le> length (col_Offset collection) then Ok w else Panic IndexOutOfRange)" .
qed

theorem missing_resolver_panics_witness:
  "instanceCollection DefaultGLTFLoadOptions
     [(''Props'', \<lparr>col_Objects = [''Crate''], col_Offset = [0, 0, 0],
                   col_Path = ''//assets.blend''\<rparr>)]
     [0] (hd (doc_Nodes linkedDocument)) 0 emptyWorld
   = Panic (ExplicitPanic
       ''Error in instantiating linked element Crate as the Dependent Library Resolver function is nil.'') \<and>
   LoadGLTFData (exampleEnv linkedDocument) [] None
   = Panics (ExplicitPanic
       ''Error in instantiating linked element Crate as the Dependent Library Resolver function is nil.'') \<and>
   instanceCollection DefaultGLTFLoadOptions
     [(''Props'', \<lparr>col_Objects = [], col_Offset = [0, 0, 0],
                   col_Path = ''//assets.blend''\<rparr>)]
     [0] (hd (doc_Nodes emptyLinkedDocument)) 0 emptyWorld
   = Ok emptyWorld"
proof -
  let ?col = "\<lparr>col_Objects = [''Crate''], col_Offset = [0, 0, 0], col_Path = ''//assets.blend''\<rparr>"
  let ?nil = "\<lparr>col_Objects = [], col_Offset = [0, 0, 0], col_Path = ''//assets.blend''\<rparr>"
  have d: "env_Decode (exampleEnv linkedDocument) [] = Inr linkedDocument"
    by (simp add: exampleEnv_def)
  have e: "exporterSettings (exampleEnv linkedDocument) linkedDocument
           = Ok (True, [(''Props'', ?col)])"
    by code_simp
  have i: "0 < length (doc_Nodes linkedDocument)"
    by (simp add: linkedDocument_def instancingDocument_def)
  have x: "gnode_Extras (doc_Nodes linkedDocument ! 0)
           = IMap [(''t3dInstanceCollection__'', IString ''Props'')]"
    by (simp add: linkedDocument_def instancingDocument_def plainNode_def)
  have h: "hd (doc_Nodes linkedDocument) = doc_Nodes linkedDocument ! 0"
    by (simp add: linkedDocument_def instancingDocument_def)
  have l: "LoadGLTFData (exampleEnv linkedDocument) [] None
   = Panics (ExplicitPanic
       ''Error in instantiating linked element Crate as the Dependent Library Resolver function is nil.'')"
    by code_simp
  have d': "env_Decode (exampleEnv emptyLinkedDocument) [] = Inr emptyLinkedDocument"
    by (simp add: exampleEnv_def)
  have e': "exporterSettings (exampleEnv emptyLinkedDocument) emptyLinkedDocument
           = Ok (True, [(''Props'', ?nil)])"
    by code_simp
  have i': "0 < length (doc_Nodes emptyLinkedDocument)"
    by (simp add: emptyLinkedDocument_def instancingDocument_def)
  have x': "gnode_Extras (doc_Nodes emptyLinkedDocument ! 0)
           = IMap [(''t3dInstanceCollection__'', IString ''Props'')]"
    by (simp add: emptyLinkedDocument_def instancingDocument_def plainNode_def)
  have h': "hd (doc_Nodes emptyLinkedDocument) = doc_Nodes emptyLinkedDocument ! 0"
    by (simp add: emptyLinkedDocument_def instancingDocument_def)
  from missing_resolver_panics [OF d e i x, where name = "''Props''" and collection = ?col
      and cloneName = "''Crate''" and rest = "[]" and opts = None and objects = "[0]"
      and obj = 0 and w = emptyWorld]
  have 1: "instanceCollection DefaultGLTFLoadOptions [(''Props'', ?col)] [0]
             (hd (doc_Nodes linkedDocument)) 0 emptyWorld
           = Panic (ExplicitPanic
       ''Error in instantiating linked element Crate as the Dependent Library Resolver function is nil.'')"
    by (simp add: DefaultGLTFLoadOptions_def h)
  from missing_resolver_panics [OF d' e' i' x', where name = "''Props''" and collection = ?nil
      and opts = None and objects = "[0]" and obj = 0 and w = emptyWorld]
  have 2: "instanceCollection DefaultGLTFLoadOptions [(''Props'', ?nil)] [0]
             (hd (doc_Nodes emptyLinkedDocument)) 0 emptyWorld = Ok emptyWorld"
    by (simp add: DefaultGLTFLoadOptions_def h')
  from 1 l 2 show ?thesis by simp
qed

text \<open>The claim as stated fails on a collection with a dependent-library path that lists
  no object: the loop body is never run and the import returns its library.\<close>

theorem empty_linked_collection_counterexample:
  "exporterSettings (exampleEnv emptyLinkedDocument) emptyLinkedDocument
     = Ok (True, [(''Props'', \<lparr>col_Objects = [], col_Offset = [0, 0, 0],
                                col_Path = ''//assets.blend''\<rparr>)]) \<and>
   gnode_Extras (hd (doc_Nodes emptyLinkedDocument))
     = IMap [(''t3dInstanceCollection__'', IString ''Props'')] \<and>
   DependentLibraryResolver DefaultGLTFLoadOptions = None \<and>
   (case LoadGLTFData (exampleEnv emptyLinkedDocument) [] None of
      Return (Some library) None \<Rightarrow> True
    | _ \<Rightarrow> False)"
  by code_simp

subsection \<open>Skin roots\<close>

lemma findSkinRoot_total:
  assumes "\<And>p q. p < length h \<Longrightarrow> boneStep h p q \<Longrightarrow> rank q < (rank p :: nat)"
    and "parentsInHeap h" and "x < length h"
  shows "\<exists>r. findSkinRoot h x = Some r \<and> atSkinRoot h x r"
  using assms(3)
proof (induction "rank x" arbitrary: x rule: less_induct)
  case less
  show ?case
  proof (cases "node_isBone (h ! x) \<and> node_parent (h ! x) \<noteq> None")
    case True
    then obtain q where q: "node_parent (h ! x) = Some q" by auto
    with True have s: "boneStep h x q" by (simp add: boneStep_def)
    from q assms(2) less.prems have ql: "q < length h" by (auto simp: parentsInHeap_def)
    from less.hyps [OF assms(1) [OF less.prems s] ql] obtain r where
      r: "findSkinRoot h q = Some r" "atSkinRoot h q r" by blast
    have "findSkinRoot h x = Some r"
      by (subst findSkinRoot.simps) (simp add: True q r)
    moreover have "atSkinRoot h x r"
      using r(2) s by (auto simp: atSkinRoot_def intro: converse_rtranclp_into_rtranclp)
    ultimately show ?thesis by blast
  next
    case False
    have "findSkinRoot h x = Some x"
      by (subst findSkinRoot.simps) (use False in auto)
    moreover have "atSkinRoot h x x" using False less.prems by (auto simp: atSkinRoot_def)
    ultimately show ?thesis by blast
  qed
qed

lemma atSkinRoot_fixed:
  assumes "atSkinRoot h j r"
  shows "findSkinRoot h r = Some r"
  by (subst findSkinRoot.simps) (use assms in \<open>auto simp: atSkinRoot_def\<close>)

lemma nth_updNode:
  "w_nodes (updNode a f w) ! b
   = (if b = a \<and> a < length (w_nodes w) then f (w_nodes w ! a) else w_nodes w ! b)"
  by (auto simp: updNode_def list_update_beyond)

lemma findSkinRoot_same:
  assumes "\<And>p q. p < length h \<Longrightarrow> boneStep h p q \<Longrightarrow> rank q < (rank p :: nat)"
    and "parentsInHeap h" and "x < length h"
    and "\<And>a. node_isBone (h' ! a) = node_isBone (h ! a) \<and>
             node_parent (h' ! a) = node_parent (h ! a)"
  shows "findSkinRoot h' x = findSkinRoot h x"
  using assms(3)
proof (induction "rank x" arbitrary: x rule: less_induct)
  case less
  show ?case
  proof (cases "node_isBone (h ! x) \<and> node_parent (h ! x) \<noteq> None")
    case True
    then obtain q where q: "node_parent (h ! x) = Some q" by auto
    with True have s: "boneStep h x q" by (simp add: boneStep_def)
    from q assms(2) less.prems have ql: "q < length h" by (auto simp: parentsInHeap_def)
    from less.hyps [OF assms(1) [OF less.prems s] ql]
    have "findSkinRoot h' q = findSkinRoot h q" .
    then show ?thesis
      by (subst findSkinRoot.simps, subst (2) findSkinRoot.simps) (simp add: assms(4) True q)
  next
    case False
    then show ?thesis
      by (subst findSkinRoot.simps, subst (2) findSkinRoot.simps) (auto simp: assms(4))
  qed
qed

lemma setSkinRoot_step:
  assumes rank: "\<And>p q. p < length (w_nodes w) \<Longrightarrow> boneStep (w_nodes w) p q
                  \<Longrightarrow> rank q < (rank p :: nat)"
    and wf: "parentsInHeap (w_nodes w)"
    and inv: "skinRootsInv w wk"
    and n: "n < length (w_nodes w)"
    and nn: "isSkinnedModel w n \<Longrightarrow>
               \<exists>j. node_SkinRoot (w_nodes w ! n) = Some j \<and> j < length (w_nodes w)"
  shows "\<exists>w'. setSkinRoot n wk = Ok w' \<and> skinRootsInv w w' \<and>
              (isSkinnedModel w n \<longrightarrow> rooted w w' n) \<and>
              (\<forall>a. rooted w wk a \<longrightarrow> rooted w w' a)"
proof (cases "isSkinnedModel w n")
  case False
  with inv have "setSkinRoot n wk = Ok wk"
    by (auto simp: setSkinRoot_def skinRootsInv_def sameBones_def isSkinnedModel_def)
  with inv False show ?thesis by simp
next
  case True
  from inv have sb: "sameBones w wk" by (simp add: skinRootsInv_def)
  from True sb have sk: "node_type (w_nodes wk ! n) = NodeTypeModel \<and> node_Skinned (w_nodes wk ! n)"
    by (simp add: isSkinnedModel_def sameBones_def)
  from nn [OF True] obtain j where
    j: "node_SkinRoot (w_nodes w ! n) = Some j" and jl: "j < length (w_nodes w)" by auto
  have "\<exists>x r. node_SkinRoot (w_nodes wk ! n) = Some x \<and> x < length (w_nodes w) \<and>
              findSkinRoot (w_nodes w) x = Some r \<and> atSkinRoot (w_nodes w) j r"
  proof -
    from inv have "node_SkinRoot (w_nodes wk ! n) = node_SkinRoot (w_nodes w ! n) \<or> rooted w wk n"
      by (simp add: skinRootsInv_def)
    then show ?thesis
    proof
      assume "node_SkinRoot (w_nodes wk ! n) = node_SkinRoot (w_nodes w ! n)"
      with j jl findSkinRoot_total [of "w_nodes w" rank j, OF rank wf jl] show ?thesis by auto
    next
      assume "rooted w wk n"
      with j obtain r where "node_SkinRoot (w_nodes wk ! n) = Some r" "atSkinRoot (w_nodes w) j r"
        by (auto simp: rooted_def)
      with atSkinRoot_fixed [OF this(2)] show ?thesis by (auto simp: atSkinRoot_def)
    qed
  qed
  then obtain x r where
    x: "node_SkinRoot (w_nodes wk ! n) = Some x" and xl: "x < length (w_nodes w)" and
    f: "findSkinRoot (w_nodes w) x = Some r" and
    a: "atSkinRoot (w_nodes w) j r"
    by blast
  have fk: "findSkinRoot (w_nodes wk) x = Some r"
    using findSkinRoot_same [of "w_nodes w" rank x "w_nodes wk", OF rank wf xl] sb f
    by (simp add: sameBones_def)
  let ?w' = "updNode n (\<lambda>m. m\<lparr>node_SkinRoot := Some r\<rparr>) wk"
  have ok: "setSkinRoot n wk = Ok ?w'"
    using sk x fk by (simp add: setSkinRoot_def deref_def)
  have len: "length (w_nodes wk) = length (w_nodes w)" using sb by (simp add: sameBones_def)
  have sb': "sameBones w ?w'"
    using sb by (auto simp: sameBones_def nth_updNode) (simp add: updNode_def)
  have rn: "rooted w ?w' n"
    using j a n len by (auto simp: rooted_def nth_updNode)
  have keep: "rooted w ?w' b" if "rooted w wk b" for b
  proof (cases "b = n")
    case True
    with rn show ?thesis by simp
  next
    case False
    with that show ?thesis by (simp add: rooted_def nth_updNode)
  qed
  have "node_SkinRoot (w_nodes ?w' ! b) = node_SkinRoot (w_nodes w ! b) \<or> rooted w ?w' b" for b
  proof (cases "b = n")
    case True
    with rn show ?thesis by simp
  next
    case False
    from inv have "node_SkinRoot (w_nodes wk ! b) = node_SkinRoot (w_nodes w ! b) \<or> rooted w wk b"
      by (simp add: skinRootsInv_def)
    with False keep show ?thesis by (auto simp: nth_updNode)
  qed
  with sb' have "skinRootsInv w ?w'" by (simp add: skinRootsInv_def)
  with ok rn keep show ?thesis by blast
qed

lemma setSkinRoots_fold:
  assumes rank: "\<And>p q. p < length (w_nodes w) \<Longrightarrow> boneStep (w_nodes w) p q
                  \<Longrightarrow> rank q < (rank p :: nat)"
    and wf: "parentsInHeap (w_nodes w)"
    and "skinRootsInv w wk"
    and "skinRootsSet w objects"
  shows "\<exists>w'. foldR setSkinRoot objects wk = Ok w' \<and> skinRootsInv w w' \<and>
              (\<forall>n\<in>set objects. isSkinnedModel w n \<longrightarrow> rooted w w' n) \<and>
              (\<forall>a. rooted w wk a \<longrightarrow> rooted w w' a)"
  using assms(3,4)
proof (induction objects arbitrary: wk)
  case Nil
  then show ?case by simp
next
  case (Cons n ns)
  from Cons.prems(2) have n: "n < length (w_nodes w)"
    and nn: "isSkinnedModel w n \<Longrightarrow>
               \<exists>j. node_SkinRoot (w_nodes w ! n) = Some j \<and> j < length (w_nodes w)"
    by (auto simp: skinRootsSet_def)
  from setSkinRoot_step [of w rank wk n, OF rank wf Cons.prems(1) n nn] obtain w1 where
    s: "setSkinRoot n wk = Ok w1" and i: "skinRootsInv w w1" and
    r: "isSkinnedModel w n \<longrightarrow> rooted w w1 n" and
    k: "\<forall>a. rooted w wk a \<longrightarrow> rooted w w1 a"
    by blast
  from Cons.prems(2) have "skinRootsSet w ns" by (simp add: skinRootsSet_def)
  from Cons.IH [OF i this] obtain w' where
    f: "foldR setSkinRoot ns w1 = Ok w'" and i': "skinRootsInv w w'" and
    r': "\<forall>n\<in>set ns. isSkinnedModel w n \<longrightarrow> rooted w w' n" and
    k': "\<forall>a. rooted w w1 a \<longrightarrow> rooted w w' a"
    by blast
  have "foldR setSkinRoot (n # ns) wk = Ok w'" using s f by simp
  with i' r r' k k' show ?case by auto
qed

lemma updNode_sameSkinRoots:
  assumes "\<And>n. node_SkinRoot (f n) = node_SkinRoot n"
  shows "sameSkinRoots w (updNode a f w)"
  using assms by (simp add: sameSkinRoots_def nth_updNode) (simp add: updNode_def)

lemma sameSkinRoots_trans:
  "sameSkinRoots w1 w2 \<Longrightarrow> sameSkinRoots w2 w3 \<Longrightarrow> sameSkinRoots w1 w3"
  by (simp add: sameSkinRoots_def)

lemma addJoint_fold:
  "foldR (addJoint objects model) js st = Ok st' \<Longrightarrow> model < length (w_nodes (fst st)) \<Longrightarrow>
   length (w_nodes (fst st')) = length (w_nodes (fst st)) \<and>
   node_SkinRoot (w_nodes (fst st') ! model)
     = (if js = [] then node_SkinRoot (w_nodes (fst st) ! model) else Some (objects ! last js))"
proof (induction js arbitrary: st)
  case Nil
  then show ?case by simp
next
  case (Cons b js)
  from Cons.prems(1) obtain st1 where
    a: "addJoint objects model b st = Ok st1" and
    f: "foldR (addJoint objects model) js st1 = Ok st'"
    by (auto simp: rbind_eq_Ok)
  from a Cons.prems(2) have
    l: "length (w_nodes (fst st1)) = length (w_nodes (fst st))" and
    r: "node_SkinRoot (w_nodes (fst st1) ! model) = Some (objects ! b)"
    by (auto simp: addJoint_def rbind_eq_Ok index_eq_Ok nth_updNode split: prod.splits)
       (simp add: updNode_def)
  from Cons.IH [OF f] l r Cons.prems(2) show ?case by auto
qed

lemma markBones_sameSkinRoots:
  assumes "markBones doc skin localBones w = Ok w'"
  shows "sameSkinRoots w w'"
proof -
  from assms obtain ms :: "real list list" where
    f: "foldR (\<lambda>matIndex w1. rbind (index localBones matIndex) (\<lambda>bone.
              Ok (updNode bone (\<lambda>n. n\<lparr>node_isBone := True\<rparr>) w1)))
       [0..<length ms] w = Ok w'"
    by (auto simp: markBones_def rbind_eq_Ok)
  show ?thesis
    by (rule foldR_invariant [OF f, where P = "sameSkinRoots w"])
       (auto simp: sameSkinRoots_def rbind_eq_Ok nth_updNode, simp add: updNode_def)
qed

lemma vertexBones_sameSkinRoots:
  assumes "vertexBones meshes allBones model w = Ok w'"
  shows "sameSkinRoots w w'"
proof -
  from assms obtain mesh where
    f: "foldR (\<lambda>boneIndices w1.
              rbind (foldR (\<lambda>boneID bs. rbind (index allBones boneID) (\<lambda>bone.
                              Ok (bs @ [bone]))) boneIndices []) (\<lambda>bs.
              Ok (updNode model (\<lambda>n. n\<lparr>node_bones := node_bones n @ [bs]\<rparr>) w1)))
       (VertexBones mesh) w = Ok w'"
    by (auto simp: vertexBones_def rbind_eq_Ok)
  show ?thesis
    by (rule foldR_invariant [OF f, where P = "sameSkinRoots w"])
       (auto simp: sameSkinRoots_def rbind_eq_Ok nth_updNode, simp add: updNode_def)
qed

lemma setUpSkin_SkinRoot:
  assumes "setUpSkin doc meshes objects i si st = Ok st'"
    and "objects ! i < length (w_nodes (fst st))"
    and "skin_Joints (doc_Skins doc ! si) \<noteq> []"
  shows "node_SkinRoot (w_nodes (fst st') ! (objects ! i))
         = Some (objects ! last (skin_Joints (doc_Skins doc ! si)))"
proof -
  let ?model = "objects ! i"
  from assms(1) obtain w1 allBones localBones w2 where
    j: "foldR (addJoint objects ?model) (skin_Joints (doc_Skins doc ! si))
          (updNode ?model (\<lambda>n. n\<lparr>node_Skinned := True\<rparr>) (fst st), snd st, [])
        = Ok (w1, allBones, localBones)" and
    m: "markBones doc (doc_Skins doc ! si) localBones w1 = Ok w2" and
    v: "vertexBones meshes allBones ?model w2 = Ok (fst st')"
    by (auto simp: setUpSkin_def rbind_eq_Ok index_eq_Ok)
  from addJoint_fold [OF j] assms(2,3)
  have "node_SkinRoot (w_nodes w1 ! ?model)
        = Some (objects ! last (skin_Joints (doc_Skins doc ! si)))"
    by (simp add: updNode_def)
  with markBones_sameSkinRoots [OF m] vertexBones_sameSkinRoots [OF v] show ?thesis
    by (simp add: sameSkinRoots_def)
qed

text \<open>
  C4. The claim: the \<open>SkinRoot\<close> of a skinned Model is the node reached by walking up
  from a joint while the current node is a bone, and is never a bone itself. The skin
  pass leaves \<open>SkinRoot\<close> at the last joint that the skin lists (line 872), and the walk
  (lines 1027-1029) also stops at a node without parent: on a heap whose chains of
  parents are finite, the loop over the objects returns, and the \<open>SkinRoot\<close> of every
  skinned Model is then the node reached from that joint by steps from a bone to its
  parent, a node that is not a bone or has no parent.
\<close>

theorem skin_root_walk:
  "(setUpSkin doc meshes objects i si st = Ok st' \<and>
    objects ! i < length (w_nodes (fst st)) \<and> skin_Joints (doc_Skins doc ! si) \<noteq> [] \<longrightarrow>
      node_SkinRoot (w_nodes (fst st') ! (objects ! i))
        = Some (objects ! last (skin_Joints (doc_Skins doc ! si)))) \<and>
   ((\<forall>p q. p < length (w_nodes w) \<and> boneStep (w_nodes w) p q \<longrightarrow> rank q < (rank p :: nat)) \<and>
    parentsInHeap (w_nodes w) \<and> skinRootsSet w objects \<longrightarrow>
      (\<exists>w'. foldR setSkinRoot objects w = Ok w' \<and>
         (\<forall>n\<in>set objects. isSkinnedModel w n \<longrightarrow>
            (\<exists>j r. node_SkinRoot (w_nodes w ! n) = Some j \<and>
                   node_SkinRoot (w_nodes w' ! n) = Some r \<and>
                   (boneStep (w_nodes w))\<^sup>*\<^sup>* j r \<and>
                   (\<not> node_isBone (w_nodes w' ! r) \<or> node_parent (w_nodes w' ! r) = None)))))"
proof (intro conjI impI)
  assume "setUpSkin doc meshes objects i si st = Ok st' \<and>
    objects ! i < length (w_nodes (fst st)) \<and> skin_Joints (doc_Skins doc ! si) \<noteq> []"
  then show "node_SkinRoot (w_nodes (fst st') ! (objects ! i))
        = Some (objects ! last (skin_Joints (doc_Skins doc ! si)))"
    using setUpSkin_SkinRoot by blast
next
  assume a: "(\<forall>p q. p < length (w_nodes w) \<and> boneStep (w_nodes w) p q \<longrightarrow> rank q < rank p) \<and>
    parentsInHeap (w_nodes w) \<and> skinRootsSet w objects"
  then have rk: "\<And>p q. p < length (w_nodes w) \<Longrightarrow> boneStep (w_nodes w) p q \<Longrightarrow> rank q < rank p"
    and wf: "parentsInHeap (w_nodes w)" and ss: "skinRootsSet w objects"
    by blast+
  have "skinRootsInv w w" by (simp add: skinRootsInv_def sameBones_def)
  from setSkinRoots_fold [of w rank w objects, OF rk wf this ss] obtain w' where
    f: "foldR setSkinRoot objects w = Ok w'" and i: "skinRootsInv w w'" and
    r: "\<forall>n\<in>set objects. isSkinnedModel w n \<longrightarrow> rooted w w' n"
    by blast
  from i have "node_isBone (w_nodes w' ! a) = node_isBone (w_nodes w ! a) \<and>
               node_parent (w_nodes w' ! a) = node_parent (w_nodes w ! a)" for a
    by (simp add: skinRootsInv_def sameBones_def)
  with f r show "\<exists>w'. foldR setSkinRoot objects w = Ok w' \<and>
         (\<forall>n\<in>set objects. isSkinnedModel w n \<longrightarrow>
            (\<exists>j r. node_SkinRoot (w_nodes w ! n) = Some j \<and>
                   node_SkinRoot (w_nodes w' ! n) = Some r \<and>
                   (boneStep (w_nodes w))\<^sup>*\<^sup>* j r \<and>
                   (\<not> node_isBone (w_nodes w' ! r) \<or> node_parent (w_nodes w' ! r) = None)))"
    by (auto simp: rooted_def atSkinRoot_def)
qed

theorem skin_root_walk_witness:
  "(case foldR (loadMesh armatureDocument []) (doc_Meshes armatureDocument) [] of
      Ok meshes \<Rightarrow>
        (case foldR (createNode armatureDocument meshes) (doc_Nodes armatureDocument)
                (emptyWorld, []) of
           Ok st1 \<Rightarrow>
             (case setUpSkin armatureDocument meshes (snd st1) 1 0 (fst st1, []) of
                Ok st' \<Rightarrow> node_SkinRoot (w_nodes (fst st') ! 1) = Some 0
              | _ \<Rightarrow> False) \<and>
             (case foldR (skinAndParent armatureDocument meshes (snd st1))
                     (enumerate 0 (doc_Nodes armatureDocument)) (fst st1, []) of
                Ok st2 \<Rightarrow> fst st2 = armatureWorld \<and> snd st1 = [0, 1, 2]
              | _ \<Rightarrow> False)
         | _ \<Rightarrow> False)
    | _ \<Rightarrow> False) \<and>
   (case foldR setSkinRoot [0, 1, 2] armatureWorld of
      Ok w' \<Rightarrow> node_SkinRoot (w_nodes w' ! 1) = Some 2 \<and> \<not> node_isBone (w_nodes w' ! 2)
    | _ \<Rightarrow> False)"
proof -
  let ?D = armatureDocument
  have "case foldR (loadMesh ?D []) (doc_Meshes ?D) [] of
      Ok meshes \<Rightarrow>
        (case foldR (createNode ?D meshes) (doc_Nodes ?D) (emptyWorld, []) of
           Ok st1 \<Rightarrow>
             (case setUpSkin ?D meshes (snd st1) 1 0 (fst st1, []) of
                Ok st' \<Rightarrow> snd st1 = [0, 1, 2] \<and> length (w_nodes (fst st1)) = 3
              | _ \<Rightarrow> False) \<and>
             (case foldR (skinAndParent ?D meshes (snd st1))
                     (enumerate 0 (doc_Nodes ?D)) (fst st1, []) of
                Ok st2 \<Rightarrow> fst st2 = armatureWorld \<and> snd st1 = [0, 1, 2]
              | _ \<Rightarrow> False)
         | _ \<Rightarrow> False)
    | _ \<Rightarrow> False"
    by code_simp
  then obtain meshes st1 st' st2 where
    m: "foldR (loadMesh ?D []) (doc_Meshes ?D) [] = Ok meshes" and
    c: "foldR (createNode ?D meshes) (doc_Nodes ?D) (emptyWorld, []) = Ok st1" and
    s: "setUpSkin ?D meshes (snd st1) 1 0 (fst st1, []) = Ok st'" and
    o: "snd st1 = [0, 1, 2]" "length (w_nodes (fst st1)) = 3" and
    p: "foldR (skinAndParent ?D meshes (snd st1)) (enumerate 0 (doc_Nodes ?D)) (fst st1, [])
        = Ok st2" and
    a: "fst st2 = armatureWorld"
    by (auto split: res.splits)
  have j: "skin_Joints (doc_Skins ?D ! 0) = [0]"
    by (simp add: armatureDocument_def skinnedDocument_def emptyDocument_def)
  have h: "w_nodes armatureWorld
      = [(newNode NodeTypeNode ''Bone'')\<lparr>node_parent := Some 2, node_isBone := True\<rparr>,
         (newNode NodeTypeModel ''Body'')
           \<lparr>node_Mesh := Some ''Triangle'', node_Skinned := True,
            node_SkinRoot := Some 0, node_bones := [[], [], []]\<rparr>,
         (newNode NodeTypeNode ''Armature'')\<lparr>node_children := [0]\<rparr>]"
    by (simp add: armatureWorld_def emptyWorld_def)
  have rk: "\<forall>p q. p < length (w_nodes armatureWorld) \<and> boneStep (w_nodes armatureWorld) p q
              \<longrightarrow> (\<lambda>a. 3 - a) q < (\<lambda>a. 3 - a) p"
    by (auto simp: h boneStep_def newNode_def less_Suc_eq)
  have wf: "parentsInHeap (w_nodes armatureWorld)"
    by (auto simp: parentsInHeap_def h newNode_def less_Suc_eq)
  have ss: "skinRootsSet armatureWorld [0, 1, 2]"
    by (simp add: skinRootsSet_def isSkinnedModel_def h newNode_def)
  have sk: "isSkinnedModel armatureWorld 1"
    by (simp add: isSkinnedModel_def h newNode_def)
  note T = skin_root_walk [where doc = ?D and meshes = meshes and objects = "[0, 1, 2]"
      and i = 1 and si = 0 and st = "(fst st1, [])" and st' = st' and w = armatureWorld
      and rank = "\<lambda>a. 3 - a"]
  from T s o j have 1: "node_SkinRoot (w_nodes (fst st') ! 1) = Some 0" by simp
  from T rk wf ss obtain w' where
    f: "foldR setSkinRoot [0, 1, 2] armatureWorld = Ok w'" and
    r: "\<forall>n\<in>set [0, 1, 2]. isSkinnedModel armatureWorld n \<longrightarrow>
            (\<exists>j r. node_SkinRoot (w_nodes armatureWorld ! n) = Some j \<and>
                   node_SkinRoot (w_nodes w' ! n) = Some r \<and>
                   (boneStep (w_nodes armatureWorld))\<^sup>*\<^sup>* j r \<and>
                   (\<not> node_isBone (w_nodes w' ! r) \<or> node_parent (w_nodes w' ! r) = None))"
    by blast
  have "case foldR setSkinRoot [0, 1, 2] armatureWorld of
      Ok w' \<Rightarrow> node_SkinRoot (w_nodes w' ! 1) = Some 2 \<and> \<not> node_isBone (w_nodes w' ! 2)
    | _ \<Rightarrow> False"
    by code_simp
  with f have 2: "node_SkinRoot (w_nodes w' ! 1) = Some 2 \<and> \<not> node_isBone (w_nodes w' ! 2)"
    by simp
  show ?thesis
    apply (simp only: m c res.case)
    apply (simp only: s p f res.case)
    apply (insert 1 2, simp add: a o)
    done
qed

text \<open>The claim as stated fails on a skin whose joint has no parent when skin roots are
  set (it is a root of the scene, to which it is attached afterwards): the \<open>SkinRoot\<close> is
  the joint, a bone.\<close>

theorem parentless_bone_counterexample:
  "case LoadGLTFData (exampleEnv skinnedDocument) [] None of
     Return (Some library) None \<Rightarrow>
       node_type (w_nodes (lib_world library) ! 1) = NodeTypeModel \<and>
       node_Skinned (w_nodes (lib_world library) ! 1) \<and>
       node_SkinRoot (w_nodes (lib_world library) ! 1) = Some 0 \<and>
       node_isBone (w_nodes (lib_world library) ! 0)
   | _ \<Rightarrow> False"
  by code_simp

subsection \<open>Cloned scenes\<close>

lemma updNode_sameScenes: "sameScenes w (updNode a f w)"
  by (simp add: sameScenes_def updNode_def)

lemma sameScenes_trans: "sameScenes w1 w2 \<Longrightarrow> sameScenes w2 w3 \<Longrightarrow> sameScenes w1 w3"
  by (simp add: sameScenes_def)

lemma AddChildren_sameScenes:
  assumes "AddChildren p c w = Ok w'"
  shows "sameScenes w w'"
proof -
  from assms have "w' = w \<or> w' = setParent p c (removeChild c w)"
    by (auto simp: AddChildren_def split: option.splits bool.splits)
  then show ?thesis
    by (auto simp: sameScenes_def setParent_def removeChild_def updNode_def split: option.splits)
qed

lemma copyTree_sameScenes:
  "copyTree k src a (w, m) = Ok (a', w', m') \<Longrightarrow> sameScenes w w'"
proof (induction k arbitrary: a w m a' w' m')
  case 0
  then show ?case by simp
next
  case (Suc k)
  let ?new = "allocNode ((src ! a)\<lparr>node_parent := None, node_children := []\<rparr>) w"
  from Suc.prems obtain r where
    f: "foldR (\<lambda>c (w1, m1).
                   rbind (copyTree k src c (w1, m1)) (\<lambda>(c', w2, m2).
                   rbind (AddChildren (fst ?new) c' w2) (\<lambda>w3. Ok (w3, m2))))
                (node_children (src ! a)) (snd ?new, m @ [(a, fst ?new)]) = Ok r" and
    r: "w' = fst r"
    by (auto simp: rbind_eq_Ok Let_def split: if_splits)
  have "sameScenes w (fst r)"
  proof (rule foldR_invariant [OF f, where P = "\<lambda>x. sameScenes w (fst x)"])
    show "sameScenes w (fst (snd ?new, m @ [(a, fst ?new)]))"
      by (simp add: sameScenes_def allocNode_def)
  next
    fix c x y
    assume p: "sameScenes w (fst x)" and
      s: "(case x of (w1, m1) \<Rightarrow>
             rbind (copyTree k src c (w1, m1)) (\<lambda>(c', w2, m2).
             rbind (AddChildren (fst ?new) c' w2) (\<lambda>w3. Ok (w3, m2)))) = Ok y"
    from s obtain c' w2 m2 where
      c: "copyTree k src c (fst x, snd x) = Ok (c', w2, m2)" and
      a: "AddChildren (fst ?new) c' w2 = Ok (fst y)"
      by (cases x) (auto simp: rbind_eq_Ok)
    from Suc.IH [OF c] AddChildren_sameScenes [OF a] p show "sameScenes w (fst y)"
      by (auto intro: sameScenes_trans)
  qed
  with r show ?case by simp
qed

lemma Clone_sameScenes:
  assumes "Clone src a w = Ok (a', w')"
  shows "sameScenes w w'"
proof -
  from assms obtain w1 m where
    c: "copyTree (length src) src a (w, []) = Ok (a', w1, m)" and
    w': "w' = fold (\<lambda>b. updNode b (remapNode m)) (map snd m) w1"
    by (auto simp: Clone_def rbind_eq_Ok)
  have "sameScenes w1 (fold (\<lambda>b. updNode b (remapNode m)) bs w1)" for bs
    by (induction bs rule: rev_induct)
       (auto simp: sameScenes_def updNode_def)
  with copyTree_sameScenes [OF c] w' show ?thesis
    by (auto intro: sameScenes_trans)
qed

lemma map_of_fold_update:
  "distinct (map fst xs) \<Longrightarrow>
   map_of (fold (\<lambda>nm ms. AList.update (fst nm) (snd nm) ms) xs acc) k
   = (case map_of xs k of Some v \<Rightarrow> Some v | None \<Rightarrow> map_of acc k)"
proof (induction xs arbitrary: acc)
  case Nil
  then show ?case by simp
next
  case (Cons x xs)
  then have d: "distinct (map fst xs)" and n: "fst x \<notin> fst ` set xs" by auto
  from n have "map_of xs (fst x) = None" by (simp add: map_of_eq_None_iff)
  with Cons.IH [OF d, of "AList.update (fst x) (snd x) acc"] show ?case
    by (cases x) (auto simp: update_conv' split: option.splits)
qed


lemma Scene_Clone_result:
  assumes c: "Scene_Clone scene w = Ok (newScene, w')"
    and v: "scene_FogRange (w_scenes w ! scene) < length (w_slices w)"
  shows "scene < length (w_scenes w)" and "newScene = length (w_scenes w)"
    and "\<exists>r. w_scenes w' = w_scenes w @
           [\<lparr>scene_Name = scene_Name (w_scenes w ! scene), scene_Root = Some r,
             scene_Meshes = fold (\<lambda>nm ms. AList.update (fst nm) (snd nm) ms)
                              (scene_Meshes (w_scenes w ! scene)) [],
             scene_FogColor = Color_Clone (scene_FogColor (w_scenes w ! scene)),
             scene_FogMode = scene_FogMode (w_scenes w ! scene),
             scene_FogRange = length (w_slices w)\<rparr>]"
    and "w_slices w' = w_slices w @ [take 2 (fogRangeOf w scene)]"
    and "2 \<le> length (fogRangeOf w scene)"
proof -
  from c show s: "scene < length (w_scenes w)"
    by (auto simp: Scene_Clone_def split: if_splits)
  let ?S = "w_scenes w ! scene"
  let ?N = "\<lparr>scene_Name = scene_Name ?S, scene_Root = Some (length (w_nodes w)),
             scene_Meshes = [], scene_FogColor = NewColor 0 0 0 0, scene_FogMode = FogOff,
             scene_FogRange = length (w_slices w)\<rparr>"
  let ?w1 = "\<lparr>w_nodes = w_nodes w @ [newNode NodeTypeNode ''root''],
              w_scenes = w_scenes w @ [?N], w_slices = w_slices w @ [[0, 1]]\<rparr>"
  have n: "NewScene (scene_Name ?S) w = (length (w_scenes w), ?w1)"
    by (simp add: NewScene_def allocNode_def allocSlice_def allocScene_def)
  let ?wm = "copyMeshes scene (length (w_scenes w)) ?w1"
  from c s n obtain r r' w2 w3 where
    new: "newScene = length (w_scenes w)" and
    cl: "Clone (w_nodes ?wm) r ?wm = Ok (r', w2)" and
    f0: "copyFogRange scene (length (w_scenes w)) 0
           (updScene (length (w_scenes w))
              (\<lambda>s. s\<lparr>scene_Root := Some r',
                     scene_FogColor := Color_Clone (scene_FogColor (w_scenes w2 ! scene)),
                     scene_FogMode := scene_FogMode (w_scenes w2 ! scene)\<rparr>) w2) = Ok w3" and
    f1: "copyFogRange scene (length (w_scenes w)) 1 w3 = Ok w'"
    by (auto simp: Scene_Clone_def rbind_eq_Ok split: if_splits)
  from new show "newScene = length (w_scenes w)" .
  let ?M = "fold (\<lambda>nm ms. AList.update (fst nm) (snd nm) ms) (scene_Meshes ?S) []"
  have wm: "w_scenes ?wm = w_scenes w @ [?N\<lparr>scene_Meshes := ?M\<rparr>]"
       "w_slices ?wm = w_slices w @ [[0, 1]]"
    using s by (simp_all add: copyMeshes_def updScene_def nth_append)
  from Clone_sameScenes [OF cl] wm have w2:
    "w_scenes w2 = w_scenes w @ [?N\<lparr>scene_Meshes := ?M\<rparr>]"
    "w_slices w2 = w_slices w @ [[0, 1]]"
    by (simp_all add: sameScenes_def)
  let ?C = "\<lparr>scene_Name = scene_Name ?S, scene_Root = Some r',
             scene_Meshes = ?M, scene_FogColor = Color_Clone (scene_FogColor ?S),
             scene_FogMode = scene_FogMode ?S, scene_FogRange = length (w_slices w)\<rparr>"
  let ?w2' = "updScene (length (w_scenes w))
              (\<lambda>s. s\<lparr>scene_Root := Some r',
                     scene_FogColor := Color_Clone (scene_FogColor (w_scenes w2 ! scene)),
                     scene_FogMode := scene_FogMode (w_scenes w2 ! scene)\<rparr>) w2"
  have w2': "w_scenes ?w2' = w_scenes w @ [?C]" "w_slices ?w2' = w_slices w @ [[0, 1]]"
    using s w2 by (simp_all add: updScene_def nth_append)
  have fr2: "fogRangeOf ?w2' scene = fogRangeOf w scene"
    using s v w2' by (simp add: fogRangeOf_def nth_append)
  from f0 fr2 have l0: "0 < length (fogRangeOf w scene)"
    by (auto simp: copyFogRange_def rbind_eq_Ok index_def split: if_splits)
  from f0 fr2 w2' have w3:
    "w_scenes w3 = w_scenes w @ [?C]"
    "w_slices w3 = w_slices w @ [[fogRangeOf w scene ! 0, 1]]"
    by (auto simp: copyFogRange_def rbind_eq_Ok index_def setFogRange_def nth_append
             split: if_splits)
  have fr3: "fogRangeOf w3 scene = fogRangeOf w scene"
    using s v w3 by (simp add: fogRangeOf_def nth_append)
  from f1 fr3 have l1: "1 < length (fogRangeOf w scene)"
    by (auto simp: copyFogRange_def rbind_eq_Ok index_def split: if_splits)
  then show "2 \<le> length (fogRangeOf w scene)" by simp
  from f1 fr3 w3 have w':
    "w_scenes w' = w_scenes w @ [?C]"
    "w_slices w' = w_slices w @ [[fogRangeOf w scene ! 0, fogRangeOf w scene ! 1]]"
    by (auto simp: copyFogRange_def rbind_eq_Ok index_def setFogRange_def nth_append
             split: if_splits)
  from w'(1) show "\<exists>r. w_scenes w' = w_scenes w @
           [\<lparr>scene_Name = scene_Name (w_scenes w ! scene), scene_Root = Some r,
             scene_Meshes = fold (\<lambda>nm ms. AList.update (fst nm) (snd nm) ms)
                              (scene_Meshes (w_scenes w ! scene)) [],
             scene_FogColor = Color_Clone (scene_FogColor (w_scenes w ! scene)),
             scene_FogMode = scene_FogMode (w_scenes w ! scene),
             scene_FogRange = length (w_slices w)\<rparr>]"
    by blast
  have "take 2 (fogRangeOf w scene) = [fogRangeOf w scene ! 0, fogRangeOf w scene ! 1]"
    using l1 by (cases "fogRangeOf w scene"; cases "tl (fogRangeOf w scene)") auto
  with w'(2) show "w_slices w' = w_slices w @ [take 2 (fogRangeOf w scene)]" by simp
qed

lemma applyFogWrite_frame:
  assumes "applyFogWrite a u w = Ok w'" and "separate w a b"
  shows "separate w' a b \<and> environmentOf w' b = environmentOf w b
         \<and> w_scenes w' ! b = w_scenes w ! b"
proof (cases "a < length (w_scenes w)")
  case True
  with assms show ?thesis
    by (cases u)
       (auto simp: applyFogWrite_def setFogRange_def setFogColorRGB_def updScene_def
                   separate_def environmentOf_def fogRangeOf_def split: if_splits)
next
  case False
  with assms show ?thesis
    by (cases u)
       (auto simp: applyFogWrite_def setFogRange_def setFogColorRGB_def updScene_def
                   separate_def environmentOf_def fogRangeOf_def list_update_beyond
             split: if_splits)
qed

lemma fogWrites_frame:
  "fogWrites a us w = Ok w' \<Longrightarrow> separate w a b \<Longrightarrow>
   environmentOf w' b = environmentOf w b \<and> w_scenes w' ! b = w_scenes w ! b"
proof (induction us arbitrary: w)
  case Nil
  then show ?case by (simp add: fogWrites_def)
next
  case (Cons u us)
  from Cons.prems(1) obtain w1 where
    1: "applyFogWrite a u w = Ok w1" and 2: "fogWrites a us w1 = Ok w'"
    by (auto simp: fogWrites_def rbind_eq_Ok)
  from applyFogWrite_frame [OF 1 Cons.prems(2)] Cons.IH [OF 2] show ?case by simp
qed

lemma NewScene_eq:
  "NewScene name w =
     (length (w_scenes w),
      \<lparr>w_nodes = w_nodes w @ [newNode NodeTypeNode ''root''],
       w_scenes = w_scenes w @
         [\<lparr>scene_Name = name, scene_Root = Some (length (w_nodes w)),
           scene_Meshes = [], scene_FogColor = NewColor 0 0 0 0, scene_FogMode = FogOff,
           scene_FogRange = length (w_slices w)\<rparr>],
       w_slices = w_slices w @ [[0, 1]]\<rparr>)"
  by (simp add: NewScene_def allocNode_def allocSlice_def allocScene_def)

lemma Scene_Clone_root:
  assumes "Scene_Clone scene w = Ok (newScene, w')"
  shows "\<exists>r r' w2. scene_Root (w_scenes w ! scene) = Some r \<and>
           Clone (w_nodes (beforeRootClone scene w)) r (beforeRootClone scene w) = Ok (r', w2)"
  using assms
  by (auto simp: Scene_Clone_def beforeRootClone_def NewScene_eq rbind_eq_Ok deref_eq_Ok
        nth_append split: if_splits)

lemma Scene_Clone_returns:
  assumes s: "scene < length (w_scenes w)"
    and r: "scene_Root (w_scenes w ! scene) = Some r"
    and cl: "Clone (w_nodes (beforeRootClone scene w)) r (beforeRootClone scene w) = Ok (r', w2)"
    and v: "scene_FogRange (w_scenes w ! scene) < length (w_slices w)"
    and l: "2 \<le> length (fogRangeOf w scene)"
  shows "\<exists>c w'. Scene_Clone scene w = Ok (c, w')"
proof -
  let ?S = "w_scenes w ! scene"
  let ?n = "length (w_scenes w)"
  let ?wm = "beforeRootClone scene w"
  let ?M = "fold (\<lambda>nm ms. AList.update (fst nm) (snd nm) ms) (scene_Meshes ?S) []"
  let ?N = "\<lparr>scene_Name = scene_Name ?S, scene_Root = Some (length (w_nodes w)),
             scene_Meshes = ?M, scene_FogColor = NewColor 0 0 0 0, scene_FogMode = FogOff,
             scene_FogRange = length (w_slices w)\<rparr>"
  have wm: "w_scenes ?wm = w_scenes w @ [?N]" "w_slices ?wm = w_slices w @ [[0, 1]]"
    using s by (simp_all add: beforeRootClone_def NewScene_eq copyMeshes_def updScene_def
        nth_append)
  from Clone_sameScenes [OF cl] wm have w2:
    "w_scenes w2 = w_scenes w @ [?N]" "w_slices w2 = w_slices w @ [[0, 1]]"
    by (simp_all add: sameScenes_def)
  let ?w2' = "updScene ?n
              (\<lambda>s. s\<lparr>scene_Root := Some r',
                     scene_FogColor := Color_Clone (scene_FogColor (w_scenes w2 ! scene)),
                     scene_FogMode := scene_FogMode (w_scenes w2 ! scene)\<rparr>) w2"
  let ?C = "\<lparr>scene_Name = scene_Name ?S, scene_Root = Some r',
             scene_Meshes = ?M, scene_FogColor = Color_Clone (scene_FogColor ?S),
             scene_FogMode = scene_FogMode ?S, scene_FogRange = length (w_slices w)\<rparr>"
  have w2': "w_scenes ?w2' = w_scenes w @ [?C]" "w_slices ?w2' = w_slices w @ [[0, 1]]"
    using s w2 by (simp_all add: updScene_def nth_append)
  have fr2: "fogRangeOf ?w2' scene = fogRangeOf w scene"
    using s v w2' by (simp add: fogRangeOf_def nth_append)
  from l have l0: "0 < length (fogRangeOf w scene)" and l1: "1 < length (fogRangeOf w scene)"
    by auto
  obtain w3 where
    f0: "copyFogRange scene ?n 0 ?w2' = Ok w3" and
    w3: "w_scenes w3 = w_scenes w @ [?C]"
        "w_slices w3 = w_slices w @ [[fogRangeOf w scene ! 0, 1]]"
    using l0 fr2 w2'
    by (simp add: copyFogRange_def index_def setFogRange_def nth_append)
  have fr3: "fogRangeOf w3 scene = fogRangeOf w scene"
    using s v w3 by (simp add: fogRangeOf_def nth_append)
  obtain w4 where f1: "copyFogRange scene ?n 1 w3 = Ok w4"
    using l1 fr3 w3
    by (simp add: copyFogRange_def index_def setFogRange_def nth_append)
  have d: "deref (scene_Root (w_scenes (snd (NewScene (scene_Name ?S) w)) ! scene)) = Ok r"
    using s r by (simp add: NewScene_eq nth_append deref_def)
  have "Scene_Clone scene w = Ok (?n, w4)"
    unfolding Scene_Clone_def
    using s d cl f0 f1
    by (simp add: NewScene_eq beforeRootClone_def)
  then show ?thesis by blast
qed

text \<open>
  C10. The claim: \<open>Scene.Clone\<close> returns a new scene with the same mesh references under
  the same names, and with the fog colour, fog mode and fog range of the original copied
  into storage of its own. \<open>Clone\<close> copies the elements 0 and 1 of the fog range (lines
  58-59) into the slice of two numbers that \<open>NewScene\<close> allocates. So, for a scene of the
  heap (its fog range is allocated, the names of its meshes are distinct): \<open>Clone\<close>
  returns exactly when the scene has a root whose \<open>Clone\<close> returns and its fog range has
  at least two numbers; the scene it returns is new, holds the same mesh references
  under the same names, the fog colour and fog mode of the original, and as fog range a
  new slice of the first two numbers of the original, which is the fog range of the
  original when that has two numbers; the original is left as it was, and no sequence of
  writes to the fog range or the fog colour of the clone changes the environment or the
  meshes of the original.
\<close>

theorem scene_clone_shares_meshes_copies_fog:
  assumes v: "scene_FogRange (w_scenes w ! scene) < length (w_slices w)"
    and d: "distinct (map fst (scene_Meshes (w_scenes w ! scene)))"
  shows "((\<exists>c w'. Scene_Clone scene w = Ok (c, w')) =
          (scene < length (w_scenes w) \<and> 2 \<le> length (fogRangeOf w scene) \<and>
           (\<exists>r r' w2. scene_Root (w_scenes w ! scene) = Some r \<and>
              Clone (w_nodes (beforeRootClone scene w)) r (beforeRootClone scene w)
              = Ok (r', w2)))) \<and>
         (\<forall>newScene w'. Scene_Clone scene w = Ok (newScene, w') \<longrightarrow>
            newScene \<noteq> scene \<and> newScene = length (w_scenes w) \<and>
            meshesOf w' newScene = meshesOf w scene \<and>
            environmentOf w' newScene
            = (scene_FogColor (w_scenes w ! scene), scene_FogMode (w_scenes w ! scene),
               take 2 (fogRangeOf w scene)) \<and>
            (length (fogRangeOf w scene) = 2 \<longrightarrow>
               environmentOf w' newScene = environmentOf w scene) \<and>
            environmentOf w' scene = environmentOf w scene \<and>
            w_scenes w' ! scene = w_scenes w ! scene \<and>
            (\<forall>us w''. fogWrites newScene us w' = Ok w'' \<longrightarrow>
               environmentOf w'' scene = environmentOf w scene \<and>
               meshesOf w'' scene = meshesOf w scene))"
proof (intro conjI allI impI)
  show "(\<exists>c w'. Scene_Clone scene w = Ok (c, w')) =
          (scene < length (w_scenes w) \<and> 2 \<le> length (fogRangeOf w scene) \<and>
           (\<exists>r r' w2. scene_Root (w_scenes w ! scene) = Some r \<and>
              Clone (w_nodes (beforeRootClone scene w)) r (beforeRootClone scene w)
              = Ok (r', w2)))"
  proof
    assume "\<exists>c w'. Scene_Clone scene w = Ok (c, w')"
    then obtain c w' where c: "Scene_Clone scene w = Ok (c, w')" by blast
    from Scene_Clone_result(1,5) [OF c v] Scene_Clone_root [OF c]
    show "scene < length (w_scenes w) \<and> 2 \<le> length (fogRangeOf w scene) \<and>
           (\<exists>r r' w2. scene_Root (w_scenes w ! scene) = Some r \<and>
              Clone (w_nodes (beforeRootClone scene w)) r (beforeRootClone scene w)
              = Ok (r', w2))"
      by blast
  next
    assume "scene < length (w_scenes w) \<and> 2 \<le> length (fogRangeOf w scene) \<and>
           (\<exists>r r' w2. scene_Root (w_scenes w ! scene) = Some r \<and>
              Clone (w_nodes (beforeRootClone scene w)) r (beforeRootClone scene w)
              = Ok (r', w2))"
    then show "\<exists>c w'. Scene_Clone scene w = Ok (c, w')"
      using Scene_Clone_returns [OF _ _ _ v] by blast
  qed
next
  fix newScene w'
  assume c: "Scene_Clone scene w = Ok (newScene, w')"
  note r = Scene_Clone_result [OF c v]
  from r(3) obtain root' where
    sc: "w_scenes w' = w_scenes w @
           [\<lparr>scene_Name = scene_Name (w_scenes w ! scene), scene_Root = Some root',
             scene_Meshes = fold (\<lambda>nm ms. AList.update (fst nm) (snd nm) ms)
                              (scene_Meshes (w_scenes w ! scene)) [],
             scene_FogColor = Color_Clone (scene_FogColor (w_scenes w ! scene)),
             scene_FogMode = scene_FogMode (w_scenes w ! scene),
             scene_FogRange = length (w_slices w)\<rparr>]"
    by blast
  from r(1,2) show 1: "newScene \<noteq> scene" by simp
  from r(2) show "newScene = length (w_scenes w)" .
  show "meshesOf w' newScene = meshesOf w scene"
    using r(2) sc map_of_fold_update [OF d, of "[]"]
    by (auto simp: meshesOf_def fun_eq_iff split: option.splits)
  show 3: "environmentOf w' newScene
         = (scene_FogColor (w_scenes w ! scene), scene_FogMode (w_scenes w ! scene),
            take 2 (fogRangeOf w scene))"
    using r(2,4) sc
    by (simp add: environmentOf_def fogRangeOf_def Color_Clone_def NewColor_def)
  show 4: "w_scenes w' ! scene = w_scenes w ! scene"
    using r(1) sc by (simp add: nth_append)
  show 5: "environmentOf w' scene = environmentOf w scene"
    using 4 r(4) v by (simp add: environmentOf_def fogRangeOf_def nth_append)
  have s: "separate w' newScene scene"
    using 1 4 r(2) sc v by (simp add: separate_def)
  show "environmentOf w'' scene = environmentOf w scene"
    if "fogWrites newScene us w' = Ok w''" for us w''
    using fogWrites_frame [OF that s] 5 by simp
  show "meshesOf w'' scene = meshesOf w scene"
    if "fogWrites newScene us w' = Ok w''" for us w''
    using fogWrites_frame [OF that s] 4 by (simp add: meshesOf_def)
  show "environmentOf w' newScene = environmentOf w scene"
    if "length (fogRangeOf w scene) = 2"
    using 3 that by (simp add: environmentOf_def)
qed

theorem scene_clone_shares_meshes_copies_fog_witness:
  "(case Scene_Clone 0 foggyWorld of
      Ok (c, w') \<Rightarrow>
        c = 1 \<and> meshesOf w' c = meshesOf foggyWorld 0 \<and>
        environmentOf w' c = (NewColor 1 0 0 1, FogAdd, [2, 5]) \<and>
        (case fogWrites c [SetFogRange 0 3, SetFogColor 0 1 0] w' of
           Ok w'' \<Rightarrow> environmentOf w'' c = (NewColor 0 1 0 1, FogAdd, [3, 5]) \<and>
                    environmentOf w'' 0 = (NewColor 1 0 0 1, FogAdd, [2, 5])
         | _ \<Rightarrow> False)
    | _ \<Rightarrow> False)"
proof -
  have v: "scene_FogRange (w_scenes foggyWorld ! 0) < length (w_slices foggyWorld)"
    by (simp add: foggyWorld_def)
  have d: "distinct (map fst (scene_Meshes (w_scenes foggyWorld ! 0)))"
    by (simp add: foggyWorld_def)
  note T = scene_clone_shares_meshes_copies_fog [OF v d]
  have "case Clone (w_nodes (beforeRootClone 0 foggyWorld)) 0 (beforeRootClone 0 foggyWorld) of
          Ok rw \<Rightarrow> True | _ \<Rightarrow> False"
    by code_simp
  then obtain r' w2 where
    "Clone (w_nodes (beforeRootClone 0 foggyWorld)) 0 (beforeRootClone 0 foggyWorld)
     = Ok (r', w2)"
    by (cases "Clone (w_nodes (beforeRootClone 0 foggyWorld)) 0 (beforeRootClone 0 foggyWorld)")
       auto
  moreover have "scene_Root (w_scenes foggyWorld ! 0) = Some 0"
    "0 < length (w_scenes foggyWorld)" "2 \<le> length (fogRangeOf foggyWorld 0)"
    by (simp_all add: foggyWorld_def fogRangeOf_def)
  ultimately obtain c w' where k: "Scene_Clone 0 foggyWorld = Ok (c, w')"
    using T by blast
  have "case fogWrites 1 [SetFogRange 0 3, SetFogColor 0 1 0]
               (case Scene_Clone 0 foggyWorld of Ok cw \<Rightarrow> snd cw | _ \<Rightarrow> foggyWorld) of
          Ok w'' \<Rightarrow> environmentOf w'' 1 = (NewColor 0 1 0 1, FogAdd, [3, 5])
        | _ \<Rightarrow> False"
    by code_simp
  then obtain w'' where
    u: "fogWrites 1 [SetFogRange 0 3, SetFogColor 0 1 0] w' = Ok w''" and
    e: "environmentOf w'' 1 = (NewColor 0 1 0 1, FogAdd, [3, 5])"
    by (auto simp: k split: res.splits)
  have f: "environmentOf foggyWorld 0 = (NewColor 1 0 0 1, FogAdd, [2, 5])"
    by (simp add: foggyWorld_def environmentOf_def fogRangeOf_def)
  have l: "length (w_scenes foggyWorld) = 1" "length (fogRangeOf foggyWorld 0) = 2"
    by (simp_all add: foggyWorld_def fogRangeOf_def)
  from T k have "c = length (w_scenes foggyWorld)" by blast
  with l have 1: "c = 1" by simp
  from T k have 2: "meshesOf w' c = meshesOf foggyWorld 0" by blast
  from T k l have "environmentOf w' c = environmentOf foggyWorld 0" by blast
  with f have 3: "environmentOf w' c = (NewColor 1 0 0 1, FogAdd, [2, 5])" by simp
  from u 1 have u': "fogWrites c [SetFogRange 0 3, SetFogColor 0 1 0] w' = Ok w''" by simp
  from T k u' have "environmentOf w'' 0 = environmentOf foggyWorld 0" by blast
  with f have 4: "environmentOf w'' 0 = (NewColor 1 0 0 1, FogAdd, [2, 5])" by simp
  from e 1 have e': "environmentOf w'' c = (NewColor 0 1 0 1, FogAdd, [3, 5])" by simp
  show ?thesis
    apply (simp only: k res.case prod.case)
    apply (simp only: u' res.case)
    apply (insert 1 2 3 4 e', simp)
    done
qed

text \<open>The claim as stated fails on a scene whose fog range has three numbers: the clone
  holds the first two. A scene whose fog range has one number has no clone.\<close>

theorem long_fog_range_counterexample:
  "(case Scene_Clone 0 longFogWorld of
      Ok (c, w') \<Rightarrow>
        environmentOf longFogWorld 0 = (NewColor 1 0 0 1, FogAdd, [2, 5, 9]) \<and>
        environmentOf w' c = (NewColor 1 0 0 1, FogAdd, [2, 5]) \<and>
        environmentOf w' c \<noteq> environmentOf longFogWorld 0
    | _ \<Rightarrow> False) \<and>
   Scene_Clone 0 shortFogWorld = Panic IndexOutOfRange"
  by code_simp

subsection \<open>World matrices\<close>

declare worldOf.simps [simp del]
declare WorldMatrix.simps [simp del]

lemma nodeAt_modify_other:
  "take (length n) k \<noteq> n \<Longrightarrow> nodeAt k (modify n f g) = nodeAt k g"
proof (induction n f g arbitrary: k rule: modify.induct)
  case (1 f g)
  then show ?case by simp
next
  case (2 i p f d cs)
  show ?case
  proof (cases k)
    case Nil
    then show ?thesis by (simp add: nodeAt_def)
  next
    case (Cons j q)
    show ?thesis
    proof (cases "i < length cs")
      case False
      then show ?thesis by simp
    next
      case True
      show ?thesis
      proof (cases "j = i")
        case False
        with True Cons show ?thesis by (simp add: nodeAt_def)
      next
        case e: True
        with 2(2) Cons have "take (length p) q \<noteq> p" by simp
        from 2(1) [OF True this] True Cons e show ?thesis by (simp add: nodeAt_def)
      qed
    qed
  qed
qed

lemma subtree_modify_at:
  "subtree n g = Some s \<Longrightarrow> subtree (n @ r) (modify n f g) = subtree r (f s)"
  by (induction n f g rule: modify.induct) (auto split: if_splits)

lemma modify_None: "subtree n g = None \<Longrightarrow> modify n f g = g"
  by (induction n f g rule: modify.induct) (auto split: if_splits)

lemma subtree_append:
  "subtree (n @ r) g = (case subtree n g of None \<Rightarrow> None | Some s \<Rightarrow> subtree r s)"
  by (induction n g rule: subtree.induct) auto

lemma subtree_store: "r \<noteq> [] \<Longrightarrow> subtree r (store m s) = subtree r s"
  by (cases r; cases s) (auto simp: store_def)

lemma nodeAt_store:
  "nodeAt k (modify n (store m) g)
   = (if k = n then map_option (\<lambda>d. d\<lparr>t_world := m, t_dirty := False\<rparr>) (nodeAt n g)
      else nodeAt k g)"
proof (cases "take (length n) k = n")
  case False
  then have "k \<noteq> n" by auto
  with nodeAt_modify_other [OF False] show ?thesis by simp
next
  case True
  then obtain r where k: "k = n @ r" by (metis append_take_drop_id)
  show ?thesis
  proof (cases "subtree n g")
    case None
    then show ?thesis by (simp add: modify_None nodeAt_def)
  next
    case (Some s)
    show ?thesis
    proof (cases "r = []")
      case True
      with k Some subtree_modify_at [OF Some, of "[]" "store m"] show ?thesis
        by (cases s) (simp add: nodeAt_def store_def)
    next
      case False
      with k Some subtree_modify_at [OF Some, of r "store m"] show ?thesis
        by (simp add: nodeAt_def subtree_store subtree_append)
    qed
  qed
qed

lemma transformOf_markDirty: "transformOf (markDirty g) = (transformOf g)\<lparr>t_dirty := True\<rparr>"
  by (cases g) simp

lemma nodeAt_markDirty:
  "nodeAt k (markDirty g) = map_option (\<lambda>d. d\<lparr>t_dirty := True\<rparr>) (nodeAt k g)"
  by (induction k g rule: subtree.induct) (auto simp: nodeAt_def transformOf_markDirty)

lemma nodeAt_writeLocal:
  "nodeAt k (modify n (writeLocal h) g)
   = (if take (length n) k = n
      then map_option (\<lambda>d. (if k = n then h d else d)\<lparr>t_dirty := True\<rparr>) (nodeAt k g)
      else nodeAt k g)"
proof (cases "take (length n) k = n")
  case False
  with nodeAt_modify_other [OF False] show ?thesis by simp
next
  case True
  then obtain r where k: "k = n @ r" by (metis append_take_drop_id)
  show ?thesis
  proof (cases "subtree n g")
    case None
    with k show ?thesis by (simp add: modify_None nodeAt_def subtree_append)
  next
    case (Some s)
    obtain d cs where s: "s = Graph d cs" by (cases s)
    have "nodeAt k (modify n (writeLocal h) g) = nodeAt r (writeLocal h s)"
      using k subtree_modify_at [OF Some, of r "writeLocal h"] by (simp add: nodeAt_def)
    also have "\<dots> = map_option (\<lambda>d. d\<lparr>t_dirty := True\<rparr>) (nodeAt r (Graph (h d) cs))"
      by (simp only: writeLocal_def s transformOf.simps childrenOf.simps nodeAt_markDirty)
    also have "\<dots> = map_option (\<lambda>d. (if k = n then h d else d)\<lparr>t_dirty := True\<rparr>) (nodeAt k g)"
      using k Some s by (cases r) (simp_all add: nodeAt_def subtree_append)
    finally show ?thesis using True by simp
  qed
qed

lemma worldOf_nodeAt:
  "worldOf M n g
   = (case nodeAt n g of
        None \<Rightarrow> None
      | Some d \<Rightarrow>
          if n = [] then Some (mx_Mult M (mx_Identity M) (LocalMatrix M d))
          else case worldOf M (butlast n) g of
                 None \<Rightarrow> None
               | Some pm \<Rightarrow> Some (mx_Mult M pm (LocalMatrix M d)))"
  by (subst worldOf.simps) (simp add: nodeAt_def split: option.splits)

lemma WorldMatrix_nodeAt:
  "nodeAt n g = Some d \<Longrightarrow>
   WorldMatrix M n g
   = (if t_dirty d
      then (if n = []
            then Some (mx_Mult M (mx_Identity M) (LocalMatrix M d),
                       modify n (store (mx_Mult M (mx_Identity M) (LocalMatrix M d))) g)
            else case WorldMatrix M (butlast n) g of
                   None \<Rightarrow> None
                 | Some (pm, g1) \<Rightarrow>
                     Some (mx_Mult M pm (LocalMatrix M d),
                           modify n (store (mx_Mult M pm (LocalMatrix M d))) g1))
      else Some (t_world d, g))"
  by (subst WorldMatrix.simps) (auto simp: nodeAt_def split: option.splits)

lemma worldOf_step:
  assumes "map_option (LocalMatrix M) (nodeAt k g') = map_option (LocalMatrix M) (nodeAt k g)"
    and "k \<noteq> [] \<Longrightarrow> worldOf M (butlast k) g' = worldOf M (butlast k) g"
  shows "worldOf M k g' = worldOf M k g"
  using assms
  by (subst (1 2) worldOf_nodeAt)
     (cases "nodeAt k g'"; cases "nodeAt k g"; auto split: option.splits)

lemma worldOf_cong:
  "(\<And>j. j \<le> length k \<Longrightarrow>
      map_option (LocalMatrix M) (nodeAt (take j k) g')
      = map_option (LocalMatrix M) (nodeAt (take j k) g)) \<Longrightarrow>
   worldOf M k g' = worldOf M k g"
proof (induction k rule: rev_induct)
  case Nil
  from Nil [of 0] have "map_option (LocalMatrix M) (nodeAt [] g')
      = map_option (LocalMatrix M) (nodeAt [] g)" by simp
  then show ?case by (rule worldOf_step) simp
next
  case (snoc x q)
  have 1: "worldOf M q g' = worldOf M q g"
  proof (rule snoc.IH)
    fix j assume "j \<le> length q"
    with snoc.prems [of j] show "map_option (LocalMatrix M) (nodeAt (take j q) g')
      = map_option (LocalMatrix M) (nodeAt (take j q) g)" by simp
  qed
  from snoc.prems [of "length (q @ [x])"]
  have 2: "map_option (LocalMatrix M) (nodeAt (q @ [x]) g')
      = map_option (LocalMatrix M) (nodeAt (q @ [x]) g)" by simp
  show ?case by (rule worldOf_step) (simp_all add: 1 2)
qed

lemma sameLocals_worldOf: "sameLocals M g g' \<Longrightarrow> worldOf M k g' = worldOf M k g"
  by (rule worldOf_cong) (simp add: sameLocals_def)

lemma sameLocals_refl: "sameLocals M g g"
  by (simp add: sameLocals_def)

lemma sameLocals_trans: "sameLocals M g g1 \<Longrightarrow> sameLocals M g1 g2 \<Longrightarrow> sameLocals M g g2"
  by (simp add: sameLocals_def)

lemma sameLocals_store: "sameLocals M g (modify n (store m) g)"
  by (auto simp: sameLocals_def nodeAt_store LocalMatrix_def option.map_comp o_def
           intro!: option.map_cong)

lemma coherent_nodeAt:
  "coherent M g =
     (\<forall>n d. nodeAt n g = Some d \<and> \<not> t_dirty d \<longrightarrow>
        worldOf M n g = Some (t_world d) \<and>
        (n \<noteq> [] \<longrightarrow> (\<exists>pd. nodeAt (butlast n) g = Some pd \<and> \<not> t_dirty pd)))"
  unfolding coherent_def nodeAt_def map_option_eq_Some
  apply (rule iffI)
   apply (intro allI impI)
   apply (elim conjE exE)
   apply (drule_tac x = n in spec)
   apply (drule_tac x = z in spec)
   apply auto[1]
  apply (intro allI impI)
  apply (drule_tac x = n in spec)
  apply (drule_tac x = "transformOf node" in spec)
  apply auto[1]
  done

lemma nodeAt_parent:
  assumes "nodeAt n g = Some d" and "n \<noteq> []"
  shows "\<exists>pd. nodeAt (butlast n) g = Some pd"
proof -
  from assms(2) have "n = butlast n @ [last n]" by simp
  with assms(1) subtree_append [of "butlast n" "[last n]" g] show ?thesis
    by (auto simp: nodeAt_def split: option.splits)
qed

lemma store_coherent:
  assumes c: "coherent M g"
    and p: "n \<noteq> [] \<Longrightarrow> \<exists>pd. nodeAt (butlast n) g = Some pd \<and> \<not> t_dirty pd"
    and m: "worldOf M n g = Some m"
  shows "coherent M (modify n (store m) g)"
  unfolding coherent_nodeAt
proof (intro allI impI)
  let ?g = "modify n (store m) g"
  fix k d
  assume a: "nodeAt k ?g = Some d \<and> \<not> t_dirty d"
  have w: "worldOf M j ?g = worldOf M j g" for j
    by (rule sameLocals_worldOf [OF sameLocals_store])
  have par: "\<exists>pd. nodeAt (butlast k) ?g = Some pd \<and> \<not> t_dirty pd"
    if "\<exists>pd. nodeAt (butlast k) g = Some pd \<and> \<not> t_dirty pd"
    using that by (auto simp: nodeAt_store)
  show "worldOf M k ?g = Some (t_world d) \<and>
        (k \<noteq> [] \<longrightarrow> (\<exists>pd. nodeAt (butlast k) ?g = Some pd \<and> \<not> t_dirty pd))"
  proof (cases "k = n")
    case True
    with a have "t_world d = m" by (auto simp: nodeAt_store)
    with True m w p par show ?thesis by auto
  next
    case False
    with a have "nodeAt k g = Some d \<and> \<not> t_dirty d" by (simp add: nodeAt_store)
    with c have "worldOf M k g = Some (t_world d)"
      "k \<noteq> [] \<longrightarrow> (\<exists>pd. nodeAt (butlast k) g = Some pd \<and> \<not> t_dirty pd)"
      unfolding coherent_nodeAt by blast+
    with w par show ?thesis by auto
  qed
qed

lemma WorldMatrix_coherent:
  assumes c: "coherent M g"
  shows "nodeAt n g = Some d \<Longrightarrow>
         \<exists>m g1. WorldMatrix M n g = Some (m, g1) \<and> worldOf M n g = Some m \<and>
                coherent M g1 \<and> sameLocals M g g1 \<and>
                (\<exists>d1. nodeAt n g1 = Some d1 \<and> \<not> t_dirty d1)"
proof (induction "length n" arbitrary: n d)
  case 0
  then have n: "n = []" and d0: "nodeAt [] g = Some d" by simp_all
  show ?case
    unfolding n
  proof (cases "t_dirty d")
    case False
    with c d0 have "worldOf M [] g = Some (t_world d)"
      unfolding coherent_nodeAt by blast
    with False d0 show "\<exists>m g1. WorldMatrix M [] g = Some (m, g1) \<and> worldOf M [] g = Some m \<and>
                coherent M g1 \<and> sameLocals M g g1 \<and>
                (\<exists>d1. nodeAt [] g1 = Some d1 \<and> \<not> t_dirty d1)"
      using c by (simp add: WorldMatrix_nodeAt [OF d0] sameLocals_refl)
  next
    case True
    let ?m = "mx_Mult M (mx_Identity M) (LocalMatrix M d)"
    have m: "worldOf M [] g = Some ?m"
      using d0 by (subst worldOf_nodeAt) simp
    have "coherent M (modify [] (store ?m) g)"
      using c m by (intro store_coherent) auto
    with True m d0 sameLocals_store [of M g "[]" ?m] nodeAt_store [of "[]" "[]" ?m g]
    show "\<exists>m g1. WorldMatrix M [] g = Some (m, g1) \<and> worldOf M [] g = Some m \<and>
                coherent M g1 \<and> sameLocals M g g1 \<and>
                (\<exists>d1. nodeAt [] g1 = Some d1 \<and> \<not> t_dirty d1)"
      by (simp add: WorldMatrix_nodeAt [OF d0])
  qed
next
  case (Suc l)
  then have n: "n \<noteq> []" by auto
  show ?case
  proof (cases "t_dirty d")
    case False
    with c Suc(3) show ?thesis
      unfolding coherent_nodeAt
      by (auto simp: WorldMatrix_nodeAt [OF Suc(3)] sameLocals_refl)
  next
    case True
    from nodeAt_parent [OF Suc(3) n] obtain pd where pd: "nodeAt (butlast n) g = Some pd"
      by blast
    from Suc(2) have "l = length (butlast n)" by simp
    from Suc(1) [OF this pd] obtain pm g1 pd1 where
      r: "WorldMatrix M (butlast n) g = Some (pm, g1)" and
      w: "worldOf M (butlast n) g = Some pm" and
      c1: "coherent M g1" and s1: "sameLocals M g g1" and
      p1: "nodeAt (butlast n) g1 = Some pd1" "\<not> t_dirty pd1"
      by blast
    let ?m = "mx_Mult M pm (LocalMatrix M d)"
    have m: "worldOf M n g = Some ?m"
      using n Suc(3) w by (subst worldOf_nodeAt) simp
    with sameLocals_worldOf [OF s1] have m1: "worldOf M n g1 = Some ?m" by simp
    have c2: "coherent M (modify n (store ?m) g1)"
      using c1 m1 p1 by (intro store_coherent) auto
    from s1 Suc(3) obtain d1 where d1: "nodeAt n g1 = Some d1"
      by (auto simp: sameLocals_def dest!: spec [of _ n])
    have s2: "sameLocals M g (modify n (store ?m) g1)"
      by (rule sameLocals_trans [OF s1 sameLocals_store])
    from True n r m c2 s2 d1 show ?thesis
      by (auto simp: WorldMatrix_nodeAt [OF Suc(3)] nodeAt_store)
  qed
qed

lemma writeLocal_coherent:
  assumes c: "coherent M g"
  shows "coherent M (modify n (writeLocal h) g)"
  unfolding coherent_nodeAt
proof (intro allI impI)
  let ?g = "modify n (writeLocal h) g"
  fix k d
  assume a: "nodeAt k ?g = Some d \<and> \<not> t_dirty d"
  then have o: "take (length n) k \<noteq> n" and d: "nodeAt k g = Some d"
    by (auto simp: nodeAt_writeLocal split: if_splits)
  from c d a have 1: "worldOf M k g = Some (t_world d)" and
    2: "k \<noteq> [] \<longrightarrow> (\<exists>pd. nodeAt (butlast k) g = Some pd \<and> \<not> t_dirty pd)"
    unfolding coherent_nodeAt by blast+
  have pre: "take (length n) (take j k) \<noteq> n" for j
  proof
    assume e: "take (length n) (take j k) = n"
    then have "length (take (length n) (take j k)) = length n" by simp
    then have "length n \<le> j" by simp
    with e have "take (length n) k = n" by (simp add: min_def)
    with o show False by simp
  qed
  have "worldOf M k ?g = worldOf M k g"
    by (rule worldOf_cong) (simp only: nodeAt_writeLocal pre if_False)
  moreover have "nodeAt (butlast k) ?g = nodeAt (butlast k) g"
    unfolding butlast_conv_take by (simp only: nodeAt_writeLocal pre if_False)
  ultimately show "worldOf M k ?g = Some (t_world d) \<and>
        (k \<noteq> [] \<longrightarrow> (\<exists>pd. nodeAt (butlast k) ?g = Some pd \<and> \<not> t_dirty pd))"
    using 1 2 by simp
qed

lemma apply_edit_coherent: "coherent M g \<Longrightarrow> coherent M (apply_edit M e g)"
proof (cases e)
  case (ReadWorld n)
  assume c: "coherent M g"
  show ?thesis
  proof (cases "nodeAt n g")
    case None
    then have "WorldMatrix M n g = None"
      by (subst WorldMatrix.simps) (simp add: nodeAt_def)
    with c ReadWorld show ?thesis by simp
  next
    case (Some d)
    from WorldMatrix_coherent [OF c Some] c ReadWorld show ?thesis by auto
  qed
qed (simp_all add: SetLocalPosition_def SetLocalScale_def SetLocalRotation_def
       writeLocal_coherent)

lemma apply_edits_coherent: "coherent M g \<Longrightarrow> coherent M (apply_edits M es g)"
  unfolding apply_edits_def
  by (induction es arbitrary: g) (simp_all add: apply_edit_coherent)

lemma allDirty_transformOf: "allDirty g \<Longrightarrow> t_dirty (transformOf g)"
  by (cases g) simp

lemma nodeAt_allDirty: "allDirty g \<Longrightarrow> nodeAt k g = Some d \<Longrightarrow> t_dirty d"
  by (induction k g rule: subtree.induct)
     (auto simp: nodeAt_def list_all_length allDirty_transformOf split: if_splits)

lemma allDirty_coherent: "allDirty g \<Longrightarrow> coherent M g"
  unfolding coherent_nodeAt by (auto dest: nodeAt_allDirty)


text \<open>
  C8. On the model of the transforms that the spec describes: in a graph that keeps the
  cache discipline (every graph as construction leaves it does, by
  \<open>allDirty_coherent\<close>), after any finite sequence of writes of local positions,
  scales and rotations and of reads of world matrices anywhere in the tree, with
  nothing else between the writes and the read, \<open>WorldMatrix\<close> of a node \<open>N\<close> returns
  the identity times the local matrix of \<open>N\<close> when \<open>N\<close> is the root, and otherwise the
  matrix that \<open>WorldMatrix\<close> of the parent of \<open>N\<close> returns (read before or after the
  read of \<open>N\<close>) times the local matrix of \<open>N\<close>.
\<close>

theorem world_matrix_is_parent_times_local:
  assumes c: "coherent M g0" and s: "subtree n (apply_edits M es g0) = Some node"
  shows "\<exists>m g1. WorldMatrix M n (apply_edits M es g0) = Some (m, g1) \<and>
           (n = [] \<longrightarrow> m = mx_Mult M (mx_Identity M) (LocalMatrix M (transformOf node))) \<and>
           (n \<noteq> [] \<longrightarrow>
              (\<exists>pm g2. WorldMatrix M (butlast n) (apply_edits M es g0) = Some (pm, g2) \<and>
                        m = mx_Mult M pm (LocalMatrix M (transformOf node))) \<and>
              (\<exists>pm g2. WorldMatrix M (butlast n) g1 = Some (pm, g2) \<and>
                        m = mx_Mult M pm (LocalMatrix M (transformOf node))))"
proof -
  let ?g = "apply_edits M es g0"
  let ?L = "LocalMatrix M (transformOf node)"
  have cg: "coherent M ?g" by (rule apply_edits_coherent [OF c])
  from s have d: "nodeAt n ?g = Some (transformOf node)" by (simp add: nodeAt_def)
  from WorldMatrix_coherent [OF cg d] obtain m g1 where
    r: "WorldMatrix M n ?g = Some (m, g1)" and w: "worldOf M n ?g = Some m" and
    c1: "coherent M g1" and s1: "sameLocals M ?g g1"
    by blast
  have 1: "m = mx_Mult M (mx_Identity M) ?L" if "n = []"
    using w d that by (subst (asm) worldOf_nodeAt) simp
  have 2: "\<exists>pm g2. WorldMatrix M (butlast n) ?g = Some (pm, g2) \<and> m = mx_Mult M pm ?L"
    and 3: "\<exists>pm g2. WorldMatrix M (butlast n) g1 = Some (pm, g2) \<and> m = mx_Mult M pm ?L"
    if n: "n \<noteq> []"
  proof -
    from nodeAt_parent [OF d n] obtain pd where pd: "nodeAt (butlast n) ?g = Some pd"
      by blast
    from WorldMatrix_coherent [OF cg pd] obtain pm g2 where
      p: "WorldMatrix M (butlast n) ?g = Some (pm, g2)" and
      pw: "worldOf M (butlast n) ?g = Some pm"
      by blast
    from w d n pw have m: "m = mx_Mult M pm ?L"
      by (subst (asm) worldOf_nodeAt) simp
    with p show "\<exists>pm g2. WorldMatrix M (butlast n) ?g = Some (pm, g2) \<and> m = mx_Mult M pm ?L"
      by blast
    from s1 pd obtain pd1 where pd1: "nodeAt (butlast n) g1 = Some pd1"
      by (auto simp: sameLocals_def dest!: spec [of _ "butlast n"])
    from WorldMatrix_coherent [OF c1 pd1] obtain pm1 g3 where
      p1: "WorldMatrix M (butlast n) g1 = Some (pm1, g3)" and
      pw1: "worldOf M (butlast n) g1 = Some pm1"
      by blast
    from pw pw1 sameLocals_worldOf [OF s1, of "butlast n"] have "pm1 = pm" by simp
    with p1 m show "\<exists>pm g2. WorldMatrix M (butlast n) g1 = Some (pm, g2) \<and> m = mx_Mult M pm ?L"
      by blast
  qed
  from r 1 2 3 show ?thesis by blast
qed

theorem world_matrix_is_parent_times_local_witness:
  "(case WorldMatrix affine [0, 0] (apply_edits affine exampleEdits exampleGraph) of
      Some (m, g1) \<Rightarrow>
        m = (2, 18) \<and>
        (case WorldMatrix affine [0] (apply_edits affine exampleEdits exampleGraph) of
           Some (pm, g2) \<Rightarrow> pm = (2, 12) \<and> m = mx_Mult affine pm (1, 3)
         | None \<Rightarrow> False)
    | None \<Rightarrow> False)"
proof -
  let ?g = "apply_edits affine exampleEdits exampleGraph"
  let ?node = "Graph ((freshNode 3)\<lparr>t_world := (1, 6)\<rparr>) []"
  have a: "allDirty exampleGraph"
    by (simp add: exampleGraph_def freshNode_def)
  have s: "subtree [0, 0] ?g = Some ?node"
    by code_simp
  have l: "LocalMatrix affine (transformOf ?node) = (1, 3)"
    by (simp add: LocalMatrix_def affine_def freshNode_def)
  from world_matrix_is_parent_times_local [OF allDirty_coherent [OF a] s] l
  obtain m g1 pm g2 where
    r: "WorldMatrix affine [0, 0] ?g = Some (m, g1)" and
    p: "WorldMatrix affine [0] ?g = Some (pm, g2)" and
    m: "m = mx_Mult affine pm (1, 3)"
    by auto
  have "case WorldMatrix affine [0] ?g of Some pg \<Rightarrow> fst pg = (2, 12) | None \<Rightarrow> False"
    by code_simp
  with p have pm: "pm = (2, 12)" by simp
  with m have "m = (2, 18)" by (simp add: affine_def)
  with pm m show ?thesis
    by (simp only: r p option.case prod.case)
qed

end
